theory Spec2Isabelle
  imports Complex_Main "HOL-Library.Word"
begin

section \<open>Constants manager (runtime/ConstantsManager.cpp)\<close>

text \<open>
  \<^verbatim>\<open>ConstantValue\<close> is \<^verbatim>\<open>std::variant<int64_t, double, std::string>\<close>. The two 64-bit
  alternatives are kept as their 64-bit patterns: the manager only stores and returns
  them.
\<close>

datatype ConstantValue =
    IntValue "64 word"
  | DoubleValue "64 word"
  | StringValue string

text \<open>
  The class has two fields: the indexed vector and the name-to-index hash map. Indices
  are C++ \<^verbatim>\<open>int\<close>.
\<close>

record ConstantsManager =
  m_constants :: "ConstantValue list"
  m_nameToIndex :: "string \<rightharpoonup> int"

definition ConstantsManager_init :: ConstantsManager where
  "ConstantsManager_init = \<lparr> m_constants = [], m_nameToIndex = Map.empty \<rparr>"

text \<open>
  \<^verbatim>\<open>static_cast<int>(m_constants.size())\<close>: a \<^verbatim>\<open>size_t\<close> narrowed to 32 bits and read as
  two's complement.
\<close>

definition size_to_int :: "nat \<Rightarrow> int" where
  "size_to_int n = (int n + 2 ^ 31) mod 2 ^ 32 - 2 ^ 31"

text \<open>
  The three overloads of \<^verbatim>\<open>addConstant\<close> have the same body; the argument is converted to
  the variant on assignment, so one function on \<^typ>\<open>ConstantValue\<close> covers them. The
  result is the returned index and the manager after the call.
  \<^verbatim>\<open>m_constants[it->second] = value\<close> is \<^verbatim>\<open>std::vector::operator[]\<close>: undefined outside
  the vector, where \<^term>\<open>list_update\<close> leaves the list alone; \<open>ConstantsManager_wf\<close> below
  says the stored indices are inside.
\<close>

definition addConstant :: "ConstantsManager \<Rightarrow> string \<Rightarrow> ConstantValue \<Rightarrow> int \<times> ConstantsManager" where
  "addConstant m name v =
     (case m_nameToIndex m name of
        Some i \<Rightarrow> (i, m\<lparr> m_constants := (m_constants m)[nat i := v] \<rparr>)
      | None \<Rightarrow>
          (let index = size_to_int (length (m_constants m))
           in (index, m\<lparr> m_constants := m_constants m @ [v],
                          m_nameToIndex := (m_nameToIndex m)(name \<mapsto> index) \<rparr>)))"

text \<open>\<^verbatim>\<open>getConstant\<close> throws \<^verbatim>\<open>std::out_of_range\<close> for a bad index: \<open>None\<close>.\<close>

definition getConstant :: "ConstantsManager \<Rightarrow> int \<Rightarrow> ConstantValue option" where
  "getConstant m index =
     (if index < 0 \<or> index \<ge> size_to_int (length (m_constants m)) then None
      else Some (m_constants m ! nat index))"

definition hasConstant :: "ConstantsManager \<Rightarrow> string \<Rightarrow> bool" where
  "hasConstant m name = (m_nameToIndex m name \<noteq> None)"

definition getConstantIndex :: "ConstantsManager \<Rightarrow> string \<Rightarrow> int" where
  "getConstantIndex m name = (case m_nameToIndex m name of Some i \<Rightarrow> i | None \<Rightarrow> -1)"

definition getConstantCount :: "ConstantsManager \<Rightarrow> nat" where
  "getConstantCount m = length (m_constants m)"

definition ConstantsManager_clear :: "ConstantsManager \<Rightarrow> ConstantsManager" where
  "ConstantsManager_clear m = m\<lparr> m_constants := [], m_nameToIndex := Map.empty \<rparr>"

text \<open>
  The representation invariant of the class: every index in the name map points into
  the vector. \<open>ConstantsManager_room\<close> says that one more element still has an index
  that fits \<^verbatim>\<open>int\<close>.
\<close>

definition ConstantsManager_wf :: "ConstantsManager \<Rightarrow> bool" where
  "ConstantsManager_wf m \<longleftrightarrow>
     (\<forall>name i. m_nameToIndex m name = Some i \<longrightarrow> 0 \<le> i \<and> i < int (length (m_constants m)))"

definition ConstantsManager_room :: "ConstantsManager \<Rightarrow> bool" where
  "ConstantsManager_room m \<longleftrightarrow> length (m_constants m) + 1 < 2 ^ 31"

section \<open>Program store (shell/program_manager.cpp)\<close>

text \<open>
  \<^verbatim>\<open>m_lines\<close> is a \<^verbatim>\<open>std::map<int, std::string>\<close>. The auto-numbering fields are C++
  \<^verbatim>\<open>int\<close>s, 32 bits wide. An \<^verbatim>\<open>int\<close> sum or product is the mathematical one while that fits;
  beyond, C++ leaves it undefined and the compiled code keeps the low 32 bits, in two's
  complement. \<open>wrap_int\<close> is that value.
\<close>

definition wrap_int :: "int \<Rightarrow> int" where
  "wrap_int x = (x + 2 ^ 31) mod 2 ^ 32 - 2 ^ 31"

record ProgramManager =
  m_lines :: "int \<rightharpoonup> string"
  m_filename :: string
  m_modified :: bool
  m_autoMode :: bool
  m_autoStart :: int
  m_autoStep :: int
  m_autoCurrentLine :: int

text \<open>The constructor.\<close>

definition ProgramManager_init :: ProgramManager where
  "ProgramManager_init =
     \<lparr> m_lines = Map.empty, m_filename = [], m_modified = False, m_autoMode = False,
       m_autoStart = 10, m_autoStep = 10, m_autoCurrentLine = 10 \<rparr>"

definition isValidLineNumber :: "int \<Rightarrow> bool" where
  "isValidLineNumber lineNumber \<longleftrightarrow> lineNumber > 0 \<and> lineNumber \<le> 65535"

definition setModified :: "ProgramManager \<Rightarrow> bool \<Rightarrow> ProgramManager" where
  "setModified pm modified = pm\<lparr> m_modified := modified \<rparr>"

definition deleteLine :: "ProgramManager \<Rightarrow> int \<Rightarrow> ProgramManager" where
  "deleteLine pm lineNumber =
     (case m_lines pm lineNumber of
        None \<Rightarrow> pm
      | Some _ \<Rightarrow> setModified (pm\<lparr> m_lines := (m_lines pm)(lineNumber := None) \<rparr>) True)"

definition getLine :: "ProgramManager \<Rightarrow> int \<Rightarrow> string" where
  "getLine pm lineNumber = (case m_lines pm lineNumber of Some code \<Rightarrow> code | None \<Rightarrow> [])"

definition hasLine :: "ProgramManager \<Rightarrow> int \<Rightarrow> bool" where
  "hasLine pm lineNumber \<longleftrightarrow> m_lines pm lineNumber \<noteq> None"

text \<open>
  \<^verbatim>\<open>std::string::find_first_not_of\<close> and \<^verbatim>\<open>find_last_not_of\<close>: the position of the first
  (last) character that is not in the given set, \<open>None\<close> for \<^verbatim>\<open>npos\<close>.
\<close>

fun find_first_not_of :: "string \<Rightarrow> string \<Rightarrow> nat option" where
  "find_first_not_of [] chars = None"
| "find_first_not_of (c # s) chars =
     (if c \<in> set chars then map_option Suc (find_first_not_of s chars) else Some 0)"

definition find_last_not_of :: "string \<Rightarrow> string \<Rightarrow> nat option" where
  "find_last_not_of s chars =
     (case find_first_not_of (rev s) chars of
        None \<Rightarrow> None
      | Some k \<Rightarrow> Some (length s - 1 - k))"

text \<open>\<^verbatim>\<open>npos\<close> is the largest \<^verbatim>\<open>size_t\<close>, and \<^verbatim>\<open>size_t\<close> arithmetic is modulo \<open>2 ^ 64\<close>.\<close>

definition npos :: nat where
  "npos = 2 ^ 64 - 1"

definition size_t_of :: "nat option \<Rightarrow> nat" where
  "size_t_of p = (case p of None \<Rightarrow> npos | Some k \<Rightarrow> k)"

text \<open>\<^verbatim>\<open>end - start + 1\<close> on \<^verbatim>\<open>size_t\<close>.\<close>

definition trim_count :: "nat \<Rightarrow> nat \<Rightarrow> nat" where
  "trim_count end start = (end + 2 ^ 64 - start + 1) mod 2 ^ 64"

text \<open>
  \<^verbatim>\<open>substr(pos, count)\<close>; it throws when \<open>pos\<close> is past the end, which \<^verbatim>\<open>setLine\<close> never
  asks for (\<open>start\<close> is a position of the string).
\<close>

definition substr :: "string \<Rightarrow> nat \<Rightarrow> nat \<Rightarrow> string" where
  "substr s pos count = take count (drop pos s)"

text \<open>The two character sets of \<^verbatim>\<open>setLine\<close>: \<^verbatim>\<open>" \t"\<close> and \<^verbatim>\<open>" \t\r\n"\<close>.\<close>

definition blank_chars :: string where
  "blank_chars = [CHR '' '', CHR 0x09]"

definition blank_or_eol_chars :: string where
  "blank_or_eol_chars = [CHR '' '', CHR 0x09, CHR 0x0D, CHR 0x0A]"

definition setLine :: "ProgramManager \<Rightarrow> int \<Rightarrow> string \<Rightarrow> ProgramManager" where
  "setLine pm lineNumber code =
     (if \<not> isValidLineNumber lineNumber then pm
      else
        (case find_first_not_of code blank_chars of
           None \<Rightarrow> deleteLine pm lineNumber
         | Some start \<Rightarrow>
             (let end = size_t_of (find_last_not_of code blank_or_eol_chars);
                  trimmedCode = substr code start (trim_count end start)
              in if trimmedCode = [] then deleteLine pm lineNumber
                 else
                   (let pm1 = setModified (pm\<lparr> m_lines := (m_lines pm)(lineNumber \<mapsto> trimmedCode) \<rparr>) True
                    in if m_autoMode pm1 \<and> lineNumber \<ge> m_autoCurrentLine pm1
                       then pm1\<lparr> m_autoCurrentLine := wrap_int (lineNumber + m_autoStep pm1) \<rparr>
                       else pm1))))"

text \<open>
  The text that \<^verbatim>\<open>setLine\<close> is meant to keep: the code without its leading spaces and
  tabs and without its trailing spaces, tabs, carriage returns and line feeds.
\<close>

definition trimmed :: "string \<Rightarrow> string" where
  "trimmed code =
     rev (dropWhile (\<lambda>c. c \<in> set blank_or_eol_chars)
            (rev (dropWhile (\<lambda>c. c \<in> set blank_chars) code)))"

text \<open>
  What the description of \<^verbatim>\<open>set(n, text)\<close> says, in its own words: the text trimmed of
  spaces and tabs, on both sides.
\<close>

definition trim_spaces_tabs :: "string \<Rightarrow> string" where
  "trim_spaces_tabs text =
     rev (dropWhile (\<lambda>c. c \<in> set blank_chars)
            (rev (dropWhile (\<lambda>c. c \<in> set blank_chars) text)))"

text \<open>
  The behaviour of \<^verbatim>\<open>set(n, text)\<close> as the description words it: a number outside
  \<open>[1, 65535]\<close> leaves the store unchanged; a text that trims of spaces and tabs to
  nothing deletes line \<open>n\<close>; any other text is stored trimmed, sets the modified flag and
  moves an active auto-numbering cursor that \<open>n\<close> has reached to \<open>n + step\<close>.
\<close>

definition setLine_as_described :: "ProgramManager \<Rightarrow> int \<Rightarrow> string \<Rightarrow> bool" where
  "setLine_as_described pm n text \<longleftrightarrow>
     (if n < 1 \<or> 65535 < n then setLine pm n text = pm
      else if trim_spaces_tabs text = [] then m_lines (setLine pm n text) n = None
      else m_lines (setLine pm n text) n = Some (trim_spaces_tabs text)
           \<and> m_modified (setLine pm n text)
           \<and> (if m_autoMode pm \<and> m_autoCurrentLine pm \<le> n
                then m_autoCurrentLine (setLine pm n text) = n + m_autoStep pm
                else True))"

section \<open>Abstract syntax (as the analyzer and the IR generator read it)\<close>

text \<open>
  The AST and token headers are not among the sources; the node classes are modelled
  from the fields that \<^verbatim>\<open>fasterbasic_semantic.cpp\<close> and \<^verbatim>\<open>fasterbasic_ircode.cpp\<close> read. A class
  hierarchy tested with \<^verbatim>\<open>getType()\<close> or \<^verbatim>\<open>dynamic_cast\<close> is a datatype with one constructor
  per class. Child pointers are never null in a parsed program (the analyzer
  dereferences them unchecked); optional children are \<open>option\<close>s.
\<close>

type_synonym SourceLocation = "int \<times> int"

text \<open>\<^verbatim>\<open>ModularCommands::ReturnType\<close>, the return type tag of a registry function.\<close>

datatype ReturnType = VOID | INT | FLOAT | STRING | BOOL

text \<open>The token kinds that the two files mention.\<close>

datatype TokenType =
    PLUS | MINUS | MULTIPLY | DIVIDE | INT_DIVIDE | MOD | POWER
  | EQUAL | NOT_EQUAL | LESS_THAN | LESS_EQUAL | GREATER_THAN | GREATER_EQUAL
  | AND | OR | XOR | EQV | IMP | NOT
  | TYPE_INT | TYPE_FLOAT | TYPE_DOUBLE | TYPE_STRING
  | UNKNOWN

datatype VariableType = INT | FLOAT | DOUBLE | STRING | UNICODE | VOID | UNKNOWN

text \<open>
  A number literal carries a \<^verbatim>\<open>double\<close>; a literal is finite, so its value is a rational.
  The location is kept on the nodes whose location the analyzer reports.
\<close>

datatype Expression =
    NumberExpression rat
  | StringExpression string
  | VariableExpression string SourceLocation
  | ArrayAccessExpression string "Expression list" SourceLocation
  | FunctionCallExpression string bool "Expression list" SourceLocation
  | RegistryFunctionExpression string ReturnType "Expression list" SourceLocation
  | BinaryExpression TokenType Expression Expression
  | UnaryExpression TokenType Expression
  | IIFExpression Expression Expression Expression

text \<open>
  The arguments of the constructors above, in order: \<open>value\<close>; \<open>value\<close>; \<open>name\<close>,
  \<open>location\<close>; \<open>name\<close>, \<open>indices\<close>, \<open>location\<close>; \<open>name\<close>, \<open>isFN\<close>, \<open>arguments\<close>,
  \<open>location\<close>; \<open>name\<close>, \<open>returnType\<close>, \<open>arguments\<close>, \<open>location\<close>; \<open>op\<close>, \<open>left\<close>,
  \<open>right\<close>; \<open>op\<close>, \<open>expr\<close>; \<open>condition\<close>, \<open>trueValue\<close>, \<open>falseValue\<close>.
\<close>

text \<open>One array of a \<^verbatim>\<open>DIM\<close> statement.\<close>

record ArrayDim =
  dim_name :: string
  dim_dimensions :: "Expression list"
  dim_typeSuffix :: TokenType

text \<open>
  The node types of the expression statements that pass 2 validates; every other
  expression statement falls to the \<^verbatim>\<open>default\<close> of the switch.
\<close>

datatype ExpressionStatementType =
    STMT_COLOR | STMT_WAIT | STMT_WAIT_MS | STMT_PSET | STMT_LINE | STMT_RECT
  | STMT_CIRCLE | STMT_CIRCLEF | STMT_OTHER_EXPRESSION

text \<open>
  The statements. Arguments, in order:
  \<^item> \<open>PrintStatement\<close>, \<open>ConsoleStatement\<close>: the expressions of \<open>items\<close>;
  \<^item> \<open>InputStatement\<close>, \<open>ReadStatement\<close>: \<open>variables\<close>, \<open>location\<close>;
  \<^item> \<open>LetStatement\<close>: \<open>variable\<close>, \<open>indices\<close>, \<open>value\<close>, \<open>location\<close>;
  \<^item> \<open>GotoStatement\<close>, \<open>GosubStatement\<close>, \<open>RestoreStatement\<close>: \<open>isLabel\<close>, \<open>label\<close>,
    \<open>lineNumber\<close>, \<open>location\<close>;
  \<^item> \<open>IfStatement\<close>: \<open>condition\<close>, \<open>hasGoto\<close>, \<open>gotoLine\<close>, \<open>thenStatements\<close>,
    \<open>elseStatements\<close>, \<open>location\<close> (the analyzer does not read \<open>elseIfClauses\<close>);
  \<^item> \<open>ForStatement\<close>: \<open>variable\<close>, \<open>start\<close>, \<open>end\<close>, \<open>step\<close>, \<open>location\<close>;
  \<^item> \<open>ForInStatement\<close>: \<open>variable\<close>, \<open>indexVariable\<close>, \<open>array\<close>, \<open>location\<close>;
  \<^item> \<open>NextStatement\<close>: \<open>variable\<close>, \<open>location\<close>;
  \<^item> \<open>WhileStatement\<close>, \<open>UntilStatement\<close>: \<open>condition\<close>, \<open>location\<close>;
  \<^item> \<open>DoStatement\<close>, \<open>LoopStatement\<close>: the optional \<open>condition\<close>, \<open>location\<close>;
  \<^item> \<open>ExpressionStatement\<close>: node type, \<open>arguments\<close>;
  \<^item> \<open>DimStatement\<close>: \<open>arrays\<close>, \<open>location\<close>;
  \<^item> \<open>DefStatement\<close>: \<open>functionName\<close>, \<open>parameters\<close>, \<open>body\<close>, \<open>location\<close>;
  \<^item> \<open>FunctionStatement\<close>: \<open>functionName\<close>, \<open>parameters\<close>, \<open>returnTypeSuffix\<close>, \<open>location\<close>;
  \<^item> \<open>SubStatement\<close>: \<open>subName\<close>, \<open>parameters\<close>, \<open>location\<close>;
  \<^item> \<open>LabelStatement\<close>: \<open>labelName\<close>, \<open>location\<close>;
  \<^item> \<open>OtherStatement\<close>: a statement that neither pass looks at (\<^verbatim>\<open>END\<close>, \<^verbatim>\<open>REM\<close>,
    \<^verbatim>\<open>RETURN\<close>, \<^verbatim>\<open>EXIT\<close>, \<^verbatim>\<open>CALL\<close>, ...).
  The bodies of \<^verbatim>\<open>FUNCTION\<close> and \<^verbatim>\<open>SUB\<close> are left out: the analyzer never visits them.
  \<^verbatim>\<open>DATA\<close>, \<^verbatim>\<open>CONSTANT\<close> and \<^verbatim>\<open>ON EVENT\<close> statements are outside this model.
\<close>

datatype Statement =
    PrintStatement "Expression list"
  | ConsoleStatement "Expression list"
  | InputStatement "string list" SourceLocation
  | ReadStatement "string list" SourceLocation
  | LetStatement string "Expression list" Expression SourceLocation
  | GotoStatement bool string int SourceLocation
  | GosubStatement bool string int SourceLocation
  | RestoreStatement bool string int SourceLocation
  | IfStatement Expression bool int "Statement list" "Statement list" SourceLocation
  | ForStatement string Expression Expression "Expression option" SourceLocation
  | ForInStatement string string Expression SourceLocation
  | NextStatement string SourceLocation
  | WhileStatement Expression SourceLocation
  | WendStatement SourceLocation
  | RepeatStatement SourceLocation
  | UntilStatement Expression SourceLocation
  | DoStatement "Expression option" SourceLocation
  | LoopStatement "Expression option" SourceLocation
  | ExpressionStatement ExpressionStatementType "Expression list"
  | DimStatement "ArrayDim list" SourceLocation
  | DefStatement string "string list" Expression SourceLocation
  | FunctionStatement string "string list" TokenType SourceLocation
  | SubStatement string "string list" SourceLocation
  | LabelStatement string SourceLocation
  | OtherStatement

record ProgramLine =
  lineNumber :: int
  statements :: "Statement list"
  location :: SourceLocation

text \<open>A \<^verbatim>\<open>Program\<close> is its vector of lines.\<close>

type_synonym Program = "ProgramLine list"

record CompilerOptions =
  opt_arrayBase :: int
  opt_unicodeMode :: bool
  opt_errorTracking :: bool
  opt_cancellableLoops :: bool

section \<open>Semantic analyzer (src/fasterbasic_semantic.h, src/fasterbasic_semantic.cpp)\<close>

subsection \<open>Symbol table\<close>

record VariableSymbol =
  var_name :: string
  var_type :: VariableType
  isDeclared :: bool
  isUsed :: bool
  firstUse :: SourceLocation

record ArraySymbol =
  arr_name :: string
  arr_type :: VariableType
  dimensions :: "int list"
  arr_isDeclared :: bool
  arr_declaration :: SourceLocation
  totalSize :: int

text \<open>\<open>body\<close> is a borrowed pointer into the AST, null for \<^verbatim>\<open>FUNCTION\<close> and \<^verbatim>\<open>SUB\<close>.\<close>

record FunctionSymbol =
  fn_name :: string
  parameters :: "string list"
  returnType :: VariableType
  definition_loc :: SourceLocation
  body :: "Expression option"

record LineNumberSymbol =
  ln_lineNumber :: int
  ln_programLineIndex :: nat
  ln_references :: "SourceLocation list"

record LabelSymbol =
  lbl_name :: string
  labelId :: int
  lbl_programLineIndex :: nat
  lbl_definition :: SourceLocation
  lbl_references :: "SourceLocation list"

record ConstantSymbol =
  const_value :: ConstantValue
  const_index :: int

text \<open>
  The tables are hash maps. \<open>variables\<close> is kept as an association list (a key occurs
  once), because \<^verbatim>\<open>checkUnusedVariables\<close> walks it. The data segment belongs to the
  \<^verbatim>\<open>DATA\<close> statements, which are outside this model.
\<close>

record SymbolTable =
  variables :: "(string \<times> VariableSymbol) list"
  arrays :: "string \<rightharpoonup> ArraySymbol"
  functions' :: "string \<rightharpoonup> FunctionSymbol"
  lineNumbers :: "int \<rightharpoonup> LineNumberSymbol"
  labels :: "string \<rightharpoonup> LabelSymbol"
  constants :: "string \<rightharpoonup> ConstantSymbol"
  nextLabelId :: int
  arrayBase :: int
  unicodeMode :: bool
  errorTracking :: bool
  cancellableLoops :: bool
  eventsUsed :: bool

text \<open>The default member initialisers: \<^verbatim>\<open>SymbolTable()\<close>.\<close>

definition SymbolTable_new :: SymbolTable where
  "SymbolTable_new =
     \<lparr> variables = [], arrays = Map.empty, functions' = Map.empty, lineNumbers = Map.empty,
       labels = Map.empty, constants = Map.empty, nextLabelId = 10000, arrayBase = 1,
       unicodeMode = False, errorTracking = True, cancellableLoops = True,
       eventsUsed = False \<rparr>"

subsection \<open>Errors, warnings and the analyzer's state\<close>

datatype SemanticErrorType =
    UNDEFINED_LINE | UNDEFINED_LABEL | DUPLICATE_LABEL | UNDEFINED_VARIABLE
  | UNDEFINED_ARRAY | UNDEFINED_FUNCTION | ARRAY_NOT_DECLARED | ARRAY_REDECLARED
  | FUNCTION_REDECLARED | TYPE_MISMATCH | WRONG_DIMENSION_COUNT | INVALID_ARRAY_INDEX
  | CONTROL_FLOW_MISMATCH | NEXT_WITHOUT_FOR | WEND_WITHOUT_WHILE | UNTIL_WITHOUT_REPEAT
  | LOOP_WITHOUT_DO | FOR_WITHOUT_NEXT | WHILE_WITHOUT_WEND | DO_WITHOUT_LOOP
  | REPEAT_WITHOUT_UNTIL | RETURN_WITHOUT_GOSUB | DUPLICATE_LINE_NUMBER

text \<open>
  A \<^verbatim>\<open>SemanticError\<close> is its type and its location; the message is text built from the
  same statement and is left out. A warning keeps its message.
\<close>

type_synonym SemanticError = "SemanticErrorType \<times> SourceLocation"
type_synonym SemanticWarning = "string \<times> SourceLocation"

text \<open>
  The fields of \<^verbatim>\<open>SemanticAnalyzer\<close>. A \<^verbatim>\<open>std::stack\<close> is a list with its top first.
  \<open>m_builtinFunctions\<close> is filled by the constructor and never changed afterwards. The
  constants manager is only written by \<^verbatim>\<open>CONSTANT\<close> statements and is left out.
\<close>

record SemanticAnalyzer =
  m_symbolTable :: SymbolTable
  m_errors :: "SemanticError list"
  m_warnings :: "SemanticWarning list"
  m_strictMode :: bool
  m_warnUnused :: bool
  m_requireExplicitDim :: bool
  m_cancellableLoops :: bool
  m_forStack :: "(string \<times> SourceLocation) list"
  m_whileStack :: "SourceLocation list"
  m_repeatStack :: "SourceLocation list"
  m_doStack :: "SourceLocation list"
  m_currentLineNumber :: int
  m_builtinFunctions :: "string \<rightharpoonup> int"

definition hardcodedBuiltinFunctions :: "(string \<times> int) list" where
  "hardcodedBuiltinFunctions =
    [(''ABS'', 1), (''SIN'', 1), (''COS'', 1), (''TAN'', 1), (''ATN'', 1), (''SQR'', 1),
     (''INT'', 1), (''SGN'', 1), (''LOG'', 1), (''EXP'', 1), (''RND'', - 1),
     (''TIMER'', 0), (''LEN'', 1), (''ASC'', 1), (''CHR$'', 1), (''STR$'', 1),
     (''VAL'', 1), (''LEFT$'', 2), (''RIGHT$'', 2), (''MID$'', 3), (''INSTR'', - 1),
     (''STRING$'', 2), (''SPACE$'', 1), (''LCASE$'', 1), (''UCASE$'', 1), (''LTRIM$'', 1),
     (''RTRIM$'', 1), (''TRIM$'', 1), (''REVERSE$'', 1), (''EOF'', 1), (''LOC'', 1),
     (''LOF'', 1), (''TEXT_CLEAR'', 0), (''TEXT_CLEAR_REGION'', 4), (''TEXT_PUT'', 5),
     (''TEXT_PUTCHAR'', 5), (''TEXT_SCROLL'', 1), (''TEXT_SET_SIZE'', 2),
     (''TEXT_GET_WIDTH'', 0), (''TEXT_GET_HEIGHT'', 0), (''CHUNKY_CLEAR'', 1),
     (''CHUNKY_PSET'', 4), (''CHUNKY_LINE'', 6), (''CHUNKY_RECT'', 6),
     (''CHUNKY_FILLRECT'', 6), (''CHUNKY_HLINE'', 5), (''CHUNKY_VLINE'', 5),
     (''CHUNKY_GET_WIDTH'', 0), (''CHUNKY_GET_HEIGHT'', 0), (''GFX_CLEAR'', 0),
     (''GFX_LINE'', 6), (''GFX_RECT'', 5), (''GFX_RECT_OUTLINE'', 6), (''GFX_CIRCLE'', 4),
     (''GFX_CIRCLE_OUTLINE'', 5), (''GFX_POINT'', 3), (''COLOR_RGB'', 3),
     (''COLOR_RGBA'', 4), (''COLOR_HSV'', 3), (''FRAME_WAIT'', 0), (''FRAME_COUNT'', 0),
     (''TIME'', 0), (''DELTA_TIME'', 0), (''RANDOM'', 0), (''RANDOM_INT'', 2),
     (''RANDOM_SEED'', 1), (''KEY_PRESSED'', 1), (''KEY_JUST_PRESSED'', 1),
     (''KEY_JUST_RELEASED'', 1), (''KEY_GET_CHAR'', 0), (''KEY_CLEAR_BUFFER'', 0),
     (''MOUSE_X'', 0), (''MOUSE_Y'', 0), (''MOUSE_GRID_X'', 0), (''MOUSE_GRID_Y'', 0),
     (''MOUSE_BUTTON'', 1), (''MOUSE_BUTTON_PRESSED'', 1), (''MOUSE_BUTTON_RELEASED'', 1),
     (''MOUSE_WHEEL_X'', 0), (''MOUSE_WHEEL_Y'', 0), (''SPRITE_LOAD'', 1),
     (''SPRITE_LOAD_BUILTIN'', 1), (''DRAWINTOSPRITE'', 2), (''ENDDRAWINTOSPRITE'', 0),
     (''DRAWTOFILE'', 3), (''ENDDRAWTOFILE'', 0), (''DRAWTOTILESET'', 4),
     (''DRAWTILE'', 1), (''ENDDRAWTOTILESET'', 0), (''SPRITE_SHOW'', 3),
     (''SPRITE_HIDE'', 1), (''SPRITE_TRANSFORM'', 6), (''SPRITE_TINT'', 2),
     (''SPRITE_UNLOAD'', 1), (''LAYER_SET_VISIBLE'', 2), (''LAYER_SET_ALPHA'', 2),
     (''LAYER_SET_ORDER'', 2), (''DISPLAY_WIDTH'', 0), (''DISPLAY_HEIGHT'', 0),
     (''CELL_WIDTH'', 0), (''CELL_HEIGHT'', 0), (''SOUND_LOAD'', 1),
     (''SOUND_LOAD_BUILTIN'', 1), (''SOUND_PLAY'', 2), (''SOUND_STOP'', 1),
     (''SOUND_UNLOAD'', 1), (''SYNTH_NOTE'', 3), (''SYNTH_FREQUENCY'', 3),
     (''SYNTH_SET_INSTRUMENT'', 1), (''ASSET_INIT'', 2), (''ASSET_SHUTDOWN'', 0),
     (''ASSET_IS_INITIALIZED'', 0), (''ASSET_LOAD'', 1), (''ASSET_LOAD_FILE'', 2),
     (''ASSET_LOAD_BUILTIN'', 2), (''ASSET_UNLOAD'', 1), (''ASSET_IS_LOADED'', 1),
     (''ASSET_IMPORT'', 3), (''ASSET_IMPORT_DIR'', 2), (''ASSET_EXPORT'', 2),
     (''ASSET_DELETE'', 1), (''ASSET_GET_SIZE'', 1), (''ASSET_GET_TYPE'', 1),
     (''ASSET_GET_NAME'', 1), (''ASSET_EXISTS'', 1), (''ASSET_GET_COUNT'', 1),
     (''ASSET_CLEAR_CACHE'', 0), (''ASSET_GET_CACHE_SIZE'', 0),
     (''ASSET_GET_CACHED_COUNT'', 0), (''ASSET_SET_MAX_CACHE'', 1),
     (''ASSET_GET_HIT_RATE'', 0), (''ASSET_GET_DB_SIZE'', 0), (''ASSET_GET_ERROR'', 0),
     (''ASSET_CLEAR_ERROR'', 0), (''TILEMAP_INIT'', 2), (''TILEMAP_SHUTDOWN'', 0),
     (''TILEMAP_CREATE'', 4), (''TILEMAP_DESTROY'', 1), (''TILEMAP_GET_WIDTH'', 1),
     (''TILEMAP_GET_HEIGHT'', 1), (''TILESET_LOAD'', 5), (''TILESET_DESTROY'', 1),
     (''TILESET_GET_COUNT'', 1), (''TILEMAP_CREATE_LAYER'', 1),
     (''TILEMAP_DESTROY_LAYER'', 1), (''TILEMAP_LAYER_SET_MAP'', 2),
     (''TILEMAP_LAYER_SET_TILESET'', 2), (''TILEMAP_LAYER_SET_PARALLAX'', 3),
     (''TILEMAP_LAYER_SET_VISIBLE'', 2), (''TILEMAP_LAYER_SET_Z_ORDER'', 2),
     (''TILEMAP_SET_TILE'', 4), (''TILEMAP_GET_TILE'', 3), (''TILEMAP_FILL_RECT'', 6),
     (''TILEMAP_CLEAR'', 1), (''TILEMAP_SET_CAMERA'', 2), (''TILEMAP_MOVE_CAMERA'', 2),
     (''TILEMAP_GET_CAMERA_X'', 0), (''TILEMAP_GET_CAMERA_Y'', 0),
     (''TILEMAP_SET_ZOOM'', 1), (''TILEMAP_CAMERA_SHAKE'', 2), (''TILEMAP_UPDATE'', 1),
     (''PARTICLE_INIT'', 1), (''PARTICLE_SHUTDOWN'', 0), (''PARTICLE_IS_READY'', 0),
     (''PARTICLE_EXPLODE'', 4), (''PARTICLE_EXPLODE_ADV'', 7), (''PARTICLE_CLEAR'', 0),
     (''PARTICLE_PAUSE'', 0), (''PARTICLE_RESUME'', 0), (''PARTICLE_GET_COUNT'', 0)]"

text \<open>
  The constructor: the hard-coded table, then the registry's commands (name and required
  parameter count) that the table does not have, then the predefined constants. The
  registry and the list of predefined constants come from outside this file and are
  parameters.
\<close>

definition loadFromCommandRegistry ::
  "(string \<times> int) list \<Rightarrow> (string \<rightharpoonup> int) \<Rightarrow> (string \<rightharpoonup> int)" where
  "loadFromCommandRegistry registry table =
     fold (\<lambda>(name, paramCount) t. if t name = None then t(name \<mapsto> paramCount) else t)
       registry table"

definition SemanticAnalyzer_new ::
  "(string \<times> int) list \<Rightarrow> (string \<rightharpoonup> ConstantSymbol) \<Rightarrow> SemanticAnalyzer" where
  "SemanticAnalyzer_new registry predefined =
     \<lparr> m_symbolTable = SymbolTable_new\<lparr> constants := predefined \<rparr>,
       m_errors = [], m_warnings = [],
       m_strictMode = False, m_warnUnused = True, m_requireExplicitDim = True,
       m_cancellableLoops = True,
       m_forStack = [], m_whileStack = [], m_repeatStack = [], m_doStack = [],
       m_currentLineNumber = 0,
       m_builtinFunctions = loadFromCommandRegistry registry (map_of hardcodedBuiltinFunctions) \<rparr>"

definition error ::
  "SemanticErrorType \<Rightarrow> SourceLocation \<Rightarrow> SemanticAnalyzer \<Rightarrow> SemanticAnalyzer" where
  "error t loc a = a\<lparr> m_errors := m_errors a @ [(t, loc)] \<rparr>"

definition warning :: "string \<Rightarrow> SourceLocation \<Rightarrow> SemanticAnalyzer \<Rightarrow> SemanticAnalyzer" where
  "warning message loc a = a\<lparr> m_warnings := m_warnings a @ [(message, loc)] \<rparr>"

subsection \<open>Types from names and suffixes\<close>

text \<open>\<^verbatim>\<open>name.length() > n && name.substr(name.length() - n) == suffix\<close>, with \<open>n\<close> the suffix's length.\<close>

definition has_suffix :: "string \<Rightarrow> string \<Rightarrow> bool" where
  "has_suffix name suffix \<longleftrightarrow>
     length name > length suffix \<and> drop (length name - length suffix) name = suffix"

definition stringType :: "SymbolTable \<Rightarrow> VariableType" where
  "stringType st = (if unicodeMode st then UNICODE else STRING)"

definition inferTypeFromSuffix :: "SymbolTable \<Rightarrow> TokenType \<Rightarrow> VariableType" where
  "inferTypeFromSuffix st suffix =
     (case suffix of
        TYPE_INT \<Rightarrow> VariableType.INT
      | TYPE_FLOAT \<Rightarrow> FLOAT
      | TYPE_DOUBLE \<Rightarrow> DOUBLE
      | TYPE_STRING \<Rightarrow> stringType st
      | _ \<Rightarrow> VariableType.UNKNOWN)"

definition inferTypeFromName :: "SymbolTable \<Rightarrow> string \<Rightarrow> VariableType" where
  "inferTypeFromName st name =
     (if name = [] then FLOAT
      else if has_suffix name ''_STRING'' then stringType st
      else if has_suffix name ''_INT'' then VariableType.INT
      else if has_suffix name ''_DOUBLE'' then DOUBLE
      else if last name = CHR ''$'' then stringType st
      else if last name = CHR ''%'' then VariableType.INT
      else if last name = CHR ''!'' then FLOAT
      else if last name = CHR ''#'' then DOUBLE
      else FLOAT)"

definition isNumericType :: "VariableType \<Rightarrow> bool" where
  "isNumericType t \<longleftrightarrow> t = VariableType.INT \<or> t = FLOAT \<or> t = DOUBLE"

definition promoteTypes :: "VariableType \<Rightarrow> VariableType \<Rightarrow> VariableType" where
  "promoteTypes left right =
     (if left = UNICODE \<or> right = UNICODE then UNICODE
      else if left = STRING \<or> right = STRING then STRING
      else if left = DOUBLE \<or> right = DOUBLE then DOUBLE
      else if left = FLOAT \<or> right = FLOAT then FLOAT
      else if left = VariableType.INT \<or> right = VariableType.INT then VariableType.INT
      else FLOAT)"

definition checkTypeCompatibility ::
  "VariableType \<Rightarrow> VariableType \<Rightarrow> SourceLocation \<Rightarrow> SemanticAnalyzer \<Rightarrow> SemanticAnalyzer" where
  "checkTypeCompatibility expected actual loc a =
     (if expected = VariableType.UNKNOWN \<or> actual = VariableType.UNKNOWN then a
      else if (expected = STRING \<or> expected = UNICODE) \<noteq> (actual = STRING \<or> actual = UNICODE)
      then error TYPE_MISMATCH loc a
      else a)"

subsection \<open>Built-in functions\<close>

definition isBuiltinFunction :: "SemanticAnalyzer \<Rightarrow> string \<Rightarrow> bool" where
  "isBuiltinFunction a name \<longleftrightarrow> m_builtinFunctions a name \<noteq> None"

definition getBuiltinArgCount :: "SemanticAnalyzer \<Rightarrow> string \<Rightarrow> int" where
  "getBuiltinArgCount a name = (case m_builtinFunctions a name of Some n \<Rightarrow> n | None \<Rightarrow> 0)"

definition builtinIntFunctions :: "string list" where
  "builtinIntFunctions =
    [''TEXT_GET_WIDTH'', ''TEXT_GET_HEIGHT'', ''CHUNKY_GET_WIDTH'', ''CHUNKY_GET_HEIGHT'',
     ''COLOR_RGB'', ''COLOR_RGBA'', ''COLOR_HSV'', ''FRAME_COUNT'', ''RANDOM_INT'',
     ''KEY_PRESSED'', ''KEY_JUST_PRESSED'', ''KEY_JUST_RELEASED'', ''KEY_GET_CHAR'',
     ''MOUSE_X'', ''MOUSE_Y'', ''MOUSE_GRID_X'', ''MOUSE_GRID_Y'', ''MOUSE_BUTTON'',
     ''MOUSE_BUTTON_PRESSED'', ''MOUSE_BUTTON_RELEASED'', ''SPRITE_LOAD'',
     ''SPRITE_LOAD_BUILTIN'', ''DRAWINTOSPRITE'', ''DRAWTOFILE'', ''ENDDRAWTOFILE'',
     ''DRAWTOTILESET'', ''DRAWTILE'', ''ENDDRAWTOTILESET'', ''DISPLAY_WIDTH'',
     ''DISPLAY_HEIGHT'', ''CELL_WIDTH'', ''CELL_HEIGHT'', ''SOUND_LOAD'',
     ''SOUND_LOAD_BUILTIN'', ''MUSIC_IS_PLAYING'', ''TILEMAP_INIT'', ''TILEMAP_CREATE'',
     ''TILEMAP_GET_WIDTH'', ''TILEMAP_GET_HEIGHT'', ''TILESET_LOAD'',
     ''TILESET_GET_COUNT'', ''TILEMAP_CREATE_LAYER'', ''TILEMAP_GET_TILE'',
     ''PARTICLE_INIT'', ''PARTICLE_IS_READY'', ''PARTICLE_EXPLODE'',
     ''PARTICLE_EXPLODE_ADV'', ''PARTICLE_GET_COUNT'', ''ASSET_INIT'',
     ''ASSET_IS_INITIALIZED'', ''ASSET_LOAD'', ''ASSET_LOAD_FILE'', ''ASSET_LOAD_BUILTIN'',
     ''ASSET_IS_LOADED'', ''ASSET_IMPORT'', ''ASSET_IMPORT_DIR'', ''ASSET_EXPORT'',
     ''ASSET_DELETE'', ''ASSET_GET_SIZE'', ''ASSET_GET_TYPE'', ''ASSET_EXISTS'',
     ''ASSET_GET_COUNT'', ''ASSET_GET_CACHE_SIZE'', ''ASSET_GET_CACHED_COUNT'',
     ''ASSET_GET_DB_SIZE'']"

definition builtinFloatFunctions :: "string list" where
  "builtinFloatFunctions =
    [''TIME'', ''DELTA_TIME'', ''RANDOM'', ''MOUSE_WHEEL_X'', ''MOUSE_WHEEL_Y'',
     ''TILEMAP_GET_CAMERA_X'', ''TILEMAP_GET_CAMERA_Y'', ''ASSET_GET_HIT_RATE'']"

definition builtinVoidPrefixes :: "string list" where
  "builtinVoidPrefixes =
    [''TEXT_'', ''CHUNKY_'', ''GFX_'', ''SPRITE_'', ''LAYER_'', ''SOUND_'', ''MUSIC_'',
     ''SYNTH_'', ''TILEMAP_'', ''TILESET_'', ''PARTICLE_'', ''ASSET_'']"

definition builtinVoidFunctions :: "string list" where
  "builtinVoidFunctions =
    [''FRAME_WAIT'', ''RANDOM_SEED'', ''KEY_CLEAR_BUFFER'']"

text \<open>
  \<^verbatim>\<open>getBuiltinReturnType\<close>, test after test in the order of the source:
  \<^verbatim>\<open>name.find(p) == 0\<close> says that \<open>p\<close> is a prefix of the name. A built-in has a
  non-empty name, so \<^verbatim>\<open>name.back()\<close> is its last character.
\<close>

definition getBuiltinReturnType :: "SemanticAnalyzer \<Rightarrow> string \<Rightarrow> VariableType" where
  "getBuiltinReturnType a name =
     (if \<not> isBuiltinFunction a name then VariableType.UNKNOWN
      else if name \<noteq> [] \<and> last name = CHR ''$'' then stringType (m_symbolTable a)
      else if name = ''LEN'' \<or> name = ''ASC'' then VariableType.INT
      else if name \<in> set builtinIntFunctions then VariableType.INT
      else if name \<in> set builtinFloatFunctions then FLOAT
      else if (\<exists>p\<in>set builtinVoidPrefixes. take (length p) name = p)
              \<or> name \<in> set builtinVoidFunctions then VariableType.INT
      else if name = ''ASSET_GET_NAME'' \<or> name = ''ASSET_GET_ERROR'' then STRING
      else FLOAT)"

subsection \<open>Symbol table management\<close>

text \<open>
  \<^verbatim>\<open>lookupVariable\<close> returns a pointer into the table or null, and may add an entry: a
  scalar declared with \<^verbatim>\<open>DIM\<close> sits in the array table with no dimensions and is copied
  to the variables on first lookup.
\<close>

definition lookupVariable ::
  "string \<Rightarrow> SemanticAnalyzer \<Rightarrow> VariableSymbol option \<times> SemanticAnalyzer" where
  "lookupVariable name a =
     (case map_of (variables (m_symbolTable a)) name of
        Some symb \<Rightarrow> (Some symb, a)
      | None \<Rightarrow>
          (case arrays (m_symbolTable a) name of
             None \<Rightarrow> (None, a)
           | Some arr \<Rightarrow>
               if dimensions arr = [] then
                 (let symb = \<lparr> var_name = name, var_type = arr_type arr, isDeclared = True,
                              isUsed = False, firstUse = arr_declaration arr \<rparr>
                  in (Some symb,
                      a\<lparr> m_symbolTable := (m_symbolTable a)
                            \<lparr> variables := variables (m_symbolTable a) @ [(name, symb)] \<rparr> \<rparr>))
               else (None, a)))"

definition declareVariable ::
  "string \<Rightarrow> VariableType \<Rightarrow> SourceLocation \<Rightarrow> bool \<Rightarrow> SemanticAnalyzer \<Rightarrow> SemanticAnalyzer" where
  "declareVariable name t loc declared a =
     (case map_of (variables (m_symbolTable a)) name of
        Some symb \<Rightarrow> a
      | None \<Rightarrow>
          a\<lparr> m_symbolTable := (m_symbolTable a)
                \<lparr> variables := variables (m_symbolTable a) @
                     [(name, \<lparr> var_name = name, var_type = t, isDeclared = declared,
                                isUsed = False, firstUse = loc \<rparr>)] \<rparr> \<rparr>)"

text \<open>\<^verbatim>\<open>sym->isUsed = true\<close> on the entry of \<open>name\<close>.\<close>

definition markUsed :: "string \<Rightarrow> SemanticAnalyzer \<Rightarrow> SemanticAnalyzer" where
  "markUsed name a =
     a\<lparr> m_symbolTable := (m_symbolTable a)
           \<lparr> variables :=
                map (\<lambda>(k, symb). if k = name then (k, symb\<lparr> isUsed := True \<rparr>) else (k, symb))
                  (variables (m_symbolTable a)) \<rparr> \<rparr>"

definition useVariable :: "string \<Rightarrow> SourceLocation \<Rightarrow> SemanticAnalyzer \<Rightarrow> SemanticAnalyzer" where
  "useVariable name loc a =
     (case lookupVariable name a of
        (Some symb, a1) \<Rightarrow> markUsed name a1
      | (None, a1) \<Rightarrow>
          markUsed name (declareVariable name (inferTypeFromName (m_symbolTable a1) name) loc False a1))"

definition useArray ::
  "string \<Rightarrow> nat \<Rightarrow> SourceLocation \<Rightarrow> SemanticAnalyzer \<Rightarrow> SemanticAnalyzer" where
  "useArray name dimensionCount loc a =
     (if functions' (m_symbolTable a) name \<noteq> None then a
      else
        (case arrays (m_symbolTable a) name of
           None \<Rightarrow> if m_requireExplicitDim a then error ARRAY_NOT_DECLARED loc a else a
         | Some symb \<Rightarrow>
             if dimensionCount \<noteq> length (dimensions symb)
             then error WRONG_DIMENSION_COUNT loc a
             else a))"

text \<open>\<^verbatim>\<open>lineSym->references.push_back(loc)\<close> and its twin for labels.\<close>

definition addLineReference :: "int \<Rightarrow> SourceLocation \<Rightarrow> SemanticAnalyzer \<Rightarrow> SemanticAnalyzer" where
  "addLineReference n loc a =
     (case lineNumbers (m_symbolTable a) n of
        None \<Rightarrow> a
      | Some symb \<Rightarrow>
          a\<lparr> m_symbolTable := (m_symbolTable a)
                \<lparr> lineNumbers := (lineNumbers (m_symbolTable a))
                     (n \<mapsto> symb\<lparr> ln_references := ln_references symb @ [loc] \<rparr>) \<rparr> \<rparr>)"

definition addLabelReference :: "string \<Rightarrow> SourceLocation \<Rightarrow> SemanticAnalyzer \<Rightarrow> SemanticAnalyzer" where
  "addLabelReference name loc a =
     (case labels (m_symbolTable a) name of
        None \<Rightarrow> a
      | Some symb \<Rightarrow>
          a\<lparr> m_symbolTable := (m_symbolTable a)
                \<lparr> labels := (labels (m_symbolTable a))
                     (name \<mapsto> symb\<lparr> lbl_references := lbl_references symb @ [loc] \<rparr>) \<rparr> \<rparr>)"

definition declareLabel ::
  "string \<Rightarrow> nat \<Rightarrow> SourceLocation \<Rightarrow> SemanticAnalyzer \<Rightarrow> SemanticAnalyzer" where
  "declareLabel name programLineIndex loc a =
     (if labels (m_symbolTable a) name \<noteq> None then error DUPLICATE_LABEL loc a
      else
        a\<lparr> m_symbolTable := (m_symbolTable a)
              \<lparr> labels := (labels (m_symbolTable a))
                   (name \<mapsto> \<lparr> lbl_name = name, labelId = nextLabelId (m_symbolTable a),
                               lbl_programLineIndex = programLineIndex, lbl_definition = loc,
                               lbl_references = [] \<rparr>),
                nextLabelId := nextLabelId (m_symbolTable a) + 1 \<rparr> \<rparr>)"

subsection \<open>Expression validation and type inference\<close>

text \<open>
  \<^verbatim>\<open>expr.op >= TokenType::EQUAL && expr.op <= TokenType::GREATER_EQUAL\<close>: the six
  comparison tokens, which the token enumeration lists in one run.
\<close>

definition isComparison :: "TokenType \<Rightarrow> bool" where
  "isComparison op \<longleftrightarrow>
     op \<in> {EQUAL, NOT_EQUAL, LESS_THAN, LESS_EQUAL, GREATER_THAN, GREATER_EQUAL}"

definition binaryResultType :: "TokenType \<Rightarrow> VariableType \<Rightarrow> VariableType \<Rightarrow> VariableType" where
  "binaryResultType op leftType rightType =
     (if (leftType = STRING \<or> rightType = STRING \<or> leftType = UNICODE \<or> rightType = UNICODE)
         \<and> op = PLUS
      then (if leftType = UNICODE \<or> rightType = UNICODE then UNICODE else STRING)
      else if isComparison op then FLOAT
      else if op = TokenType.AND \<or> op = TokenType.OR then FLOAT
      else promoteTypes leftType rightType)"

definition registryReturnType :: "SymbolTable \<Rightarrow> ReturnType \<Rightarrow> VariableType option" where
  "registryReturnType st rt =
     (case rt of
        ReturnType.INT \<Rightarrow> Some VariableType.INT
      | ReturnType.FLOAT \<Rightarrow> Some FLOAT
      | ReturnType.STRING \<Rightarrow> Some (stringType st)
      | ReturnType.BOOL \<Rightarrow> Some VariableType.INT
      | ReturnType.VOID \<Rightarrow> None)"

text \<open>
  \<^verbatim>\<open>inferExpressionType\<close> with the functions it dispatches to: the result is the type
  and the analyzer after the side effects (errors, variables declared and used).
  \<^verbatim>\<open>validateExpression\<close> is the same call with the type dropped. An \<^verbatim>\<open>IIF\<close> falls to the
  \<^verbatim>\<open>default\<close> of the switch.
\<close>

fun inferExpressionType :: "Expression \<Rightarrow> SemanticAnalyzer \<Rightarrow> VariableType \<times> SemanticAnalyzer" where
  "inferExpressionType (NumberExpression v) a = (FLOAT, a)"
| "inferExpressionType (StringExpression s) a = (stringType (m_symbolTable a), a)"
| "inferExpressionType (VariableExpression name loc) a =
     (case lookupVariable name (useVariable name loc a) of
        (Some symb, a1) \<Rightarrow> (var_type symb, a1)
      | (None, a1) \<Rightarrow> (VariableType.UNKNOWN, a1))"
| "inferExpressionType (ArrayAccessExpression name indices loc) a =
     (case functions' (m_symbolTable a) name of
        Some funcSym \<Rightarrow>
          (returnType funcSym, fold (\<lambda>arg b. snd (inferExpressionType arg b)) indices a)
      | None \<Rightarrow>
          (case arrays (m_symbolTable a) name of
             Some arraySym \<Rightarrow>
               (arr_type arraySym,
                fold (\<lambda>index b.
                        case inferExpressionType index (snd (inferExpressionType index b)) of
                          (indexType, b2) \<Rightarrow>
                            if isNumericType indexType then b2 else error INVALID_ARRAY_INDEX loc b2)
                  indices (useArray name (length indices) loc a))
           | None \<Rightarrow>
               if isBuiltinFunction a name then
                 (getBuiltinReturnType a name,
                  fold (\<lambda>index b. snd (inferExpressionType index b)) indices
                    (if getBuiltinArgCount a name \<ge> 0
                        \<and> int (length indices) \<noteq> getBuiltinArgCount a name
                     then error TYPE_MISMATCH loc a else a))
               else
                 (case fold (\<lambda>index b.
                          case inferExpressionType index (snd (inferExpressionType index b)) of
                            (indexType, b2) \<Rightarrow>
                              if isNumericType indexType then b2 else error INVALID_ARRAY_INDEX loc b2)
                         indices (useArray name (length indices) loc a) of
                    a2 \<Rightarrow>
                      (case arrays (m_symbolTable a2) name of
                         Some arraySym \<Rightarrow> (arr_type arraySym, a2)
                       | None \<Rightarrow> (VariableType.UNKNOWN, a2)))))"
| "inferExpressionType (FunctionCallExpression name isFN arguments loc) a =
     (case fold (\<lambda>arg b. snd (inferExpressionType arg b)) arguments a of
        a1 \<Rightarrow>
          if isFN then
            (case functions' (m_symbolTable a1) name of
               Some symb \<Rightarrow> (returnType symb, a1)
             | None \<Rightarrow> (VariableType.UNKNOWN, error UNDEFINED_FUNCTION loc a1))
          else (FLOAT, a1))"
| "inferExpressionType (RegistryFunctionExpression name rt arguments loc) a =
     (case fold (\<lambda>arg b. snd (inferExpressionType arg b)) arguments a of
        a1 \<Rightarrow>
          (case registryReturnType (m_symbolTable a1) rt of
             Some t \<Rightarrow> (t, a1)
           | None \<Rightarrow> (VariableType.UNKNOWN, error TYPE_MISMATCH loc a1)))"
| "inferExpressionType (BinaryExpression op left right) a =
     (case inferExpressionType left a of
        (leftType, a1) \<Rightarrow>
          (case inferExpressionType right a1 of
             (rightType, a2) \<Rightarrow> (binaryResultType op leftType rightType, a2)))"
| "inferExpressionType (UnaryExpression op e) a =
     (case inferExpressionType e a of
        (exprType, a1) \<Rightarrow> (if op = TokenType.NOT then FLOAT else exprType, a1))"
| "inferExpressionType (IIFExpression c t f) a = (VariableType.UNKNOWN, a)"

definition validateExpression :: "Expression \<Rightarrow> SemanticAnalyzer \<Rightarrow> SemanticAnalyzer" where
  "validateExpression e a = snd (inferExpressionType e a)"

subsection \<open>Pass 2: statement validation\<close>

definition validateGotoStatement ::
  "bool \<Rightarrow> string \<Rightarrow> int \<Rightarrow> SourceLocation \<Rightarrow> SemanticAnalyzer \<Rightarrow> SemanticAnalyzer" where
  "validateGotoStatement isLabel label lineNo loc a =
     (if isLabel then
        (case labels (m_symbolTable a) label of
           None \<Rightarrow> error UNDEFINED_LABEL loc a
         | Some labelSym \<Rightarrow> addLabelReference label loc a)
      else
        (case lineNumbers (m_symbolTable a) lineNo of
           None \<Rightarrow> error UNDEFINED_LINE loc a
         | Some lineSym \<Rightarrow> addLineReference lineNo loc a))"

text \<open>\<^verbatim>\<open>validateGosubStatement\<close> has the same body.\<close>

definition validateGosubStatement ::
  "bool \<Rightarrow> string \<Rightarrow> int \<Rightarrow> SourceLocation \<Rightarrow> SemanticAnalyzer \<Rightarrow> SemanticAnalyzer" where
  "validateGosubStatement isLabel label lineNo loc a =
     (if isLabel then
        (case labels (m_symbolTable a) label of
           None \<Rightarrow> error UNDEFINED_LABEL loc a
         | Some labelSym \<Rightarrow> addLabelReference label loc a)
      else
        (case lineNumbers (m_symbolTable a) lineNo of
           None \<Rightarrow> error UNDEFINED_LINE loc a
         | Some lineSym \<Rightarrow> addLineReference lineNo loc a))"

text \<open>\<^verbatim>\<open>RESTORE\<close> never reports: an unknown target may be a \<^verbatim>\<open>DATA\<close> label.\<close>

definition validateRestoreStatement ::
  "bool \<Rightarrow> string \<Rightarrow> int \<Rightarrow> SourceLocation \<Rightarrow> SemanticAnalyzer \<Rightarrow> SemanticAnalyzer" where
  "validateRestoreStatement isLabel label lineNo loc a =
     (if isLabel then addLabelReference label loc a else a)"

text \<open>One turn of the index loop of \<^verbatim>\<open>validateLetStatement\<close>.\<close>

definition validateLetIndex ::
  "SourceLocation \<Rightarrow> Expression \<Rightarrow> SemanticAnalyzer \<Rightarrow> SemanticAnalyzer" where
  "validateLetIndex loc index a =
     (case inferExpressionType index (validateExpression index a) of
        (indexType, a1) \<Rightarrow>
          if isNumericType indexType then a1 else error INVALID_ARRAY_INDEX loc a1)"

definition validateLetStatement ::
  "string \<Rightarrow> Expression list \<Rightarrow> Expression \<Rightarrow> SourceLocation \<Rightarrow> SemanticAnalyzer \<Rightarrow> SemanticAnalyzer" where
  "validateLetStatement variable indices val loc a =
     (let a1 = fold (validateLetIndex loc) indices a;
          a2 = (if indices \<noteq> [] then useArray variable (length indices) loc a1
                else useVariable variable loc a1);
          a3 = validateExpression val a2;
          (targetType, a4) =
            (if indices \<noteq> [] then
               (case arrays (m_symbolTable a3) variable of
                  Some arraySym \<Rightarrow> (arr_type arraySym, a3)
                | None \<Rightarrow> (VariableType.UNKNOWN, a3))
             else
               (case lookupVariable variable a3 of
                  (Some varSym, b) \<Rightarrow> (var_type varSym, b)
                | (None, b) \<Rightarrow> (VariableType.UNKNOWN, b)));
          (valueType, a5) = inferExpressionType val a4
      in checkTypeCompatibility targetType valueType loc a5)"

definition validateForStatement ::
  "string \<Rightarrow> Expression \<Rightarrow> Expression \<Rightarrow> Expression option \<Rightarrow> SourceLocation \<Rightarrow>
   SemanticAnalyzer \<Rightarrow> SemanticAnalyzer" where
  "validateForStatement variable start end step loc a =
     (let a1 = useVariable variable loc a;
          a2 = validateExpression start a1;
          a3 = validateExpression end a2;
          a4 = (case step of Some s \<Rightarrow> validateExpression s a3 | None \<Rightarrow> a3);
          (startType, a5) = inferExpressionType start a4;
          (endType, a6) = inferExpressionType end a5;
          a7 = (if \<not> isNumericType startType \<or> \<not> isNumericType endType
                then error TYPE_MISMATCH loc a6 else a6)
      in a7\<lparr> m_forStack := (variable, loc) # m_forStack a7 \<rparr>)"

definition validateForInStatement ::
  "string \<Rightarrow> string \<Rightarrow> Expression \<Rightarrow> SourceLocation \<Rightarrow> SemanticAnalyzer \<Rightarrow> SemanticAnalyzer" where
  "validateForInStatement variable indexVariable array loc a =
     (let a1 = useVariable variable loc a;
          a2 = (if indexVariable \<noteq> [] then useVariable indexVariable loc a1 else a1);
          a3 = validateExpression array a2;
          a4 = snd (inferExpressionType array a3)
      in a4\<lparr> m_forStack := (variable, loc) # m_forStack a4 \<rparr>)"

definition validateNextStatement ::
  "string \<Rightarrow> SourceLocation \<Rightarrow> SemanticAnalyzer \<Rightarrow> SemanticAnalyzer" where
  "validateNextStatement variable loc a =
     (case m_forStack a of
        [] \<Rightarrow> error NEXT_WITHOUT_FOR loc a
      | forCtx # rest \<Rightarrow>
          (if variable \<noteq> [] \<and> variable \<noteq> fst forCtx
           then error CONTROL_FLOW_MISMATCH loc a else a)\<lparr> m_forStack := rest \<rparr>)"

definition validateWhileStatement ::
  "Expression \<Rightarrow> SourceLocation \<Rightarrow> SemanticAnalyzer \<Rightarrow> SemanticAnalyzer" where
  "validateWhileStatement condition loc a =
     (let a1 = validateExpression condition a in a1\<lparr> m_whileStack := loc # m_whileStack a1 \<rparr>)"

definition validateWendStatement :: "SourceLocation \<Rightarrow> SemanticAnalyzer \<Rightarrow> SemanticAnalyzer" where
  "validateWendStatement loc a =
     (case m_whileStack a of
        [] \<Rightarrow> error WEND_WITHOUT_WHILE loc a
      | loc0 # rest \<Rightarrow> a\<lparr> m_whileStack := rest \<rparr>)"

definition validateRepeatStatement :: "SourceLocation \<Rightarrow> SemanticAnalyzer \<Rightarrow> SemanticAnalyzer" where
  "validateRepeatStatement loc a = a\<lparr> m_repeatStack := loc # m_repeatStack a \<rparr>"

definition validateUntilStatement ::
  "Expression \<Rightarrow> SourceLocation \<Rightarrow> SemanticAnalyzer \<Rightarrow> SemanticAnalyzer" where
  "validateUntilStatement condition loc a =
     validateExpression condition
       (case m_repeatStack a of
          [] \<Rightarrow> error UNTIL_WITHOUT_REPEAT loc a
        | loc0 # rest \<Rightarrow> a\<lparr> m_repeatStack := rest \<rparr>)"

definition validateDoStatement ::
  "Expression option \<Rightarrow> SourceLocation \<Rightarrow> SemanticAnalyzer \<Rightarrow> SemanticAnalyzer" where
  "validateDoStatement condition loc a =
     (let a1 = (case condition of Some c \<Rightarrow> validateExpression c a | None \<Rightarrow> a)
      in a1\<lparr> m_doStack := loc # m_doStack a1 \<rparr>)"

definition validateLoopStatement ::
  "Expression option \<Rightarrow> SourceLocation \<Rightarrow> SemanticAnalyzer \<Rightarrow> SemanticAnalyzer" where
  "validateLoopStatement condition loc a =
     (let a1 = (case m_doStack a of
                  [] \<Rightarrow> error LOOP_WITHOUT_DO loc a
                | loc0 # rest \<Rightarrow> a\<lparr> m_doStack := rest \<rparr>)
      in case condition of Some c \<Rightarrow> validateExpression c a1 | None \<Rightarrow> a1)"

text \<open>
  \<^verbatim>\<open>validateStatement\<close>: the switch on the node type. \<^verbatim>\<open>DIM\<close>, \<^verbatim>\<open>DEF\<close>, \<^verbatim>\<open>FUNCTION\<close>,
  \<^verbatim>\<open>SUB\<close> and label statements have no case and fall to the \<^verbatim>\<open>default\<close>.
\<close>

fun validateStatement :: "Statement \<Rightarrow> SemanticAnalyzer \<Rightarrow> SemanticAnalyzer" where
  "validateStatement (PrintStatement items) a = fold validateExpression items a"
| "validateStatement (ConsoleStatement items) a = fold validateExpression items a"
| "validateStatement (InputStatement vars loc) a = fold (\<lambda>v. useVariable v loc) vars a"
| "validateStatement (ReadStatement vars loc) a = fold (\<lambda>v. useVariable v loc) vars a"
| "validateStatement (LetStatement variable indices val loc) a =
     validateLetStatement variable indices val loc a"
| "validateStatement (GotoStatement isLabel label lineNo loc) a =
     validateGotoStatement isLabel label lineNo loc a"
| "validateStatement (GosubStatement isLabel label lineNo loc) a =
     validateGosubStatement isLabel label lineNo loc a"
| "validateStatement (RestoreStatement isLabel label lineNo loc) a =
     validateRestoreStatement isLabel label lineNo loc a"
| "validateStatement (IfStatement condition hasGoto gotoLine thenStatements elseStatements loc) a =
     fold (\<lambda>s b. validateStatement s b) elseStatements
       (if hasGoto then
          (case lineNumbers (m_symbolTable (validateExpression condition a)) gotoLine of
             None \<Rightarrow> error UNDEFINED_LINE loc (validateExpression condition a)
           | Some lineSym \<Rightarrow> addLineReference gotoLine loc (validateExpression condition a))
        else fold (\<lambda>s b. validateStatement s b) thenStatements (validateExpression condition a))"
| "validateStatement (ForStatement variable start end step loc) a =
     validateForStatement variable start end step loc a"
| "validateStatement (ForInStatement variable indexVariable array loc) a =
     validateForInStatement variable indexVariable array loc a"
| "validateStatement (NextStatement variable loc) a = validateNextStatement variable loc a"
| "validateStatement (WhileStatement condition loc) a = validateWhileStatement condition loc a"
| "validateStatement (WendStatement loc) a = validateWendStatement loc a"
| "validateStatement (RepeatStatement loc) a = validateRepeatStatement loc a"
| "validateStatement (UntilStatement condition loc) a = validateUntilStatement condition loc a"
| "validateStatement (DoStatement condition loc) a = validateDoStatement condition loc a"
| "validateStatement (LoopStatement condition loc) a = validateLoopStatement condition loc a"
| "validateStatement (ExpressionStatement t arguments) a =
     (if t = STMT_OTHER_EXPRESSION then a else fold validateExpression arguments a)"
| "validateStatement (DimStatement arrs loc) a = a"
| "validateStatement (DefStatement functionName params fbody loc) a = a"
| "validateStatement (FunctionStatement functionName params suffix loc) a = a"
| "validateStatement (SubStatement subName params loc) a = a"
| "validateStatement (LabelStatement labelName loc) a = a"
| "validateStatement OtherStatement a = a"

definition validateProgramLine :: "ProgramLine \<Rightarrow> SemanticAnalyzer \<Rightarrow> SemanticAnalyzer" where
  "validateProgramLine line a =
     fold validateStatement (statements line) (a\<lparr> m_currentLineNumber := lineNumber line \<rparr>)"

definition pass2_validate :: "Program \<Rightarrow> SemanticAnalyzer \<Rightarrow> SemanticAnalyzer" where
  "pass2_validate program a = fold validateProgramLine program a"

subsection \<open>Pass 1: declaration collection\<close>

definition collectLineNumber :: "nat \<times> ProgramLine \<Rightarrow> SemanticAnalyzer \<Rightarrow> SemanticAnalyzer" where
  "collectLineNumber il a =
     (case il of (i, line) \<Rightarrow>
        if lineNumber line > 0 then
          (if lineNumbers (m_symbolTable a) (lineNumber line) \<noteq> None
           then error DUPLICATE_LINE_NUMBER (location line) a
           else
             a\<lparr> m_symbolTable := (m_symbolTable a)
                   \<lparr> lineNumbers := (lineNumbers (m_symbolTable a))
                        (lineNumber line \<mapsto>
                           \<lparr> ln_lineNumber = lineNumber line, ln_programLineIndex = i,
                             ln_references = [] \<rparr>) \<rparr> \<rparr>)
        else a)"

definition collectLineNumbers :: "Program \<Rightarrow> SemanticAnalyzer \<Rightarrow> SemanticAnalyzer" where
  "collectLineNumbers program a = fold collectLineNumber (enumerate 0 program) a"

definition collectLabel :: "nat \<Rightarrow> Statement \<Rightarrow> SemanticAnalyzer \<Rightarrow> SemanticAnalyzer" where
  "collectLabel i stmt a =
     (case stmt of LabelStatement labelName loc \<Rightarrow> declareLabel labelName i loc a | _ \<Rightarrow> a)"

definition collectLabels :: "Program \<Rightarrow> SemanticAnalyzer \<Rightarrow> SemanticAnalyzer" where
  "collectLabels program a =
     fold (\<lambda>(i, line) b. fold (collectLabel i) (statements line) b) (enumerate 0 program) a"

text \<open>
  \<^verbatim>\<open>static_cast<int>\<close> of a \<^verbatim>\<open>double\<close> truncates towards zero. When the truncated value is
  not an \<^verbatim>\<open>int\<close> the conversion is undefined in C++; the conversion instruction of the
  compiled code then yields the smallest \<^verbatim>\<open>int\<close>. The sizes are C++ \<^verbatim>\<open>int\<close>s: \<open>size + 1\<close> and
  the product \<open>totalSize\<close> are \<^verbatim>\<open>int\<close> operations, with the value \<open>wrap_int\<close> of the result.
\<close>

definition static_cast_int :: "rat \<Rightarrow> int" where
  "static_cast_int v =
     (if - (2 ^ 31) - 1 < v \<and> v < 2 ^ 31 then (if v \<ge> 0 then \<lfloor>v\<rfloor> else \<lceil>v\<rceil>)
      else - (2 ^ 31))"

text \<open>One turn of the loop over the dimensions of an array: the accumulator is
  \<open>(dimensions, totalSize, analyzer)\<close>.\<close>

definition processDimension ::
  "SourceLocation \<Rightarrow> Expression \<Rightarrow> int list \<times> int \<times> SemanticAnalyzer \<Rightarrow>
   int list \<times> int \<times> SemanticAnalyzer" where
  "processDimension loc dimExpr acc =
     (case acc of (dims, totalSz, a) \<Rightarrow>
        (case dimExpr of
           NumberExpression v \<Rightarrow>
             (if static_cast_int v \<le> 0
              then (dims @ [1 + 1], wrap_int (totalSz * (1 + 1)), error INVALID_ARRAY_INDEX loc a)
              else (dims @ [wrap_int (static_cast_int v + 1)],
                    wrap_int (totalSz * wrap_int (static_cast_int v + 1)), a))
         | _ \<Rightarrow>
             (dims @ [11], wrap_int (totalSz * 11),
              warning ''Non-constant array dimension; assuming 10'' loc a)))"

text \<open>One turn of the loop over the arrays of a \<^verbatim>\<open>DIM\<close> statement.\<close>

definition processArrayDim ::
  "SourceLocation \<Rightarrow> ArrayDim \<Rightarrow> SemanticAnalyzer \<Rightarrow> SemanticAnalyzer" where
  "processArrayDim loc arrayDim a =
     (if arrays (m_symbolTable a) (dim_name arrayDim) \<noteq> None
      then error ARRAY_REDECLARED loc a
      else
        (case fold (processDimension loc) (dim_dimensions arrayDim) ([], 1, a) of
           (dims, totalSz, a1) \<Rightarrow>
             a1\<lparr> m_symbolTable := (m_symbolTable a1)
                    \<lparr> arrays := (arrays (m_symbolTable a1))
                         (dim_name arrayDim \<mapsto>
                            \<lparr> arr_name = dim_name arrayDim,
                              arr_type =
                                (if inferTypeFromSuffix (m_symbolTable a1) (dim_typeSuffix arrayDim)
                                      = VariableType.UNKNOWN
                                 then inferTypeFromName (m_symbolTable a1) (dim_name arrayDim)
                                 else inferTypeFromSuffix (m_symbolTable a1) (dim_typeSuffix arrayDim)),
                              dimensions = dims, arr_isDeclared = True,
                              arr_declaration = loc, totalSize = totalSz \<rparr>) \<rparr> \<rparr>))"

definition processDimStatement ::
  "ArrayDim list \<Rightarrow> SourceLocation \<Rightarrow> SemanticAnalyzer \<Rightarrow> SemanticAnalyzer" where
  "processDimStatement arrs loc a = fold (processArrayDim loc) arrs a"

definition processDefStatement ::
  "string \<Rightarrow> string list \<Rightarrow> Expression \<Rightarrow> SourceLocation \<Rightarrow> SemanticAnalyzer \<Rightarrow> SemanticAnalyzer" where
  "processDefStatement functionName params fbody loc a =
     (if functions' (m_symbolTable a) functionName \<noteq> None then error FUNCTION_REDECLARED loc a
      else
        a\<lparr> m_symbolTable := (m_symbolTable a)
              \<lparr> functions' := (functions' (m_symbolTable a))
                   (functionName \<mapsto>
                      \<lparr> fn_name = functionName, parameters = params,
                        returnType = inferTypeFromName (m_symbolTable a) functionName,
                        definition_loc = loc, body = Some fbody \<rparr>) \<rparr> \<rparr>)"

text \<open>The symbol of a \<^verbatim>\<open>FUNCTION\<close> or \<^verbatim>\<open>SUB\<close> keeps the default location and a null body.\<close>

definition processFunctionStatement ::
  "string \<Rightarrow> string list \<Rightarrow> TokenType \<Rightarrow> SourceLocation \<Rightarrow> SemanticAnalyzer \<Rightarrow> SemanticAnalyzer" where
  "processFunctionStatement functionName params suffix loc a =
     (if functions' (m_symbolTable a) functionName \<noteq> None then error FUNCTION_REDECLARED loc a
      else
        a\<lparr> m_symbolTable := (m_symbolTable a)
              \<lparr> functions' := (functions' (m_symbolTable a))
                   (functionName \<mapsto>
                      \<lparr> fn_name = functionName, parameters = params,
                        returnType = inferTypeFromSuffix (m_symbolTable a) suffix,
                        definition_loc = (0, 0), body = None \<rparr>) \<rparr> \<rparr>)"

definition processSubStatement ::
  "string \<Rightarrow> string list \<Rightarrow> SourceLocation \<Rightarrow> SemanticAnalyzer \<Rightarrow> SemanticAnalyzer" where
  "processSubStatement subName params loc a =
     (if functions' (m_symbolTable a) subName \<noteq> None then error FUNCTION_REDECLARED loc a
      else
        a\<lparr> m_symbolTable := (m_symbolTable a)
              \<lparr> functions' := (functions' (m_symbolTable a))
                   (subName \<mapsto>
                      \<lparr> fn_name = subName, parameters = params, returnType = VariableType.VOID,
                        definition_loc = (0, 0), body = None \<rparr>) \<rparr> \<rparr>)"

definition collectDim :: "Statement \<Rightarrow> SemanticAnalyzer \<Rightarrow> SemanticAnalyzer" where
  "collectDim stmt a =
     (case stmt of DimStatement arrs loc \<Rightarrow> processDimStatement arrs loc a | _ \<Rightarrow> a)"

definition collectDef :: "Statement \<Rightarrow> SemanticAnalyzer \<Rightarrow> SemanticAnalyzer" where
  "collectDef stmt a =
     (case stmt of
        DefStatement functionName params fbody loc \<Rightarrow>
          processDefStatement functionName params fbody loc a
      | _ \<Rightarrow> a)"

definition collectFunctionOrSub :: "Statement \<Rightarrow> SemanticAnalyzer \<Rightarrow> SemanticAnalyzer" where
  "collectFunctionOrSub stmt a =
     (case stmt of
        FunctionStatement functionName params suffix loc \<Rightarrow>
          processFunctionStatement functionName params suffix loc a
      | SubStatement subName params loc \<Rightarrow> processSubStatement subName params loc a
      | _ \<Rightarrow> a)"

text \<open>The three collectors walk the statements of every line, in order.\<close>

definition collectStatements ::
  "(Statement \<Rightarrow> SemanticAnalyzer \<Rightarrow> SemanticAnalyzer) \<Rightarrow> Program \<Rightarrow> SemanticAnalyzer \<Rightarrow> SemanticAnalyzer" where
  "collectStatements f program a = fold (\<lambda>line b. fold f (statements line) b) program a"

definition pass1_collectDeclarations :: "Program \<Rightarrow> SemanticAnalyzer \<Rightarrow> SemanticAnalyzer" where
  "pass1_collectDeclarations program a =
     collectStatements collectFunctionOrSub program
       (collectStatements collectDef program
          (collectStatements collectDim program
             (collectLabels program (collectLineNumbers program a))))"

subsection \<open>Final validation and the entry point\<close>

definition validateControlFlow :: "SemanticAnalyzer \<Rightarrow> SemanticAnalyzer" where
  "validateControlFlow a =
     (let a1 = (case m_forStack a of [] \<Rightarrow> a | ctx # rest \<Rightarrow> error FOR_WITHOUT_NEXT (snd ctx) a);
          a2 = (case m_whileStack a1 of [] \<Rightarrow> a1 | loc # rest \<Rightarrow> error WHILE_WITHOUT_WEND loc a1);
          a3 = (case m_repeatStack a2 of [] \<Rightarrow> a2 | loc # rest \<Rightarrow> error REPEAT_WITHOUT_UNTIL loc a2)
      in a3)"

definition checkUnusedVariables :: "SemanticAnalyzer \<Rightarrow> SemanticAnalyzer" where
  "checkUnusedVariables a =
     fold (\<lambda>(k, symb) b.
             if \<not> isUsed symb \<and> isDeclared symb
             then warning (''Variable '' @ [CHR 0x27] @ var_name symb @ [CHR 0x27]
                           @ '' declared but never used'') (firstUse symb) b
             else b)
       (variables (m_symbolTable a)) a"

text \<open>
  \<^verbatim>\<open>analyze\<close>: the result is the returned flag and the analyzer after the call. The
  constants survive the reset of the symbol table; the \<^verbatim>\<open>FOR\<close>, \<^verbatim>\<open>WHILE\<close> and \<^verbatim>\<open>REPEAT\<close>
  stacks are emptied.
\<close>

definition analyze ::
  "SemanticAnalyzer \<Rightarrow> Program \<Rightarrow> CompilerOptions \<Rightarrow> bool \<times> SemanticAnalyzer" where
  "analyze a program options =
     (let a0 = a\<lparr> m_errors := [], m_warnings := [],
                  m_symbolTable := SymbolTable_new
                    \<lparr> constants := constants (m_symbolTable a),
                      arrayBase := opt_arrayBase options,
                      unicodeMode := opt_unicodeMode options,
                      errorTracking := opt_errorTracking options,
                      cancellableLoops := opt_cancellableLoops options \<rparr>,
                  m_cancellableLoops := opt_cancellableLoops options,
                  m_forStack := [], m_whileStack := [], m_repeatStack := [] \<rparr>;
          a1 = pass1_collectDeclarations program a0;
          a2 = pass2_validate program a1;
          a3 = validateControlFlow a2;
          a4 = (if m_warnUnused a3 then checkUnusedVariables a3 else a3)
      in (m_errors a4 = [], a4))"

subsection \<open>A fresh analyzer and the default options\<close>

text \<open>
  An analyzer as its constructor leaves it, with an empty registry and no predefined
  constant, and the default \<^verbatim>\<open>CompilerOptions\<close>.
\<close>

definition fresh_analyzer :: SemanticAnalyzer where
  "fresh_analyzer = SemanticAnalyzer_new [] Map.empty"

definition default_options :: CompilerOptions where
  "default_options =
     \<lparr> opt_arrayBase = 1, opt_unicodeMode = False, opt_errorTracking = True,
       opt_cancellableLoops = True \<rparr>"

text \<open>A program line with one statement, located at the start of its line.\<close>

definition line1 :: "int \<Rightarrow> Statement \<Rightarrow> ProgramLine" where
  "line1 n stmt = \<lparr> lineNumber = n, statements = [stmt], location = (n, 1) \<rparr>"

subsection \<open>What pass 2 leaves alone\<close>

text \<open>
  The relation between the analyzer before and after a step of pass 2 that the proofs
  below carry along: no reported error is lost, the set of known line numbers is the
  same, and every label keeps its id.
\<close>

definition pass2_frame :: "SemanticAnalyzer \<Rightarrow> SemanticAnalyzer \<Rightarrow> bool" where
  "pass2_frame a b \<longleftrightarrow>
     set (m_errors a) \<subseteq> set (m_errors b)
     \<and> dom (lineNumbers (m_symbolTable b)) = dom (lineNumbers (m_symbolTable a))
     \<and> (\<forall>name. map_option labelId (labels (m_symbolTable b) name)
                = map_option labelId (labels (m_symbolTable a) name))"

text \<open>The line numbers of a program that pass 1 enters in the table: the positive ones.\<close>

definition program_line_numbers :: "Program \<Rightarrow> int set" where
  "program_line_numbers program = {n \<in> lineNumber ` set program. n > 0}"


text \<open>
  The line targets that pass 2 checks in a statement, each with the location that an error
  for it carries: the target of a \<^verbatim>\<open>GOTO\<close> to a line number, the target of an
  \<^verbatim>\<open>IF ... THEN line\<close>, and the targets in the statements of the \<^verbatim>\<open>THEN\<close> and \<^verbatim>\<open>ELSE\<close> branches
  that \<^verbatim>\<open>validateIfStatement\<close> visits (it skips the \<^verbatim>\<open>THEN\<close> statements of an
  \<^verbatim>\<open>IF ... THEN line\<close>).
\<close>

fun gotoTargets :: "Statement \<Rightarrow> (int \<times> SourceLocation) list" where
  "gotoTargets (GotoStatement isLabel label lineNo loc) = (if isLabel then [] else [(lineNo, loc)])"
| "gotoTargets (IfStatement condition hasGoto gotoLine thenStatements elseStatements loc) =
     (if hasGoto then [(gotoLine, loc)] else concat (map gotoTargets thenStatements))
     @ concat (map gotoTargets elseStatements)"
| "gotoTargets stmt = []"

section \<open>The IR generator\<close>

text \<open>
  \<^verbatim>\<open>fasterbasic_ircode.cpp\<close>. Its header is not among the sources: the opcodes are the
  ones that the modelled functions emit, an operand is the variant that \<^verbatim>\<open>emit\<close> is called
  with (nothing, an \<^verbatim>\<open>int\<close>, a \<^verbatim>\<open>double\<close> or a string), and the generator is the record of the
  members that these functions read and write.
\<close>

datatype IROpcode =
    NOP | PUSH_INT | PUSH_DOUBLE | PUSH_STRING
  | LOAD_VAR | STORE_VAR | LOAD_CONST | LOAD_ARRAY | STORE_ARRAY
  | ADD | SUB | MUL | DIV | IDIV | POW | MOD
  | EQ | NE | LT | LE | GT | GE
  | AND | OR | XOR | EQV | IMP | NOT | NEG
  | STR_CONCAT | UNICODE_CONCAT
  | CALL_BUILTIN | CALL_FUNCTION
  | LABEL | JUMP | WHILE_START | WHILE_END

datatype IROperand = NoOperand | IntOperand int | DoubleOperand rat | StringOperand string

record IRInstruction =
  opcode :: IROpcode
  operand1 :: IROperand
  operand2 :: IROperand
  operand3 :: IROperand
  sourceLineNumber :: int
  blockId :: int
  arrayElementTypeSuffix :: string
  isLoopJump :: bool

record IRCode =
  instructions :: "IRInstruction list"

text \<open>A \<^verbatim>\<open>DEF FN\<close> kept for inlining, and the entry of a \<^verbatim>\<open>FUNCTION\<close> in \<^verbatim>\<open>m_functions\<close>.\<close>

record UserFunction =
  uf_name :: string
  uf_parameters :: "string list"
  uf_body :: Expression

record FunctionDef =
  fd_name :: string
  fd_parameters :: "string list"
  fd_returnType :: TokenType

text \<open>
  The control flow graph is not among the sources. The generator sees it through the two
  methods that \<^verbatim>\<open>generateGoto\<close> calls, which are the fields of the record; what they return
  is left open.
\<close>

record ControlFlowGraph =
  getBlockForLineOrNext :: "int \<Rightarrow> int"
  isBackEdge :: "int \<Rightarrow> int \<Rightarrow> bool"

text \<open>
  The generator. \<^verbatim>\<open>m_cfg\<close> and \<^verbatim>\<open>m_symbols\<close> are the graph and the table that \<^verbatim>\<open>generate\<close> was called
  with (\<^verbatim>\<open>getLabelForLineNumber\<close> and the \<^verbatim>\<open>+\<close> case of \<^verbatim>\<open>generateExpression\<close> dereference them
  unchecked, so they are not null where a statement is lowered). \<^verbatim>\<open>m_whileLoopLabels\<close> is a vector used as a stack: its back is the last
  element. The two members that record the source context carry a prime, the analyzer
  having a member of the same name.
\<close>

record IRGenerator =
  m_cfg :: ControlFlowGraph
  m_symbols :: SymbolTable
  m_code :: IRCode
  m_nextLabel :: int
  m_blockLabels :: "int \<rightharpoonup> int"
  m_currentLineNumber' :: int
  m_currentBlockId' :: int
  m_inFunctionInlining :: bool
  m_parameterMap :: "string \<rightharpoonup> string"
  m_userFunctions :: "string \<rightharpoonup> UserFunction"
  m_functions :: "string \<rightharpoonup> FunctionDef"
  m_whileLoopLabels :: "int list"

text \<open>
  The generator where \<^verbatim>\<open>generate\<close> starts to lower the blocks: the members as the
  constructor leaves them, the empty code, the label counter at 1, and an entry of
  \<^verbatim>\<open>m_functions\<close> for every function of the symbol table (\<^verbatim>\<open>DEF FN\<close>, \<^verbatim>\<open>FUNCTION\<close> and \<^verbatim>\<open>SUB\<close>
  alike). \<^verbatim>\<open>generate\<close> then gives a label to every block of the graph, with
  \<^verbatim>\<open>getLabelForBlock\<close>, before it lowers the first statement.
\<close>

definition returnTypeToken :: "VariableType \<Rightarrow> TokenType" where
  "returnTypeToken t =
     (case t of
        VariableType.INT \<Rightarrow> TYPE_INT
      | VariableType.FLOAT \<Rightarrow> TYPE_FLOAT
      | VariableType.DOUBLE \<Rightarrow> TYPE_DOUBLE
      | VariableType.STRING \<Rightarrow> TYPE_STRING
      | _ \<Rightarrow> TokenType.UNKNOWN)"

definition generate_start :: "ControlFlowGraph \<Rightarrow> SymbolTable \<Rightarrow> IRGenerator" where
  "generate_start cfg symbols =
     \<lparr> m_cfg = cfg,
       m_symbols = symbols,
       m_code = \<lparr> instructions = [] \<rparr>,
       m_nextLabel = 1,
       m_blockLabels = Map.empty,
       m_currentLineNumber' = 0,
       m_currentBlockId' = - 1,
       m_inFunctionInlining = False,
       m_parameterMap = Map.empty,
       m_userFunctions = Map.empty,
       m_functions =
         (\<lambda>name. map_option
            (\<lambda>funcSymbol. \<lparr> fd_name = name, fd_parameters = [],
                             fd_returnType = returnTypeToken (returnType funcSymbol) \<rparr>)
            (functions' symbols name)),
       m_whileLoopLabels = [] \<rparr>"

subsection \<open>Helper methods\<close>

definition extractTypeSuffix :: "string \<Rightarrow> string" where
  "extractTypeSuffix name =
     (if name = [] then []
      else if last name \<in> {CHR ''%'', CHR ''#'', CHR ''!'', CHR ''$'', CHR ''&''} then [last name]
      else [])"

definition setSourceContext :: "int \<Rightarrow> int \<Rightarrow> IRGenerator \<Rightarrow> IRGenerator" where
  "setSourceContext line block g =
     g\<lparr> m_currentLineNumber' := line, m_currentBlockId' := block \<rparr>"

text \<open>\<^verbatim>\<open>m_nextLabel++\<close>: the label and the generator after it. The counter is an \<^verbatim>\<open>int\<close>
  that starts at 1; the increment is an \<^verbatim>\<open>int\<close> operation.\<close>

definition allocateLabel :: "IRGenerator \<Rightarrow> int \<times> IRGenerator" where
  "allocateLabel g = (m_nextLabel g, g\<lparr> m_nextLabel := wrap_int (m_nextLabel g + 1) \<rparr>)"

text \<open>
  The four overloads of \<^verbatim>\<open>emit\<close> in one: the operands are the list of the arguments
  after the opcode (at most three), the missing ones stay empty.
\<close>

definition operand_at :: "IROperand list \<Rightarrow> nat \<Rightarrow> IROperand" where
  "operand_at ops i = (if i < length ops then ops ! i else NoOperand)"

definition push_back_instruction :: "IRInstruction \<Rightarrow> IRGenerator \<Rightarrow> IRGenerator" where
  "push_back_instruction instr g =
     g\<lparr> m_code := (m_code g)\<lparr> instructions := instructions (m_code g) @ [instr] \<rparr> \<rparr>"

definition emit :: "IROpcode \<Rightarrow> IROperand list \<Rightarrow> IRGenerator \<Rightarrow> IRGenerator" where
  "emit opc ops g =
     push_back_instruction
       \<lparr> opcode = opc, operand1 = operand_at ops 0, operand2 = operand_at ops 1,
         operand3 = operand_at ops 2, sourceLineNumber = m_currentLineNumber' g,
         blockId = m_currentBlockId' g, arrayElementTypeSuffix = [], isLoopJump = False \<rparr> g"

definition emitLoopJump :: "IROpcode \<Rightarrow> IROperand \<Rightarrow> bool \<Rightarrow> IRGenerator \<Rightarrow> IRGenerator" where
  "emitLoopJump opc op1 isLoop g =
     push_back_instruction
       \<lparr> opcode = opc, operand1 = op1, operand2 = NoOperand, operand3 = NoOperand,
         sourceLineNumber = m_currentLineNumber' g, blockId = m_currentBlockId' g,
         arrayElementTypeSuffix = [], isLoopJump = isLoop \<rparr> g"

text \<open>The instruction that the array cases build by hand, with the type suffix.\<close>

definition emit_array :: "IROpcode \<Rightarrow> string \<Rightarrow> int \<Rightarrow> IRGenerator \<Rightarrow> IRGenerator" where
  "emit_array opc name n g =
     push_back_instruction
       \<lparr> opcode = opc, operand1 = StringOperand name, operand2 = IntOperand n,
         operand3 = NoOperand, sourceLineNumber = m_currentLineNumber' g,
         blockId = m_currentBlockId' g, arrayElementTypeSuffix = extractTypeSuffix name,
         isLoopJump = False \<rparr> g"

text \<open>The label of a block: the one it has, or a new one that it keeps.\<close>

definition getLabelForBlock :: "int \<Rightarrow> IRGenerator \<Rightarrow> int \<times> IRGenerator" where
  "getLabelForBlock block g =
     (case m_blockLabels g block of
        Some blockLabel \<Rightarrow> (blockLabel, g)
      | None \<Rightarrow>
          (case allocateLabel g of
             (newLabel, g1) \<Rightarrow> (newLabel, g1\<lparr> m_blockLabels := (m_blockLabels g1)(block \<mapsto> newLabel) \<rparr>)))"

definition getLabelForLineNumber :: "int \<Rightarrow> IRGenerator \<Rightarrow> int \<times> IRGenerator" where
  "getLabelForLineNumber targetLine g =
     (if getBlockForLineOrNext (m_cfg g) targetLine \<ge> 0
      then getLabelForBlock (getBlockForLineOrNext (m_cfg g) targetLine) g
      else allocateLabel g)"

subsection \<open>Type checking helper\<close>

definition stringFunctionNames :: "string list" where
  "stringFunctionNames =
     [''LEFT$'', ''RIGHT$'', ''MID$'', ''CHR$'', ''STR$'',
      ''LEFT_STRING'', ''RIGHT_STRING'', ''MID_STRING'', ''CHR_STRING'',
      ''STR_STRING'', ''STRING_STRING'', ''SPACE_STRING'', ''LCASE_STRING'',
      ''UCASE_STRING'', ''LTRIM_STRING'', ''RTRIM_STRING'', ''TRIM_STRING'',
      ''REVERSE_STRING'']"

text \<open>\<^verbatim>\<open>!name.empty() && (name.back() == '$' || (name.size() > 7 && name.substr(name.size() - 7) == "_STRING"))\<close>\<close>

definition hasStringSuffix :: "string \<Rightarrow> bool" where
  "hasStringSuffix name \<longleftrightarrow>
     name \<noteq> [] \<and> (last name = CHR ''$'' \<or> has_suffix name ''_STRING'')"

definition isStringType :: "VariableType \<Rightarrow> bool" where
  "isStringType t \<longleftrightarrow> t = VariableType.STRING \<or> t = VariableType.UNICODE"

text \<open>
  \<^verbatim>\<open>isStringExpression\<close>: a chain of \<^verbatim>\<open>dynamic_cast\<close> tests that ends in \<^verbatim>\<open>return false\<close>. An
  array access or a function call whose name is not in the list and has no string suffix
  falls through the remaining tests; there is no test for a registry function, a number
  or a unary expression.
\<close>

fun isStringExpression :: "IRGenerator \<Rightarrow> Expression \<Rightarrow> bool" where
  "isStringExpression g (StringExpression s) = True"
| "isStringExpression g (VariableExpression name loc) =
     (case map_of (variables (m_symbols g)) name of
        Some v \<Rightarrow> isStringType (var_type v)
      | None \<Rightarrow>
          (case arrays (m_symbols g) name of
             Some arr \<Rightarrow> isStringType (arr_type arr)
           | None \<Rightarrow> hasStringSuffix name))"
| "isStringExpression g (ArrayAccessExpression name indices loc) =
     (name \<in> set stringFunctionNames \<or> hasStringSuffix name)"
| "isStringExpression g (FunctionCallExpression name isFN arguments loc) =
     (name \<in> set stringFunctionNames \<or> hasStringSuffix name)"
| "isStringExpression g (BinaryExpression op left right) =
     (if op = TokenType.PLUS then isStringExpression g left \<or> isStringExpression g right
      else False)"
| "isStringExpression g (IIFExpression c trueValue falseValue) =
     (isStringExpression g trueValue \<or> isStringExpression g falseValue)"
| "isStringExpression g (NumberExpression v) = False"
| "isStringExpression g (UnaryExpression op e) = False"
| "isStringExpression g (RegistryFunctionExpression name rt arguments loc) = False"

subsection \<open>Expression code generation\<close>

text \<open>The opcode of a binary operator; for \<^verbatim>\<open>+\<close> it depends on the operands.\<close>

definition plusOpcode :: "IRGenerator \<Rightarrow> Expression \<Rightarrow> Expression \<Rightarrow> IROpcode" where
  "plusOpcode g left right =
     (if isStringExpression g left \<or> isStringExpression g right
      then (if unicodeMode (m_symbols g) then UNICODE_CONCAT else STR_CONCAT)
      else ADD)"

definition binaryOpcode :: "IRGenerator \<Rightarrow> TokenType \<Rightarrow> Expression \<Rightarrow> Expression \<Rightarrow> IROpcode" where
  "binaryOpcode g op left right =
     (case op of
        TokenType.PLUS \<Rightarrow> plusOpcode g left right
      | TokenType.MINUS \<Rightarrow> SUB
      | TokenType.MULTIPLY \<Rightarrow> MUL
      | TokenType.DIVIDE \<Rightarrow> DIV
      | TokenType.INT_DIVIDE \<Rightarrow> IDIV
      | TokenType.POWER \<Rightarrow> POW
      | TokenType.MOD \<Rightarrow> IROpcode.MOD
      | TokenType.EQUAL \<Rightarrow> EQ
      | TokenType.NOT_EQUAL \<Rightarrow> NE
      | TokenType.LESS_THAN \<Rightarrow> LT
      | TokenType.LESS_EQUAL \<Rightarrow> LE
      | TokenType.GREATER_THAN \<Rightarrow> GT
      | TokenType.GREATER_EQUAL \<Rightarrow> GE
      | TokenType.AND \<Rightarrow> IROpcode.AND
      | TokenType.OR \<Rightarrow> IROpcode.OR
      | TokenType.XOR \<Rightarrow> IROpcode.XOR
      | TokenType.EQV \<Rightarrow> IROpcode.EQV
      | TokenType.IMP \<Rightarrow> IROpcode.IMP
      | _ \<Rightarrow> NOP)"

text \<open>A number literal: \<^verbatim>\<open>modf(value, &intpart) == 0.0 && value >= INT_MIN && value <= INT_MAX\<close>.\<close>

definition emitNumber :: "rat \<Rightarrow> IRGenerator \<Rightarrow> IRGenerator" where
  "emitNumber v g =
     (if v = of_int \<lfloor>v\<rfloor> \<and> - (2 ^ 31) \<le> v \<and> v \<le> 2 ^ 31 - 1
      then emit PUSH_INT [IntOperand (static_cast_int v)] g
      else emit PUSH_DOUBLE [DoubleOperand v] g)"

definition emitVariable :: "string \<Rightarrow> IRGenerator \<Rightarrow> IRGenerator" where
  "emitVariable name g =
     (case constants (m_symbols g) name of
        Some constValue \<Rightarrow> emit LOAD_CONST [IntOperand (const_index constValue)] g
      | None \<Rightarrow>
          (case (if m_inFunctionInlining g then m_parameterMap g name else None) of
             Some tempVar \<Rightarrow> emit LOAD_VAR [StringOperand tempVar] g
           | None \<Rightarrow> emit LOAD_VAR [StringOperand name] g))"

text \<open>
  \<^verbatim>\<open>generateExpression\<close> and \<^verbatim>\<open>generateInlinedFunction\<close> call each other, and the body that
  an inlined call lowers is the stored body of the \<^verbatim>\<open>DEF FN\<close>, not a part of the expression
  at hand: nothing in the code bounds the depth of the calls. The model counts calls:
  \<open>generateExpression fuel\<close> is the function with at most \<open>fuel\<close> nested calls of
  \<^verbatim>\<open>generateExpression\<close>, and \<open>None\<close> says that the calls nest deeper. No path of the two
  functions throws, so the function returns exactly when some fuel gives \<open>Some\<close>. The
  expressions of a parsed statement are not null, so the first test of
  \<^verbatim>\<open>generateExpression\<close>, for a null pointer, has no case here.

  \<open>rec\<close> is the recursive call. The loops over the arguments:
\<close>

primrec generateEach ::
  "(Expression \<Rightarrow> IRGenerator \<Rightarrow> IRGenerator option) \<Rightarrow> Expression list \<Rightarrow> IRGenerator
     \<Rightarrow> IRGenerator option" where
  "generateEach rec [] g = Some g"
| "generateEach rec (e # es) g =
     (case rec e g of None \<Rightarrow> None | Some g1 \<Rightarrow> generateEach rec es g1)"

text \<open>
  The loop of \<^verbatim>\<open>generateInlinedFunction\<close> over \<open>i < arguments.size() && i < parameters.size()\<close>,
  that is over the pairs of an argument and its parameter: the argument is lowered, stored
  in the temporary, and the parameter mapped to the temporary.
\<close>

primrec bindArguments ::
  "(Expression \<Rightarrow> IRGenerator \<Rightarrow> IRGenerator option) \<Rightarrow> string \<Rightarrow> (Expression \<times> string) list
     \<Rightarrow> IRGenerator \<Rightarrow> IRGenerator option" where
  "bindArguments rec funcName [] g = Some g"
| "bindArguments rec funcName (ap # rest) g =
     (case rec (fst ap) g of
        None \<Rightarrow> None
      | Some g1 \<Rightarrow>
          bindArguments rec funcName rest
            ((emit STORE_VAR [StringOperand (''__fn_'' @ funcName @ ''_'' @ snd ap)] g1)
               \<lparr> m_parameterMap :=
                   (m_parameterMap g1)(snd ap \<mapsto> ''__fn_'' @ funcName @ ''_'' @ snd ap) \<rparr>))"

definition generateInlinedFunction ::
  "(Expression \<Rightarrow> IRGenerator \<Rightarrow> IRGenerator option) \<Rightarrow> string \<Rightarrow> Expression list \<Rightarrow> IRGenerator
     \<Rightarrow> IRGenerator option" where
  "generateInlinedFunction rec funcName arguments g =
     (case m_userFunctions g funcName of
        None \<Rightarrow> Some (emit PUSH_INT [IntOperand 0] g)
      | Some func \<Rightarrow>
          (case bindArguments rec funcName (zip arguments (uf_parameters func)) g of
             None \<Rightarrow> None
           | Some g1 \<Rightarrow>
               (case rec (uf_body func) (g1\<lparr> m_inFunctionInlining := True \<rparr>) of
                  None \<Rightarrow> None
                | Some g2 \<Rightarrow>
                    Some (g2\<lparr> m_parameterMap := m_parameterMap g,
                              m_inFunctionInlining := m_inFunctionInlining g \<rparr>))))"

text \<open>A call that is not a declared array: a \<^verbatim>\<open>DEF FN\<close> is inlined, a \<^verbatim>\<open>FUNCTION\<close> called,
  anything else is a built-in.\<close>

definition generateCall ::
  "(Expression \<Rightarrow> IRGenerator \<Rightarrow> IRGenerator option) \<Rightarrow> string \<Rightarrow> Expression list \<Rightarrow> IRGenerator
     \<Rightarrow> IRGenerator option" where
  "generateCall rec name arguments g =
     (if m_userFunctions g name \<noteq> None then generateInlinedFunction rec name arguments g
      else
        map_option
          (emit (if m_functions g name \<noteq> None then CALL_FUNCTION else CALL_BUILTIN)
             [StringOperand name, IntOperand (size_to_int (length arguments))])
          (generateEach rec arguments g))"

definition unaryEmit :: "TokenType \<Rightarrow> IRGenerator \<Rightarrow> IRGenerator" where
  "unaryEmit op g =
     (case op of
        TokenType.MINUS \<Rightarrow> emit NEG [] g
      | TokenType.NOT \<Rightarrow> emit IROpcode.NOT [] g
      | TokenType.PLUS \<Rightarrow> g
      | _ \<Rightarrow> emit NOP [] g)"

fun generateExpression_body ::
  "(Expression \<Rightarrow> IRGenerator \<Rightarrow> IRGenerator option) \<Rightarrow> Expression \<Rightarrow> IRGenerator
     \<Rightarrow> IRGenerator option" where
  "generateExpression_body rec (NumberExpression v) g = Some (emitNumber v g)"
| "generateExpression_body rec (StringExpression s) g = Some (emit PUSH_STRING [StringOperand s] g)"
| "generateExpression_body rec (VariableExpression name loc) g = Some (emitVariable name g)"
| "generateExpression_body rec (ArrayAccessExpression name indices loc) g =
     (if arrays (m_symbols g) name \<noteq> None
      then map_option (emit_array LOAD_ARRAY name (size_to_int (length indices)))
             (generateEach rec indices g)
      else generateCall rec name indices g)"
| "generateExpression_body rec (BinaryExpression op left right) g =
     (case rec left g of
        None \<Rightarrow> None
      | Some g1 \<Rightarrow>
          (case rec right g1 of
             None \<Rightarrow> None
           | Some g2 \<Rightarrow> Some (emit (binaryOpcode g2 op left right) [] g2)))"
| "generateExpression_body rec (UnaryExpression op e) g = map_option (unaryEmit op) (rec e g)"
| "generateExpression_body rec (FunctionCallExpression name isFN arguments loc) g =
     generateCall rec name arguments g"
| "generateExpression_body rec (RegistryFunctionExpression name rt arguments loc) g =
     map_option
       (emit CALL_BUILTIN [StringOperand name, IntOperand (size_to_int (length arguments))])
       (generateEach rec arguments g)"
| "generateExpression_body rec (IIFExpression condition trueValue falseValue) g =
     (case rec condition g of
        None \<Rightarrow> None
      | Some g1 \<Rightarrow>
          (case rec trueValue g1 of
             None \<Rightarrow> None
           | Some g2 \<Rightarrow>
               map_option (emit CALL_BUILTIN [StringOperand ''__IIF'', IntOperand 3])
                 (rec falseValue g2)))"

primrec generateExpression :: "nat \<Rightarrow> Expression \<Rightarrow> IRGenerator \<Rightarrow> IRGenerator option" where
  "generateExpression 0 e g = None"
| "generateExpression (Suc fuel) e g = generateExpression_body (generateExpression fuel) e g"

subsection \<open>Statements\<close>

text \<open>\<^verbatim>\<open>DEF FN\<close> emits nothing: the function is stored for its call sites.\<close>

definition generateDef ::
  "string \<Rightarrow> string list \<Rightarrow> Expression \<Rightarrow> int \<Rightarrow> IRGenerator \<Rightarrow> IRGenerator" where
  "generateDef functionName params fbody line g =
     (setSourceContext line (m_currentBlockId' g) g)
       \<lparr> m_userFunctions := (m_userFunctions g)
            (functionName \<mapsto>
               \<lparr> uf_name = functionName, uf_parameters = params, uf_body = fbody \<rparr>) \<rparr>"

text \<open>
  \<^verbatim>\<open>generateGoto\<close>, with the fields \<open>isLabel\<close>, \<open>label\<close> and \<open>lineNumber\<close> of the statement.
  Nothing here looks at the errors of the analysis.
\<close>

definition generateGoto :: "bool \<Rightarrow> string \<Rightarrow> int \<Rightarrow> int \<Rightarrow> IRGenerator \<Rightarrow> IRGenerator" where
  "generateGoto isLabel label targetLine line g0 =
     (let g = setSourceContext line (m_currentBlockId' g0) g0
      in if isLabel then
           (case labels (m_symbols g) label of
              Some labelSym \<Rightarrow> emitLoopJump JUMP (IntOperand (labelId labelSym)) False g
            | None \<Rightarrow>
                (case allocateLabel g of
                   (targetLabel, g1) \<Rightarrow> emitLoopJump JUMP (IntOperand targetLabel) False g1))
         else
           (case getLabelForLineNumber targetLine g of
              (targetLabel, g1) \<Rightarrow>
                emitLoopJump JUMP (IntOperand targetLabel)
                  (line > 0 \<and> targetLine > 0 \<and> isBackEdge (m_cfg g1) line targetLine) g1))"

definition generateLet ::
  "nat \<Rightarrow> string \<Rightarrow> Expression list \<Rightarrow> Expression \<Rightarrow> int \<Rightarrow> IRGenerator \<Rightarrow> IRGenerator option" where
  "generateLet fuel variable indices val line g =
     (case generateExpression fuel val (setSourceContext line (m_currentBlockId' g) g) of
        None \<Rightarrow> None
      | Some g1 \<Rightarrow>
          if indices = [] then Some (emit STORE_VAR [StringOperand variable] g1)
          else map_option (emit_array STORE_ARRAY variable (size_to_int (length indices)))
                 (generateEach (generateExpression fuel) indices g1))"

subsection \<open>The serialization of a condition\<close>

text \<open>
  \<^verbatim>\<open>std::to_string(double)\<close> prints as \<^verbatim>\<open>%f\<close>: the sign, the integer part, a point and six
  decimals, the exact value rounded to nearest, ties to even.
\<close>

fun decimal :: "nat \<Rightarrow> string" where
  "decimal n = (if n < 10 then [''0123456789'' ! n] else decimal (n div 10) @ [''0123456789'' ! (n mod 10)])"

declare decimal.simps [simp del]

definition round_half_even :: "rat \<Rightarrow> nat" where
  "round_half_even x =
     (let n = nat \<lfloor>x\<rfloor>; r = x - of_int \<lfloor>x\<rfloor>
      in if r > 1 / 2 \<or> (r = 1 / 2 \<and> odd n) then n + 1 else n)"

definition to_string_double :: "rat \<Rightarrow> string" where
  "to_string_double v =
     (let scaled = round_half_even (\<bar>v\<bar> * 1000000);
          fraction = decimal (scaled mod 1000000)
      in (if v < 0 then ''-'' else []) @ decimal (scaled div 1000000) @ ''.''
           @ replicate (6 - length fraction) (CHR ''0'') @ fraction)"

text \<open>The two loops that escape the backslashes and then the quotes: every occurrence
  of the character is replaced by the two characters, from left to right.\<close>

fun escape_char :: "char \<Rightarrow> string \<Rightarrow> string" where
  "escape_char c [] = []"
| "escape_char c (x # xs) =
     (if x = c then CHR 0x5C # c # escape_char c xs else x # escape_char c xs)"

definition binaryOperatorText :: "TokenType \<Rightarrow> string" where
  "binaryOperatorText op =
     (case op of
        TokenType.PLUS \<Rightarrow> ''+''
      | TokenType.MINUS \<Rightarrow> ''-''
      | TokenType.MULTIPLY \<Rightarrow> ''*''
      | TokenType.DIVIDE \<Rightarrow> ''/''
      | TokenType.INT_DIVIDE \<Rightarrow> ''//''
      | TokenType.MOD \<Rightarrow> ''%''
      | TokenType.POWER \<Rightarrow> ''^''
      | TokenType.EQUAL \<Rightarrow> ''==''
      | TokenType.NOT_EQUAL \<Rightarrow> ''~=''
      | TokenType.LESS_THAN \<Rightarrow> ''<''
      | TokenType.LESS_EQUAL \<Rightarrow> ''<=''
      | TokenType.GREATER_THAN \<Rightarrow> ''>''
      | TokenType.GREATER_EQUAL \<Rightarrow> ''>=''
      | TokenType.AND \<Rightarrow> ''and''
      | TokenType.OR \<Rightarrow> ''or''
      | _ \<Rightarrow> [])"

text \<open>
  \<^verbatim>\<open>serializeExpression\<close>: the empty string says that the expression is not serialized.
  \<open>binaryOperatorText\<close> is the inner switch, whose \<^verbatim>\<open>default\<close> returns the empty string from
  the function.
\<close>

fun serializeExpression :: "Expression \<Rightarrow> string" where
  "serializeExpression (NumberExpression v) = to_string_double v"
| "serializeExpression (StringExpression s) =
     CHR 0x22 # escape_char (CHR 0x22) (escape_char (CHR 0x5C) s) @ [CHR 0x22]"
| "serializeExpression (VariableExpression name loc) = ''var_'' @ name"
| "serializeExpression (BinaryExpression op left right) =
     (if serializeExpression left = [] \<or> serializeExpression right = [] then []
      else if binaryOperatorText op = [] then []
      else ''('' @ serializeExpression left @ '' '' @ binaryOperatorText op @ '' ''
             @ serializeExpression right @ '')'')"
| "serializeExpression (UnaryExpression op e) =
     (if serializeExpression e = [] then []
      else if op = TokenType.MINUS then ''(-'' @ serializeExpression e @ '')''
      else if op = TokenType.NOT then ''(not '' @ serializeExpression e @ '')''
      else serializeExpression e)"
| "serializeExpression (ArrayAccessExpression name indices loc) = []"
| "serializeExpression (FunctionCallExpression name isFN arguments loc) = []"
| "serializeExpression (RegistryFunctionExpression name rt arguments loc) = []"
| "serializeExpression (IIFExpression c t f) = []"

subsection \<open>\<^verbatim>\<open>WHILE\<close> and \<^verbatim>\<open>WEND\<close>\<close>

definition generateWhile ::
  "nat \<Rightarrow> Expression \<Rightarrow> int \<Rightarrow> IRGenerator \<Rightarrow> IRGenerator option" where
  "generateWhile fuel condition line g0 =
     (let g = setSourceContext line (m_currentBlockId' g0) g0;
          serializedExpr = serializeExpression condition
      in if serializedExpr \<noteq> [] then
           Some ((emit WHILE_START [StringOperand serializedExpr] g)
                   \<lparr> m_whileLoopLabels := m_whileLoopLabels g @ [- 1] \<rparr>)
         else
           (case allocateLabel g of
              (whileLabel, g1) \<Rightarrow>
                (case generateExpression fuel condition
                        ((emit LABEL [IntOperand whileLabel] g1)
                           \<lparr> m_whileLoopLabels := m_whileLoopLabels g1 @ [whileLabel] \<rparr>) of
                   None \<Rightarrow> None
                 | Some g2 \<Rightarrow> Some (emit WHILE_START [IntOperand whileLabel] g2))))"

text \<open>\<^verbatim>\<open>generateWend\<close> throws when no \<^verbatim>\<open>WHILE\<close> is open.\<close>

datatype IRError = runtime_error string

definition generateWend :: "int \<Rightarrow> IRGenerator \<Rightarrow> IRError + IRGenerator" where
  "generateWend line g0 =
     (let g = setSourceContext line (m_currentBlockId' g0) g0
      in if m_whileLoopLabels g = [] then Inl (runtime_error ''WEND without matching WHILE'')
         else
           (let whileLabel = last (m_whileLoopLabels g);
                g1 = g\<lparr> m_whileLoopLabels := butlast (m_whileLoopLabels g) \<rparr>
            in if whileLabel \<ge> 0 then Inr (emit WHILE_END [IntOperand whileLabel] g1)
               else Inr (emit WHILE_END [] g1)))"

subsection \<open>Notions used to state the properties of the generator\<close>

text \<open>
  The members that lowering an expression never writes: the graph, the tables, the labels,
  the stack of the open \<^verbatim>\<open>WHILE\<close> loops and the source context.
\<close>

definition same_static :: "IRGenerator \<Rightarrow> IRGenerator \<Rightarrow> bool" where
  "same_static g g' \<longleftrightarrow>
     m_cfg g' = m_cfg g \<and> m_blockLabels g' = m_blockLabels g
     \<and> m_symbols g' = m_symbols g \<and> m_userFunctions g' = m_userFunctions g
     \<and> m_functions g' = m_functions g \<and> m_nextLabel g' = m_nextLabel g
     \<and> m_whileLoopLabels g' = m_whileLoopLabels g
     \<and> m_currentLineNumber' g' = m_currentLineNumber' g
     \<and> m_currentBlockId' g' = m_currentBlockId' g"

text \<open>
  \<open>relocate p n w g\<close>: the generator \<open>g\<close> with the instructions \<open>p\<close> in front of its code,
  the label counter \<open>n\<close> and the stack \<open>w\<close> of open loops.
\<close>

definition relocate :: "IRInstruction list \<Rightarrow> int \<Rightarrow> int list \<Rightarrow> IRGenerator \<Rightarrow> IRGenerator" where
  "relocate p n w g =
     g\<lparr> m_code := \<lparr> instructions = p @ instructions (m_code g) \<rparr>,
        m_nextLabel := n, m_whileLoopLabels := w \<rparr>"

text \<open>
  The stack code of an expression: the instructions that \<^verbatim>\<open>generateExpression\<close> emits for
  it in the generator \<open>g\<close>, collected from an empty code.
\<close>

definition expressionCode :: "nat \<Rightarrow> Expression \<Rightarrow> IRGenerator \<Rightarrow> IRInstruction list option" where
  "expressionCode fuel e g =
     map_option (\<lambda>g'. instructions (m_code g'))
       (generateExpression fuel e (g\<lparr> m_code := \<lparr> instructions = [] \<rparr> \<rparr>))"

text \<open>The instruction that \<^verbatim>\<open>emit\<close> appends for an opcode with at most one operand, at a
  line of a block.\<close>

definition instruction :: "IROpcode \<Rightarrow> IROperand \<Rightarrow> int \<Rightarrow> int \<Rightarrow> IRInstruction" where
  "instruction opc op1 line block =
     \<lparr> opcode = opc, operand1 = op1, operand2 = NoOperand, operand3 = NoOperand,
       sourceLineNumber = line, blockId = block, arrayElementTypeSuffix = [],
       isLoopJump = False \<rparr>"

text \<open>
  An expression built only from number literals, string literals, variables, unary
  operators and binary operators, whatever the operators.
\<close>

fun operators_only :: "Expression \<Rightarrow> bool" where
  "operators_only (NumberExpression v) = True"
| "operators_only (StringExpression s) = True"
| "operators_only (VariableExpression name loc) = True"
| "operators_only (UnaryExpression op e) = operators_only e"
| "operators_only (BinaryExpression op left right) = (operators_only left \<and> operators_only right)"
| "operators_only (ArrayAccessExpression name indices loc) = False"
| "operators_only (FunctionCallExpression name isFN arguments loc) = False"
| "operators_only (RegistryFunctionExpression name rt arguments loc) = False"
| "operators_only (IIFExpression c t f) = False"

text \<open>
  The binary operators that have a text in the serialization: the arithmetic operators,
  the comparisons, \<^verbatim>\<open>AND\<close> and \<^verbatim>\<open>OR\<close>; not \<^verbatim>\<open>XOR\<close>, \<^verbatim>\<open>EQV\<close>, \<^verbatim>\<open>IMP\<close>.
\<close>

definition serializableOperators :: "TokenType list" where
  "serializableOperators =
     [TokenType.PLUS, TokenType.MINUS, TokenType.MULTIPLY, TokenType.DIVIDE,
      TokenType.INT_DIVIDE, TokenType.MOD, TokenType.POWER, TokenType.EQUAL,
      TokenType.NOT_EQUAL, TokenType.LESS_THAN, TokenType.LESS_EQUAL,
      TokenType.GREATER_THAN, TokenType.GREATER_EQUAL, TokenType.AND, TokenType.OR]"

text \<open>A simple condition: as above, with every binary operator among these.\<close>

fun simple_condition :: "Expression \<Rightarrow> bool" where
  "simple_condition (NumberExpression v) = True"
| "simple_condition (StringExpression s) = True"
| "simple_condition (VariableExpression name loc) = True"
| "simple_condition (UnaryExpression op e) = simple_condition e"
| "simple_condition (BinaryExpression op left right) =
     (op \<in> set serializableOperators \<and> simple_condition left \<and> simple_condition right)"
| "simple_condition (ArrayAccessExpression name indices loc) = False"
| "simple_condition (FunctionCallExpression name isFN arguments loc) = False"
| "simple_condition (RegistryFunctionExpression name rt arguments loc) = False"
| "simple_condition (IIFExpression c t f) = False"

text \<open>
  \<open>expansionBounded n uf isArray e\<close>: in the expression \<open>e\<close>, inlined with the \<^verbatim>\<open>DEF FN\<close>s
  \<open>uf\<close>, the inlined bodies nest at most \<open>n\<close> deep. The arguments that the generator lowers
  at an inlined call are the ones that have a parameter; a name that is a declared array
  is not a call.
\<close>

function expansionBounded ::
  "nat \<Rightarrow> (string \<rightharpoonup> UserFunction) \<Rightarrow> (string \<Rightarrow> bool) \<Rightarrow> Expression \<Rightarrow> bool" where
  "expansionBounded n uf isArray (NumberExpression v) = True"
| "expansionBounded n uf isArray (StringExpression s) = True"
| "expansionBounded n uf isArray (VariableExpression name loc) = True"
| "expansionBounded n uf isArray (ArrayAccessExpression name indices loc) =
     (if isArray name then (\<forall>e\<in>set indices. expansionBounded n uf isArray e)
      else
        (case uf name of
           None \<Rightarrow> (\<forall>e\<in>set indices. expansionBounded n uf isArray e)
         | Some func \<Rightarrow>
             (\<forall>e\<in>set (take (length (uf_parameters func)) indices). expansionBounded n uf isArray e)
             \<and> (case n of 0 \<Rightarrow> False | Suc m \<Rightarrow> expansionBounded m uf isArray (uf_body func))))"
| "expansionBounded n uf isArray (FunctionCallExpression name isFN arguments loc) =
     (case uf name of
        None \<Rightarrow> (\<forall>e\<in>set arguments. expansionBounded n uf isArray e)
      | Some func \<Rightarrow>
          (\<forall>e\<in>set (take (length (uf_parameters func)) arguments). expansionBounded n uf isArray e)
          \<and> (case n of 0 \<Rightarrow> False | Suc m \<Rightarrow> expansionBounded m uf isArray (uf_body func)))"
| "expansionBounded n uf isArray (RegistryFunctionExpression name rt arguments loc) =
     (\<forall>e\<in>set arguments. expansionBounded n uf isArray e)"
| "expansionBounded n uf isArray (BinaryExpression op left right) =
     (expansionBounded n uf isArray left \<and> expansionBounded n uf isArray right)"
| "expansionBounded n uf isArray (UnaryExpression op e) = expansionBounded n uf isArray e"
| "expansionBounded n uf isArray (IIFExpression c t f) =
     (expansionBounded n uf isArray c \<and> expansionBounded n uf isArray t
      \<and> expansionBounded n uf isArray f)"
  by pat_completeness auto
termination
  by (relation "measures [\<lambda>(n, uf, isArray, e). n, \<lambda>(n, uf, isArray, e). size e]")
    (auto dest!: in_set_takeD simp: less_Suc_eq_le size_list_estimation')

text \<open>
  \<open>returns_within fuel uf isArray e\<close>: with \<open>fuel\<close> nested calls \<^verbatim>\<open>generateExpression\<close> returns
  on \<open>e\<close>, in every generator whose \<^verbatim>\<open>DEF FN\<close>s are \<open>uf\<close> and whose declared arrays are \<open>isArray\<close>.
\<close>

definition returns_within ::
  "nat \<Rightarrow> (string \<rightharpoonup> UserFunction) \<Rightarrow> (string \<Rightarrow> bool) \<Rightarrow> Expression \<Rightarrow> bool" where
  "returns_within fuel uf isArray e \<longleftrightarrow>
     (\<forall>g. m_userFunctions g = uf \<and> (\<forall>name. isArray name = (arrays (m_symbols g) name \<noteq> None))
        \<longrightarrow> (\<exists>g'. generateExpression fuel e g = Some g'))"

text \<open>
  A generator for the examples: \<^verbatim>\<open>generate\<close> at its start, on a graph without blocks and
  the symbol table of an empty program.
\<close>

definition no_blocks :: ControlFlowGraph where
  "no_blocks = \<lparr> getBlockForLineOrNext = (\<lambda>n. - 1), isBackEdge = (\<lambda>source target. False) \<rparr>"

definition fresh_generator :: IRGenerator where
  "fresh_generator = generate_start no_blocks SymbolTable_new"

section \<open>Properties of the constants manager\<close>

lemma size_to_int_small: "n < 2 ^ 31 \<Longrightarrow> size_to_int n = int n"
  by (simp add: size_to_int_def)

lemma ConstantsManager_wf_init: "ConstantsManager_wf ConstantsManager_init"
  by (simp add: ConstantsManager_wf_def ConstantsManager_init_def)

lemma ConstantsManager_room_init: "ConstantsManager_room ConstantsManager_init"
  by (simp add: ConstantsManager_room_def ConstantsManager_init_def)

lemma ConstantsManager_wf_clear: "ConstantsManager_wf (ConstantsManager_clear m)"
  by (simp add: ConstantsManager_wf_def ConstantsManager_clear_def)

lemma addConstant_existing:
  "m_nameToIndex m name = Some i \<Longrightarrow>
   addConstant m name v = (i, m\<lparr> m_constants := (m_constants m)[nat i := v] \<rparr>)"
  by (simp add: addConstant_def)

lemma addConstant_fresh:
  "m_nameToIndex m name = None \<Longrightarrow> ConstantsManager_room m \<Longrightarrow>
   addConstant m name v =
     (int (length (m_constants m)),
      m\<lparr> m_constants := m_constants m @ [v],
         m_nameToIndex := (m_nameToIndex m)(name \<mapsto> int (length (m_constants m))) \<rparr>)"
  by (simp add: addConstant_def size_to_int_small Let_def ConstantsManager_room_def)

lemma addConstant_preserves_wf:
  assumes wf: "ConstantsManager_wf m" and room: "ConstantsManager_room m"
  shows "ConstantsManager_wf (snd (addConstant m name v))"
proof (cases "m_nameToIndex m name")
  case None
  have "\<And>n i. m_nameToIndex m n = Some i \<Longrightarrow> 0 \<le> i \<and> i < 1 + int (length (m_constants m))"
    using wf by (fastforce simp: ConstantsManager_wf_def)
  with None room show ?thesis
    by (simp add: addConstant_fresh ConstantsManager_wf_def)
next
  case (Some i)
  then show ?thesis
    using wf by (simp add: addConstant_existing ConstantsManager_wf_def)
qed

lemma addConstant_registers:
  assumes wf: "ConstantsManager_wf m" and room: "ConstantsManager_room m"
    and add: "addConstant m name v = (i1, m1)"
  shows "m_nameToIndex m1 name = Some i1" and "0 \<le> i1"
    and "i1 < int (length (m_constants m1))" and "length (m_constants m1) < 2 ^ 31"
proof -
  have "m_nameToIndex m1 name = Some i1 \<and> 0 \<le> i1
        \<and> i1 < int (length (m_constants m1)) \<and> length (m_constants m1) < 2 ^ 31"
  proof (cases "m_nameToIndex m name")
    case None
    with add room have "i1 = int (length (m_constants m))"
      and "m1 = m\<lparr> m_constants := m_constants m @ [v],
                   m_nameToIndex := (m_nameToIndex m)(name \<mapsto> int (length (m_constants m))) \<rparr>"
      by (auto simp: addConstant_fresh)
    with room show ?thesis
      by (simp add: ConstantsManager_room_def)
  next
    case (Some j)
    with add have i1: "i1 = j" and m1: "m1 = m\<lparr> m_constants := (m_constants m)[nat j := v] \<rparr>"
      by (auto simp: addConstant_existing)
    from wf Some have "0 \<le> j \<and> j < int (length (m_constants m))"
      by (simp add: ConstantsManager_wf_def)
    with Some room show ?thesis
      by (simp add: i1 m1 ConstantsManager_room_def)
  qed
  then show "m_nameToIndex m1 name = Some i1" and "0 \<le> i1"
    and "i1 < int (length (m_constants m1))" and "length (m_constants m1) < 2 ^ 31"
    by simp_all
qed

text \<open>
  Claim C6. Adding \<open>(name, v)\<close> and then \<open>(name, v')\<close> returns the same index both
  times; after the second add \<open>getConstant\<close> at that index returns \<open>v'\<close> and
  \<open>getConstantIndex name\<close> returns that index; and the first add of a name that was not
  stored returns the number of constants stored before it.
\<close>

theorem addConstant_upsert:
  assumes wf: "ConstantsManager_wf m" and room: "ConstantsManager_room m"
    and first: "addConstant m name v = (i1, m1)"
    and second: "addConstant m1 name v' = (i2, m2)"
  shows "i1 = i2
         \<and> getConstant m2 i2 = Some v'
         \<and> getConstantIndex m2 name = i2
         \<and> (\<not> hasConstant m name \<longrightarrow> i1 = int (getConstantCount m))"
proof -
  note reg = addConstant_registers [OF wf room first]
  from second reg(1) have i2: "i2 = i1"
    and m2: "m2 = m1\<lparr> m_constants := (m_constants m1)[nat i1 := v'] \<rparr>"
    by (auto simp: addConstant_existing)
  have len: "length (m_constants m2) = length (m_constants m1)"
    by (simp add: m2)
  have get: "getConstant m2 i2 = Some v'"
    using reg(2,3,4) by (simp add: getConstant_def i2 len size_to_int_small) (simp add: m2)
  have idx: "getConstantIndex m2 name = i2"
    using reg(1) by (simp add: getConstantIndex_def m2 i2)
  have fresh: "\<not> hasConstant m name \<longrightarrow> i1 = int (getConstantCount m)"
    using first room by (auto simp: hasConstant_def getConstantCount_def addConstant_fresh)
  from i2 get idx fresh show ?thesis by simp
qed

theorem addConstant_upsert_witness:
  "ConstantsManager_wf ConstantsManager_init
   \<and> ConstantsManager_room ConstantsManager_init
   \<and> addConstant ConstantsManager_init ''K'' (IntValue 1)
       = (0, \<lparr> m_constants = [IntValue 1], m_nameToIndex = [''K'' \<mapsto> 0] \<rparr>)
   \<and> addConstant \<lparr> m_constants = [IntValue 1], m_nameToIndex = [''K'' \<mapsto> 0] \<rparr> ''K'' (StringValue ''two'')
       = (0, \<lparr> m_constants = [StringValue ''two''], m_nameToIndex = [''K'' \<mapsto> 0] \<rparr>)
   \<and> getConstant \<lparr> m_constants = [StringValue ''two''], m_nameToIndex = [''K'' \<mapsto> 0] \<rparr> 0
       = Some (StringValue ''two'')
   \<and> getConstantIndex \<lparr> m_constants = [StringValue ''two''], m_nameToIndex = [''K'' \<mapsto> 0] \<rparr> ''K'' = 0
   \<and> \<not> hasConstant ConstantsManager_init ''K''
   \<and> getConstantCount ConstantsManager_init = 0"
proof -
  have a1: "addConstant ConstantsManager_init ''K'' (IntValue 1)
       = (0, \<lparr> m_constants = [IntValue 1], m_nameToIndex = [''K'' \<mapsto> 0] \<rparr>)"
    by (simp add: addConstant_def ConstantsManager_init_def size_to_int_def)
  have a2: "addConstant \<lparr> m_constants = [IntValue 1], m_nameToIndex = [''K'' \<mapsto> 0] \<rparr> ''K'' (StringValue ''two'')
       = (0, \<lparr> m_constants = [StringValue ''two''], m_nameToIndex = [''K'' \<mapsto> 0] \<rparr>)"
    by (simp add: addConstant_def)
  have h: "\<not> hasConstant ConstantsManager_init ''K''" "getConstantCount ConstantsManager_init = 0"
    by (simp_all add: hasConstant_def getConstantCount_def ConstantsManager_init_def)
  from addConstant_upsert [OF ConstantsManager_wf_init ConstantsManager_room_init a1 a2]
    ConstantsManager_wf_init ConstantsManager_room_init a1 a2 h
  show ?thesis by simp
qed

section \<open>Properties of the program store\<close>

lemma find_first_not_of_None: "find_first_not_of s cs = None \<longleftrightarrow> set s \<subseteq> set cs"
  by (induction s) auto

lemma find_first_not_of_Some:
  "find_first_not_of s cs = Some k \<Longrightarrow>
   k < length s \<and> s ! k \<notin> set cs \<and> (\<forall>j<k. s ! j \<in> set cs)
   \<and> drop k s = dropWhile (\<lambda>c. c \<in> set cs) s"
proof (induction s arbitrary: k)
  case Nil
  then show ?case by simp
next
  case (Cons c s)
  show ?case
  proof (cases "c \<in> set cs")
    case True
    with Cons.prems obtain k' where k': "find_first_not_of s cs = Some k'" "k = Suc k'"
      by auto
    from Cons.IH [OF k'(1)] True k'(2) show ?thesis
      by (auto simp: nth_Cons split: nat.splits)
  next
    case False
    with Cons.prems show ?thesis by auto
  qed
qed

lemma find_first_not_of_take:
  "find_first_not_of s cs = Some k \<Longrightarrow> k < m \<Longrightarrow> find_first_not_of (take m s) cs = Some k"
proof (induction s arbitrary: k m)
  case Nil
  then show ?case by simp
next
  case (Cons c s)
  from Cons.prems(2) obtain m' where m: "m = Suc m'"
    by (cases m) auto
  show ?case
  proof (cases "c \<in> set cs")
    case True
    with Cons.prems obtain k' where k': "find_first_not_of s cs = Some k'" "k = Suc k'"
      by auto
    with Cons.prems(2) m have "k' < m'" by simp
    from Cons.IH [OF k'(1) this] True k'(2) m show ?thesis by simp
  next
    case False
    with Cons.prems m show ?thesis by auto
  qed
qed

text \<open>The characters before the first one found are all in the set.\<close>

lemma find_first_not_of_exists:
  "\<exists>c\<in>set s. c \<notin> set cs \<Longrightarrow> \<exists>k. find_first_not_of s cs = Some k"
  using find_first_not_of_None [of s cs] by (cases "find_first_not_of s cs") auto

text \<open>
  When the code has a character that is neither blank nor an end of line, the two
  searches of \<^verbatim>\<open>setLine\<close> succeed, no \<^verbatim>\<open>size_t\<close> wraps, and the substring is the
  trimmed text.
\<close>

lemma substr_is_trimmed:
  assumes len: "length code < 2 ^ 64"
    and ex: "\<exists>c\<in>set code. c \<notin> set blank_or_eol_chars"
  shows "\<exists>start. find_first_not_of code blank_chars = Some start
           \<and> substr code start (trim_count (size_t_of (find_last_not_of code blank_or_eol_chars)) start)
               = trimmed code
           \<and> trimmed code \<noteq> []"
proof -
  have sub: "set blank_chars \<subseteq> set blank_or_eol_chars"
    by (simp add: blank_chars_def blank_or_eol_chars_def)
  from ex sub have "\<exists>c\<in>set code. c \<notin> set blank_chars" by blast
  then obtain start where start: "find_first_not_of code blank_chars = Some start"
    using find_first_not_of_exists by blast
  note S = find_first_not_of_Some [OF start]
  from ex have "\<exists>c\<in>set (rev code). c \<notin> set blank_or_eol_chars" by simp
  then obtain k where k: "find_first_not_of (rev code) blank_or_eol_chars = Some k"
    using find_first_not_of_exists by blast
  note K = find_first_not_of_Some [OF k]
  from K have k_len: "k < length code" by simp
  define e where "e = length code - 1 - k"
  have e_len: "e < length code" using k_len by (simp add: e_def)
  have last: "find_last_not_of code blank_or_eol_chars = Some e"
    by (simp add: find_last_not_of_def k e_def)
  have "rev code ! k = code ! e"
    using k_len by (simp add: rev_nth e_def)
  with K have "code ! e \<notin> set blank_or_eol_chars" by simp
  with sub have "code ! e \<notin> set blank_chars" by blast
  with S have start_le: "start \<le> e"
    by (meson not_le_imp_less)
  have count: "trim_count e start = Suc e - start"
  proof -
    have "e + 2 ^ 64 - start + 1 = (Suc e - start) + 2 ^ 64"
      using start_le by simp
    then have "trim_count e start = ((Suc e - start) + 2 ^ 64) mod 2 ^ 64"
      by (simp only: trim_count_def)
    also have "\<dots> = (Suc e - start) mod 2 ^ 64"
      by (rule mod_add_self2)
    also have "\<dots> = Suc e - start"
      using e_len len by (intro mod_less) simp
    finally show ?thesis .
  qed
  have k_small: "k < length code - start"
    using start_le k_len by (simp add: e_def)
  define t where "t = drop start code"
  have "rev t = take (length code - start) (rev code)"
    by (simp add: t_def rev_drop)
  then have "find_first_not_of (rev t) blank_or_eol_chars = Some k"
    using find_first_not_of_take [OF k k_small] by simp
  from find_first_not_of_Some [OF this]
  have "dropWhile (\<lambda>c. c \<in> set blank_or_eol_chars) (rev t) = drop k (rev t)"
    by simp
  then have "rev (dropWhile (\<lambda>c. c \<in> set blank_or_eol_chars) (rev t)) = take (length t - k) t"
    by (simp add: rev_drop)
  moreover have "length t - k = Suc e - start"
    using k_small start_le by (simp add: e_def t_def)
  moreover have "dropWhile (\<lambda>c. c \<in> set blank_chars) code = t"
    using S by (simp add: t_def)
  ultimately have tr: "trimmed code = take (Suc e - start) (drop start code)"
    by (simp add: trimmed_def t_def)
  have ne: "take (Suc e - start) (drop start code) \<noteq> []"
    using start_le e_len by simp
  from start tr ne count last show ?thesis
    by (simp add: substr_def size_t_of_def)
qed

lemma setLine_invalid: "\<not> isValidLineNumber n \<Longrightarrow> setLine pm n code = pm"
  by (simp add: setLine_def)

lemma setLine_blank:
  "isValidLineNumber n \<Longrightarrow> set code \<subseteq> set blank_chars \<Longrightarrow> setLine pm n code = deleteLine pm n"
  using find_first_not_of_None [of code blank_chars] by (simp add: setLine_def)

lemma m_lines_deleteLine: "m_lines (deleteLine pm n) = (m_lines pm)(n := None)"
  by (auto simp: deleteLine_def setModified_def split: option.splits)

lemma setLine_stores:
  assumes "isValidLineNumber n" and "length code < 2 ^ 64"
    and "\<exists>c\<in>set code. c \<notin> set blank_or_eol_chars"
  shows "setLine pm n code =
     pm\<lparr> m_lines := (m_lines pm)(n \<mapsto> trimmed code),
         m_modified := True,
         m_autoCurrentLine :=
           (if m_autoMode pm \<and> m_autoCurrentLine pm \<le> n then wrap_int (n + m_autoStep pm)
            else m_autoCurrentLine pm) \<rparr>"
proof -
  from substr_is_trimmed [OF assms(2,3)] obtain start
    where "find_first_not_of code blank_chars = Some start"
      and "substr code start (trim_count (size_t_of (find_last_not_of code blank_or_eol_chars)) start)
             = trimmed code"
      and "trimmed code \<noteq> []"
    by blast
  with assms(1) show ?thesis
    by (simp add: setLine_def Let_def setModified_def)
qed

text \<open>
  Claim C9, as the code has it. A line number outside \<open>[1, 65535]\<close> leaves the store
  unchanged. For a number in range, a text of spaces and tabs only (or an empty one)
  deletes line \<open>n\<close>; a text with a character other than space, tab, carriage return and
  line feed is stored without its leading spaces and tabs and without its trailing
  spaces, tabs, carriage returns and line feeds, the modified flag becomes true, and an
  active auto-numbering cursor that is not past \<open>n\<close> moves to the \<^verbatim>\<open>int\<close> sum of \<open>n\<close> and the
  step: to \<open>n + step\<close> when that is an \<^verbatim>\<open>int\<close>, to its low 32 bits when the sum overflows.
\<close>

theorem setLine_behaviour:
  assumes "length code < 2 ^ 64"
  shows "(\<not> isValidLineNumber n \<longrightarrow> setLine pm n code = pm)
    \<and> (isValidLineNumber n \<and> set code \<subseteq> set blank_chars \<longrightarrow>
         setLine pm n code = deleteLine pm n
         \<and> m_lines (setLine pm n code) = (m_lines pm)(n := None))
    \<and> (isValidLineNumber n \<and> (\<exists>c\<in>set code. c \<notin> set blank_or_eol_chars) \<longrightarrow>
         setLine pm n code =
           pm\<lparr> m_lines := (m_lines pm)(n \<mapsto> trimmed code),
               m_modified := True,
               m_autoCurrentLine :=
                 (if m_autoMode pm \<and> m_autoCurrentLine pm \<le> n then wrap_int (n + m_autoStep pm)
                  else m_autoCurrentLine pm) \<rparr>
         \<and> (m_autoMode pm \<and> m_autoCurrentLine pm \<le> n
              \<and> - (2 ^ 31) \<le> n + m_autoStep pm \<and> n + m_autoStep pm < 2 ^ 31 \<longrightarrow>
              m_autoCurrentLine (setLine pm n code) = n + m_autoStep pm))"
proof -
  have fits: "wrap_int x = x" if "- (2 ^ 31) \<le> x" "x < 2 ^ 31" for x
    using that by (simp add: wrap_int_def)
  from assms show ?thesis
    by (simp add: setLine_invalid setLine_blank m_lines_deleteLine setLine_stores fits)
qed

theorem setLine_behaviour_witness:
  "setLine ProgramManager_init 0 ''PRINT 1'' = ProgramManager_init
   \<and> setLine ProgramManager_init 65536 ''PRINT 1'' = ProgramManager_init
   \<and> m_lines (setLine (ProgramManager_init\<lparr> m_lines := [10 \<mapsto> ''END''] \<rparr>) 10 [CHR '' '', CHR 0x09])
       = Map.empty
   \<and> setLine (ProgramManager_init\<lparr> m_autoMode := True \<rparr>) 65535 [CHR '' '', CHR ''A'', CHR '' '', CHR 0x0D, CHR 0x0A]
       = ProgramManager_init\<lparr> m_lines := [65535 \<mapsto> ''A''], m_modified := True,
                               m_autoMode := True, m_autoCurrentLine := 65545 \<rparr>
   \<and> m_autoCurrentLine
         (setLine (ProgramManager_init\<lparr> m_autoMode := True, m_autoStep := 2147483647 \<rparr>) 10 ''A'')
       = - 2147483639"
proof -
  have v: "\<not> isValidLineNumber 0" "\<not> isValidLineNumber 65536"
    "isValidLineNumber 10" "isValidLineNumber 65535"
    by (simp_all add: isValidLineNumber_def)
  have b: "set [CHR '' '', CHR 0x09] \<subseteq> set blank_chars"
    by (simp add: blank_chars_def)
  have c: "\<exists>c\<in>set [CHR '' '', CHR ''A'', CHR '' '', CHR 0x0D, CHR 0x0A]. c \<notin> set blank_or_eol_chars"
    "\<exists>c\<in>set ''A''. c \<notin> set blank_or_eol_chars"
    by (simp_all add: blank_or_eol_chars_def)
  have t: "trimmed [CHR '' '', CHR ''A'', CHR '' '', CHR 0x0D, CHR 0x0A] = ''A''"
    by (simp add: trimmed_def blank_chars_def blank_or_eol_chars_def)
  have w: "wrap_int 65545 = 65545" "wrap_int 2147483657 = - 2147483639"
    by (simp_all add: wrap_int_def)
  from setLine_behaviour [of "''PRINT 1''" 0 ProgramManager_init]
    setLine_behaviour [of "''PRINT 1''" 65536 ProgramManager_init]
    setLine_behaviour [of "[CHR '' '', CHR 0x09]" 10 "ProgramManager_init\<lparr> m_lines := [10 \<mapsto> ''END''] \<rparr>"]
    setLine_behaviour [of "[CHR '' '', CHR ''A'', CHR '' '', CHR 0x0D, CHR 0x0A]" 65535
      "ProgramManager_init\<lparr> m_autoMode := True \<rparr>"]
    setLine_behaviour [of "''A''" 10
      "ProgramManager_init\<lparr> m_autoMode := True, m_autoStep := 2147483647 \<rparr>"]
    v b c t w
  show ?thesis
    by (simp add: ProgramManager_init_def m_lines_deleteLine)
qed

text \<open>
  The description's trimming is of spaces and tabs only. For the text \<open>A\<close> followed by a
  line feed it asks for that text to be stored as it is; \<^verbatim>\<open>setLine\<close> stores \<open>A\<close>.
\<close>

theorem setLine_as_described_counterexample:
  "\<not> setLine_as_described ProgramManager_init 10 [CHR ''A'', CHR 0x0A]"
  by (simp add: setLine_as_described_def trim_spaces_tabs_def setLine_def isValidLineNumber_def
      blank_chars_def blank_or_eol_chars_def find_last_not_of_def size_t_of_def trim_count_def
      substr_def ProgramManager_init_def setModified_def)

text \<open>
  A text made of line ends only is not stored either: the subtraction
  \<^verbatim>\<open>end - start + 1\<close> wraps to zero and the line is deleted, here leaving a fresh store
  untouched.
\<close>

lemma setLine_line_feed_only:
  "setLine ProgramManager_init 10 [CHR 0x0A] = ProgramManager_init"
  by (simp add: setLine_def isValidLineNumber_def blank_chars_def blank_or_eol_chars_def
      find_last_not_of_def size_t_of_def trim_count_def npos_def substr_def deleteLine_def
      ProgramManager_init_def)

section \<open>Properties of the semantic analyzer\<close>

subsection \<open>Unclosed loops\<close>

text \<open>
  \<^verbatim>\<open>validateControlFlow\<close> reports the three stacks it looks at, whatever else the
  analyzer holds.
\<close>

lemma validateControlFlow_reports:
  "(m_forStack a \<noteq> [] \<longrightarrow> FOR_WITHOUT_NEXT \<in> fst ` set (m_errors (validateControlFlow a)))
   \<and> (m_whileStack a \<noteq> [] \<longrightarrow> WHILE_WITHOUT_WEND \<in> fst ` set (m_errors (validateControlFlow a)))
   \<and> (m_repeatStack a \<noteq> [] \<longrightarrow> REPEAT_WITHOUT_UNTIL \<in> fst ` set (m_errors (validateControlFlow a)))"
  by (cases "m_forStack a"; cases "m_whileStack a"; cases "m_repeatStack a")
     (simp_all add: validateControlFlow_def error_def)

text \<open>It never looks at the \<^verbatim>\<open>DO\<close> stack: with the other three empty it reports nothing.\<close>

lemma validateControlFlow_ignores_doStack:
  "m_forStack a = [] \<Longrightarrow> m_whileStack a = [] \<Longrightarrow> m_repeatStack a = [] \<Longrightarrow>
   validateControlFlow a = a"
  by (simp add: validateControlFlow_def)

text \<open>
  Claim C3 on the program \<^verbatim>\<open>10 FOR I = 1 TO 3\<close> and its \<^verbatim>\<open>WHILE\<close> and \<^verbatim>\<open>REPEAT\<close>
  siblings: each unclosed opener is reported. On the program \<^verbatim>\<open>10 DO\<close> the analysis
  succeeds with no error: \<^verbatim>\<open>DO_WITHOUT_LOOP\<close> is not reported.
\<close>

theorem analyze_unclosed_DO:
  "m_errors (snd (analyze fresh_analyzer
       [line1 10 (ForStatement ''I'' (NumberExpression 1) (NumberExpression 3) None (10, 1))]
       default_options)) = [(FOR_WITHOUT_NEXT, (10, 1))]
   \<and> m_errors (snd (analyze fresh_analyzer
       [line1 10 (WhileStatement (NumberExpression 1) (10, 1))] default_options))
       = [(WHILE_WITHOUT_WEND, (10, 1))]
   \<and> m_errors (snd (analyze fresh_analyzer [line1 10 (RepeatStatement (10, 1))] default_options))
       = [(REPEAT_WITHOUT_UNTIL, (10, 1))]
   \<and> m_errors (snd (analyze fresh_analyzer [line1 10 (DoStatement None (10, 1))] default_options))
       = []
   \<and> fst (analyze fresh_analyzer [line1 10 (DoStatement None (10, 1))] default_options)
   \<and> m_doStack (snd (analyze fresh_analyzer [line1 10 (DoStatement None (10, 1))] default_options))
       = [(10, 1)]"
  by code_simp

subsection \<open>Analysing twice\<close>

text \<open>
  Claim C10 on the program \<^verbatim>\<open>10 LOOP\<close>, \<^verbatim>\<open>20 DO\<close>. The first call fails with
  \<^verbatim>\<open>LOOP_WITHOUT_DO\<close> and leaves the \<^verbatim>\<open>DO\<close> of line 20 on the stack, which \<^verbatim>\<open>analyze\<close> does
  not empty; the second call, on the same analyzer with the same program and options,
  pops it at line 10 and succeeds.
\<close>

theorem analyze_twice_differs:
  "fst (analyze fresh_analyzer
          [line1 10 (LoopStatement None (10, 1)), line1 20 (DoStatement None (20, 1))]
          default_options) = False
   \<and> m_errors (snd (analyze fresh_analyzer
          [line1 10 (LoopStatement None (10, 1)), line1 20 (DoStatement None (20, 1))]
          default_options)) = [(LOOP_WITHOUT_DO, (10, 1))]
   \<and> fst (analyze
          (snd (analyze fresh_analyzer
             [line1 10 (LoopStatement None (10, 1)), line1 20 (DoStatement None (20, 1))]
             default_options))
          [line1 10 (LoopStatement None (10, 1)), line1 20 (DoStatement None (20, 1))]
          default_options) = True
   \<and> m_errors (snd (analyze
          (snd (analyze fresh_analyzer
             [line1 10 (LoopStatement None (10, 1)), line1 20 (DoStatement None (20, 1))]
             default_options))
          [line1 10 (LoopStatement None (10, 1)), line1 20 (DoStatement None (20, 1))]
          default_options)) = []"
  by code_simp

subsection \<open>Label ids\<close>

text \<open>
  Claim C4 on the program \<^verbatim>\<open>10000 :START\<close>. The analysis succeeds; line number 10000 is
  in the line table and the label \<open>START\<close> gets the id 10000, the first value of the
  counter.
\<close>

theorem label_id_equals_line_number:
  "fst (analyze fresh_analyzer [line1 10000 (LabelStatement ''START'' (10000, 1))] default_options)
   \<and> map_option labelId
        (labels (m_symbolTable (snd (analyze fresh_analyzer
           [line1 10000 (LabelStatement ''START'' (10000, 1))] default_options))) ''START'')
       = Some 10000
   \<and> map_option ln_lineNumber
        (lineNumbers (m_symbolTable (snd (analyze fresh_analyzer
           [line1 10000 (LabelStatement ''START'' (10000, 1))] default_options))) 10000)
       = Some 10000"
  by code_simp

subsection \<open>Array dimensions\<close>

lemma static_cast_int_of_int:
  "- (2 ^ 31) \<le> n \<Longrightarrow> n < 2 ^ 31 \<Longrightarrow> static_cast_int (of_int n) = n"
proof -
  assume "- (2 ^ 31) \<le> n" "n < 2 ^ 31"
  then have "- (2 ^ 31) - 1 < (of_int n :: rat)" "(of_int n :: rat) < 2 ^ 31"
    by (simp_all add: of_int_less_iff [of _ "2 ^ 31", where ?'a = rat, simplified]
        of_int_less_iff [of "- (2 ^ 31) - 1" _, where ?'a = rat, simplified])
  then show ?thesis by (simp add: static_cast_int_def)
qed

lemma static_cast_int_nonpositive: "n \<le> 0 \<Longrightarrow> static_cast_int (of_int n) \<le> 0"
  by (simp add: static_cast_int_def)

lemma wrap_int_fits: "- (2 ^ 31) \<le> x \<Longrightarrow> x < 2 ^ 31 \<Longrightarrow> wrap_int x = x"
  by (simp add: wrap_int_def)

lemma processDimension_literal_positive:
  "1 \<le> n \<Longrightarrow> n < 2 ^ 31 - 1 \<Longrightarrow>
   processDimension loc (NumberExpression (of_int n)) (dims, t, a)
     = (dims @ [n + 1], wrap_int (t * (n + 1)), a)"
  by (simp add: processDimension_def static_cast_int_of_int wrap_int_fits)

lemma processDimension_literal_nonpositive:
  "n \<le> 0 \<Longrightarrow>
   processDimension loc (NumberExpression (of_int n)) (dims, t, a)
     = (dims @ [2], wrap_int (t * 2), error INVALID_ARRAY_INDEX loc a)"
  by (simp add: processDimension_def static_cast_int_nonpositive)

lemma processDimension_not_literal:
  "\<forall>v. e \<noteq> NumberExpression v \<Longrightarrow>
   processDimension loc e (dims, t, a)
     = (dims @ [11], wrap_int (t * 11), warning ''Non-constant array dimension; assuming 10'' loc a)"
  by (cases e) (simp_all add: processDimension_def)

lemma fold_processDimension_literals:
  "\<forall>n\<in>set ns. 1 \<le> n \<and> n < 2 ^ 31 - 1 \<Longrightarrow>
   \<exists>t'. fold (processDimension loc) (map (\<lambda>n. NumberExpression (of_int n)) ns) (dims, t, a)
     = (dims @ map (\<lambda>n. n + 1) ns, t', a)"
proof (induction ns arbitrary: dims t)
  case Nil
  then show ?case by simp
next
  case (Cons n ns)
  then have n: "1 \<le> n" "n < 2 ^ 31 - 1" and rest: "\<forall>m\<in>set ns. 1 \<le> m \<and> m < 2 ^ 31 - 1"
    by simp_all
  from Cons.IH [OF rest, of "dims @ [n + 1]" "wrap_int (t * (n + 1))"] show ?case
    by (simp add: processDimension_literal_positive [OF n])
qed

text \<open>
  Claim C2, as the code has it. For a \<^verbatim>\<open>DIM\<close> of an array that is not declared yet
  whose dimensions are the integer literals \<open>ns\<close>, each at least 1 (and below the
  largest \<^verbatim>\<open>int\<close>), pass 1 records \<open>n + 1\<close> slots for each dimension \<open>n\<close> and adds no
  error and no warning. A literal \<open>n \<le> 0\<close> (so \<^verbatim>\<open>DIM A(0)\<close>) is reported as
  \<^verbatim>\<open>INVALID_ARRAY_INDEX\<close> and recorded as 2 slots. A dimension that is not a literal is
  recorded as 11 slots with a warning and no error.
\<close>

theorem processDimStatement_slots:
  "(arrays (m_symbolTable a) name = None \<and> (\<forall>n\<in>set ns. 1 \<le> n \<and> n < 2 ^ 31 - 1) \<longrightarrow>
      map_option dimensions
        (arrays (m_symbolTable (processDimStatement
           [\<lparr> dim_name = name, dim_dimensions = map (\<lambda>n. NumberExpression (of_int n)) ns,
              dim_typeSuffix = suffix \<rparr>] loc a)) name) = Some (map (\<lambda>n. n + 1) ns)
      \<and> m_errors (processDimStatement
           [\<lparr> dim_name = name, dim_dimensions = map (\<lambda>n. NumberExpression (of_int n)) ns,
              dim_typeSuffix = suffix \<rparr>] loc a) = m_errors a
      \<and> m_warnings (processDimStatement
           [\<lparr> dim_name = name, dim_dimensions = map (\<lambda>n. NumberExpression (of_int n)) ns,
              dim_typeSuffix = suffix \<rparr>] loc a) = m_warnings a)
   \<and> (n \<le> 0 \<longrightarrow>
        processDimension loc (NumberExpression (of_int n)) (dims, t, a)
          = (dims @ [2], wrap_int (t * 2), error INVALID_ARRAY_INDEX loc a))
   \<and> ((\<forall>v. e \<noteq> NumberExpression v) \<longrightarrow>
        processDimension loc e (dims, t, a)
          = (dims @ [11], wrap_int (t * 11), warning ''Non-constant array dimension; assuming 10'' loc a)
        \<and> m_errors (warning ''Non-constant array dimension; assuming 10'' loc a) = m_errors a)"
proof (intro conjI impI)
  assume h: "arrays (m_symbolTable a) name = None \<and> (\<forall>n\<in>set ns. 1 \<le> n \<and> n < 2 ^ 31 - 1)"
  then have pos: "\<forall>n\<in>set ns. 1 \<le> n \<and> n < 2 ^ 31 - 1" by simp
  let ?a' = "processDimStatement
           [\<lparr> dim_name = name, dim_dimensions = map (\<lambda>n. NumberExpression (of_int n)) ns,
              dim_typeSuffix = suffix \<rparr>] loc a"
  from fold_processDimension_literals [OF pos, of loc "[]" 1 a] obtain t'
    where "fold (processDimension loc) (map (\<lambda>n. NumberExpression (of_int n)) ns) ([], 1, a)
             = (map (\<lambda>n. n + 1) ns, t', a)"
    by auto
  with h show "map_option dimensions (arrays (m_symbolTable ?a') name) = Some (map (\<lambda>n. n + 1) ns)"
    and "m_errors ?a' = m_errors a" and "m_warnings ?a' = m_warnings a"
    by (simp_all add: processDimStatement_def processArrayDim_def)
next
  assume "n \<le> 0"
  then show "processDimension loc (NumberExpression (of_int n)) (dims, t, a)
          = (dims @ [2], wrap_int (t * 2), error INVALID_ARRAY_INDEX loc a)"
    by (rule processDimension_literal_nonpositive)
next
  assume "\<forall>v. e \<noteq> NumberExpression v"
  then show "processDimension loc e (dims, t, a)
          = (dims @ [11], wrap_int (t * 11), warning ''Non-constant array dimension; assuming 10'' loc a)"
    by (rule processDimension_not_literal)
next
  show "m_errors (warning ''Non-constant array dimension; assuming 10'' loc a) = m_errors a"
    by (simp add: warning_def)
qed

theorem processDimStatement_slots_witness:
  "map_option dimensions
     (arrays (m_symbolTable (processDimStatement
        [\<lparr> dim_name = ''A'', dim_dimensions = [NumberExpression 10, NumberExpression 1],
           dim_typeSuffix = TokenType.UNKNOWN \<rparr>] (10, 1) fresh_analyzer)) ''A'') = Some [11, 2]
   \<and> m_errors (processDimStatement
        [\<lparr> dim_name = ''A'', dim_dimensions = [NumberExpression 10, NumberExpression 1],
           dim_typeSuffix = TokenType.UNKNOWN \<rparr>] (10, 1) fresh_analyzer) = []
   \<and> processDimension (10, 1) (NumberExpression 0) ([], 1, fresh_analyzer)
       = ([2], 2, error INVALID_ARRAY_INDEX (10, 1) fresh_analyzer)
   \<and> processDimension (10, 1) (VariableExpression ''N'' (10, 5)) ([], 1, fresh_analyzer)
       = ([11], 11, warning ''Non-constant array dimension; assuming 10'' (10, 1) fresh_analyzer)"
proof -
  have fresh: "arrays (m_symbolTable fresh_analyzer) ''A'' = None"
    and errs: "m_errors fresh_analyzer = []"
    by (simp_all add: fresh_analyzer_def SemanticAnalyzer_new_def SymbolTable_new_def)
  have nl: "\<forall>v. VariableExpression ''N'' (10, 5) \<noteq> NumberExpression v"
    by simp
  from processDimStatement_slots
         [of fresh_analyzer "''A''" "[10, 1]" TokenType.UNKNOWN "(10, 1)" 0 "[]" 1
             "VariableExpression ''N'' (10, 5)"]
       fresh errs nl
  show ?thesis by (simp add: wrap_int_def)
qed

text \<open>
  The program \<^verbatim>\<open>10 DIM A(0)\<close>: the analysis fails with \<^verbatim>\<open>INVALID_ARRAY_INDEX\<close>, and the
  array is recorded with two slots, not one.
\<close>

theorem dim_zero_counterexample:
  "fst (analyze fresh_analyzer
      [line1 10 (DimStatement
         [\<lparr> dim_name = ''A'', dim_dimensions = [NumberExpression 0],
            dim_typeSuffix = TokenType.UNKNOWN \<rparr>] (10, 1))] default_options) = False
   \<and> m_errors (snd (analyze fresh_analyzer
      [line1 10 (DimStatement
         [\<lparr> dim_name = ''A'', dim_dimensions = [NumberExpression 0],
            dim_typeSuffix = TokenType.UNKNOWN \<rparr>] (10, 1))] default_options))
       = [(INVALID_ARRAY_INDEX, (10, 1))]
   \<and> map_option dimensions (arrays (m_symbolTable (snd (analyze fresh_analyzer
      [line1 10 (DimStatement
         [\<lparr> dim_name = ''A'', dim_dimensions = [NumberExpression 0],
            dim_typeSuffix = TokenType.UNKNOWN \<rparr>] (10, 1))] default_options))) ''A'')
       = Some [2]"
  by code_simp

subsection \<open>Pass 2 keeps errors, line numbers and label ids\<close>

lemma pass2_frame_refl [simp]: "pass2_frame a a"
  by (simp add: pass2_frame_def)

lemma pass2_frame_trans [trans]: "pass2_frame a b \<Longrightarrow> pass2_frame b c \<Longrightarrow> pass2_frame a c"
  by (auto simp: pass2_frame_def)

lemma pass2_frame_fold:
  "(\<And>x b. x \<in> set xs \<Longrightarrow> pass2_frame b (f x b)) \<Longrightarrow> pass2_frame a (fold f xs a)"
proof (induction xs arbitrary: a)
  case Nil
  then show ?case by simp
next
  case (Cons x xs)
  have "pass2_frame a (f x a)" using Cons.prems by simp
  moreover have "pass2_frame (f x a) (fold f xs (f x a))"
    using Cons.IH Cons.prems by simp
  ultimately show ?case
    using pass2_frame_trans by fastforce
qed

lemma pass2_frame_error [simp]: "pass2_frame a (error t loc a)"
  by (auto simp: pass2_frame_def error_def)

lemma pass2_frame_error_after: "pass2_frame a b \<Longrightarrow> pass2_frame a (error t loc b)"
  using pass2_frame_trans pass2_frame_error by blast

lemma pass2_frame_lookupVariable [simp]: "pass2_frame a (snd (lookupVariable name a))"
  by (auto simp: pass2_frame_def lookupVariable_def Let_def split: option.splits)

lemma pass2_frame_declareVariable [simp]: "pass2_frame a (declareVariable name t loc d a)"
  by (auto simp: pass2_frame_def declareVariable_def split: option.splits)

lemma pass2_frame_markUsed [simp]: "pass2_frame a (markUsed name a)"
  by (auto simp: pass2_frame_def markUsed_def)

lemma pass2_frame_useVariable [simp]: "pass2_frame a (useVariable name loc a)"
proof -
  obtain r a1 where l: "lookupVariable name a = (r, a1)" by (cases "lookupVariable name a")
  have 1: "pass2_frame a a1" using pass2_frame_lookupVariable [of a name] l by simp
  have 2: "pass2_frame a1 (markUsed name (declareVariable name t loc False a1))" for t
    by (rule pass2_frame_trans [OF pass2_frame_declareVariable pass2_frame_markUsed])
  have 3: "pass2_frame a1 (markUsed name a1)" by simp
  show ?thesis
    using pass2_frame_trans [OF 1 2] pass2_frame_trans [OF 1 3]
    by (cases r) (simp_all add: useVariable_def l)
qed

lemma pass2_frame_useArray [simp]: "pass2_frame a (useArray name n loc a)"
  by (auto simp: useArray_def split: option.splits)

lemma pass2_frame_addLineReference [simp]: "pass2_frame a (addLineReference n loc a)"
  by (auto simp: pass2_frame_def addLineReference_def split: option.splits)

lemma pass2_frame_addLabelReference [simp]: "pass2_frame a (addLabelReference name loc a)"
  by (auto simp: pass2_frame_def addLabelReference_def split: option.splits)

lemma pass2_frame_checkTypeCompatibility [simp]:
  "pass2_frame a (checkTypeCompatibility e t loc a)"
  by (simp add: checkTypeCompatibility_def)

lemma pass2_frame_index_step:
  assumes "\<And>b. pass2_frame b (snd (inferExpressionType x b))"
  shows "pass2_frame b
     (case inferExpressionType x (snd (inferExpressionType x b)) of
        (indexType, b2) \<Rightarrow> if isNumericType indexType then b2 else error INVALID_ARRAY_INDEX loc b2)"
proof -
  obtain t b2 where r: "inferExpressionType x (snd (inferExpressionType x b)) = (t, b2)"
    by (cases "inferExpressionType x (snd (inferExpressionType x b))")
  have "pass2_frame b (snd (inferExpressionType x b))" by (rule assms)
  moreover have "pass2_frame (snd (inferExpressionType x b)) b2"
    using assms [of "snd (inferExpressionType x b)"] r by simp
  ultimately have "pass2_frame b b2" by (rule pass2_frame_trans)
  then show ?thesis
    by (simp add: r pass2_frame_error_after)
qed

lemma pass2_frame_inferExpressionType: "pass2_frame a (snd (inferExpressionType e a))"
proof (induction e arbitrary: a)
  case (NumberExpression v)
  show ?case by simp
next
  case (StringExpression s)
  show ?case by simp
next
  case (VariableExpression name loc)
  have "pass2_frame a (snd (lookupVariable name (useVariable name loc a)))"
    using pass2_frame_trans [OF pass2_frame_useVariable pass2_frame_lookupVariable] .
  then show ?case
    by (cases "lookupVariable name (useVariable name loc a)") (auto split: option.splits)
next
  case (ArrayAccessExpression name indices loc)
  have args: "\<And>b. pass2_frame b (fold (\<lambda>arg b. snd (inferExpressionType arg b)) indices b)"
    by (rule pass2_frame_fold) (simp add: ArrayAccessExpression.IH)
  have idx: "\<And>b. pass2_frame b
      (fold (\<lambda>index b. case inferExpressionType index (snd (inferExpressionType index b)) of
                (indexType, b2) \<Rightarrow>
                  if isNumericType indexType then b2 else error INVALID_ARRAY_INDEX loc b2)
         indices b)"
    by (rule pass2_frame_fold) (simp add: pass2_frame_index_step ArrayAccessExpression.IH)
  have use: "pass2_frame a (useArray name (length indices) loc a)" by simp
  show ?case
    by (auto simp: args split: option.splits
        intro: pass2_frame_trans [OF use idx] pass2_frame_trans [OF pass2_frame_error args])
next
  case (FunctionCallExpression name isFN arguments loc)
  have args: "\<And>b. pass2_frame b (fold (\<lambda>arg b. snd (inferExpressionType arg b)) arguments b)"
    by (rule pass2_frame_fold) (simp add: FunctionCallExpression.IH)
  show ?case
    by (auto simp: args pass2_frame_error_after split: option.splits)
next
  case (RegistryFunctionExpression name rt arguments loc)
  have args: "\<And>b. pass2_frame b (fold (\<lambda>arg b. snd (inferExpressionType arg b)) arguments b)"
    by (rule pass2_frame_fold) (simp add: RegistryFunctionExpression.IH)
  show ?case
    by (auto simp: args pass2_frame_error_after split: option.splits)
next
  case (BinaryExpression op left right)
  obtain lt a1 where l: "inferExpressionType left a = (lt, a1)"
    by (cases "inferExpressionType left a")
  obtain rt a2 where r: "inferExpressionType right a1 = (rt, a2)"
    by (cases "inferExpressionType right a1")
  from BinaryExpression.IH(1) [of a] l have "pass2_frame a a1" by simp
  moreover from BinaryExpression.IH(2) [of a1] r have "pass2_frame a1 a2" by simp
  ultimately show ?case
    by (simp add: l r pass2_frame_trans [of a a1 a2])
next
  case (UnaryExpression op e)
  then show ?case
    by (cases "inferExpressionType e a") (use UnaryExpression.IH [of a] in auto)
next
  case (IIFExpression c t f)
  show ?case by simp
qed


lemma pass2_frame_validateExpression [simp]: "pass2_frame a (validateExpression e a)"
  by (simp add: validateExpression_def pass2_frame_inferExpressionType)

lemma pass2_frame_update_stacks [simp]:
  "pass2_frame a (a\<lparr> m_forStack := fs \<rparr>)"
  "pass2_frame a (a\<lparr> m_whileStack := ws \<rparr>)"
  "pass2_frame a (a\<lparr> m_repeatStack := rs \<rparr>)"
  "pass2_frame a (a\<lparr> m_doStack := ds \<rparr>)"
  "pass2_frame a (a\<lparr> m_currentLineNumber := n \<rparr>)"
  by (simp_all add: pass2_frame_def)

lemma pass2_frame_step: "pass2_frame a b \<Longrightarrow> (\<And>c. pass2_frame c (f c)) \<Longrightarrow> pass2_frame a (f b)"
  using pass2_frame_trans by blast

lemma pass2_frame_validateGotoStatement [simp]:
  "pass2_frame a (validateGotoStatement isLabel label n loc a)"
  by (simp add: validateGotoStatement_def split: option.splits)

lemma pass2_frame_validateGosubStatement [simp]:
  "pass2_frame a (validateGosubStatement isLabel label n loc a)"
  by (simp add: validateGosubStatement_def split: option.splits)

lemma pass2_frame_validateRestoreStatement [simp]:
  "pass2_frame a (validateRestoreStatement isLabel label n loc a)"
  by (simp add: validateRestoreStatement_def)

lemma pass2_frame_validateLetIndex [simp]: "pass2_frame a (validateLetIndex loc index a)"
proof -
  obtain t a1 where r: "inferExpressionType index (validateExpression index a) = (t, a1)"
    by (cases "inferExpressionType index (validateExpression index a)")
  have "pass2_frame (validateExpression index a) a1"
    using pass2_frame_inferExpressionType [of "validateExpression index a" index] r by simp
  then have "pass2_frame a a1"
    using pass2_frame_trans [OF pass2_frame_validateExpression] by blast
  then show ?thesis
    by (simp add: validateLetIndex_def r pass2_frame_error_after)
qed

lemma pass2_frame_validateLetStatement [simp]:
  "pass2_frame a (validateLetStatement variable indices val loc a)"
proof -
  define a1 where "a1 = fold (validateLetIndex loc) indices a"
  define a2 where "a2 = (if indices \<noteq> [] then useArray variable (length indices) loc a1
                else useVariable variable loc a1)"
  define a3 where "a3 = validateExpression val a2"
  define ta where "ta = (if indices \<noteq> [] then
               (case arrays (m_symbolTable a3) variable of
                  Some arraySym \<Rightarrow> (arr_type arraySym, a3)
                | None \<Rightarrow> (VariableType.UNKNOWN, a3))
             else
               (case lookupVariable variable a3 of
                  (Some varSym, b) \<Rightarrow> (var_type varSym, b)
                | (None, b) \<Rightarrow> (VariableType.UNKNOWN, b)))"
  define va where "va = inferExpressionType val (snd ta)"
  have eq: "validateLetStatement variable indices val loc a
              = checkTypeCompatibility (fst ta) (fst va) loc (snd va)"
    unfolding validateLetStatement_def Let_def split_beta va_def ta_def a3_def a2_def a1_def
    by (rule refl)
  have "pass2_frame a a1" unfolding a1_def by (rule pass2_frame_fold) simp
  also have "pass2_frame a1 a2" by (simp add: a2_def)
  also have "pass2_frame a2 a3" by (simp add: a3_def)
  also have "pass2_frame a3 (snd ta)"
    using pass2_frame_lookupVariable [of a3 variable]
    by (cases "lookupVariable variable a3") (auto simp: ta_def split: option.splits)
  also have "pass2_frame (snd ta) (snd va)"
    by (simp add: va_def pass2_frame_inferExpressionType)
  also have "pass2_frame (snd va) (checkTypeCompatibility (fst ta) (fst va) loc (snd va))" by simp
  finally show ?thesis by (simp only: eq)
qed

lemma pass2_frame_validateForStatement [simp]:
  "pass2_frame a (validateForStatement variable start end step loc a)"
proof -
  define a1 where "a1 = useVariable variable loc a"
  define a2 where "a2 = validateExpression start a1"
  define a3 where "a3 = validateExpression end a2"
  define a4 where "a4 = (case step of Some s \<Rightarrow> validateExpression s a3 | None \<Rightarrow> a3)"
  define r5 where "r5 = inferExpressionType start a4"
  define r6 where "r6 = inferExpressionType end (snd r5)"
  define a7 where "a7 = (if \<not> isNumericType (fst r5) \<or> \<not> isNumericType (fst r6)
                then error TYPE_MISMATCH loc (snd r6) else snd r6)"
  have eq: "validateForStatement variable start end step loc a
              = a7\<lparr> m_forStack := (variable, loc) # m_forStack a7 \<rparr>"
    unfolding validateForStatement_def Let_def split_beta a7_def r6_def r5_def a4_def a3_def
      a2_def a1_def
    by (rule refl)
  have "pass2_frame a a1" by (simp add: a1_def)
  also have "pass2_frame a1 a2" by (simp add: a2_def)
  also have "pass2_frame a2 a3" by (simp add: a3_def)
  also have "pass2_frame a3 a4" by (cases step) (simp_all add: a4_def)
  also have "pass2_frame a4 (snd r5)" by (simp add: r5_def pass2_frame_inferExpressionType)
  also have "pass2_frame (snd r5) (snd r6)" by (simp add: r6_def pass2_frame_inferExpressionType)
  also have "pass2_frame (snd r6) a7" by (simp add: a7_def)
  also have "pass2_frame a7 (a7\<lparr> m_forStack := (variable, loc) # m_forStack a7 \<rparr>)" by simp
  finally show ?thesis by (simp only: eq)
qed

lemma pass2_frame_validateForInStatement [simp]:
  "pass2_frame a (validateForInStatement variable indexVariable array loc a)"
proof -
  define a1 where "a1 = useVariable variable loc a"
  define a2 where "a2 = (if indexVariable \<noteq> [] then useVariable indexVariable loc a1 else a1)"
  define a3 where "a3 = validateExpression array a2"
  define a4 where "a4 = snd (inferExpressionType array a3)"
  have eq: "validateForInStatement variable indexVariable array loc a
              = a4\<lparr> m_forStack := (variable, loc) # m_forStack a4 \<rparr>"
    unfolding validateForInStatement_def Let_def a4_def a3_def a2_def a1_def
    by (rule refl)
  have "pass2_frame a a1" by (simp add: a1_def)
  also have "pass2_frame a1 a2" by (simp add: a2_def)
  also have "pass2_frame a2 a3" by (simp add: a3_def)
  also have "pass2_frame a3 a4" by (simp add: a4_def pass2_frame_inferExpressionType)
  also have "pass2_frame a4 (a4\<lparr> m_forStack := (variable, loc) # m_forStack a4 \<rparr>)" by simp
  finally show ?thesis by (simp only: eq)
qed

lemma pass2_frame_validateNextStatement [simp]:
  "pass2_frame a (validateNextStatement variable loc a)"
  by (cases "m_forStack a")
     (auto simp: validateNextStatement_def intro: pass2_frame_step [OF pass2_frame_error])

lemma pass2_frame_validateWhileStatement [simp]:
  "pass2_frame a (validateWhileStatement condition loc a)"
  by (simp add: validateWhileStatement_def Let_def pass2_frame_step [OF pass2_frame_validateExpression])

lemma pass2_frame_validateWendStatement [simp]: "pass2_frame a (validateWendStatement loc a)"
  by (cases "m_whileStack a") (simp_all add: validateWendStatement_def)

lemma pass2_frame_validateRepeatStatement [simp]: "pass2_frame a (validateRepeatStatement loc a)"
  by (simp add: validateRepeatStatement_def)

lemma pass2_frame_validateUntilStatement [simp]:
  "pass2_frame a (validateUntilStatement condition loc a)"
  by (cases "m_repeatStack a")
     (simp_all add: validateUntilStatement_def pass2_frame_step [OF pass2_frame_error]
        pass2_frame_step [OF pass2_frame_update_stacks(3)])

lemma pass2_frame_validateDoStatement [simp]:
  "pass2_frame a (validateDoStatement condition loc a)"
  by (cases condition)
     (simp_all add: validateDoStatement_def Let_def pass2_frame_step [OF pass2_frame_validateExpression])

lemma pass2_frame_validateLoopStatement [simp]:
  "pass2_frame a (validateLoopStatement condition loc a)"
  by (cases condition; cases "m_doStack a")
     (simp_all add: validateLoopStatement_def Let_def pass2_frame_step [OF pass2_frame_error]
        pass2_frame_step [OF pass2_frame_update_stacks(4)])

lemma pass2_frame_validateStatement: "pass2_frame a (validateStatement stmt a)"
proof (induction stmt arbitrary: a)
  case (IfStatement condition hasGoto gotoLine thenStatements elseStatements loc)
  let ?c = "validateExpression condition a"
  have thens: "pass2_frame b (fold (\<lambda>s b. validateStatement s b) thenStatements b)" for b
    by (rule pass2_frame_fold) (simp add: IfStatement.IH(1))
  have elses: "pass2_frame b (fold (\<lambda>s b. validateStatement s b) elseStatements b)" for b
    by (rule pass2_frame_fold) (simp add: IfStatement.IH(2))
  have c: "pass2_frame a ?c" by simp
  have mid: "pass2_frame a
       (if hasGoto then
          (case lineNumbers (m_symbolTable ?c) gotoLine of
             None \<Rightarrow> error UNDEFINED_LINE loc ?c
           | Some lineSym \<Rightarrow> addLineReference gotoLine loc ?c)
        else fold (\<lambda>s b. validateStatement s b) thenStatements ?c)"
    using pass2_frame_trans [OF c thens] pass2_frame_trans [OF c pass2_frame_error]
      pass2_frame_trans [OF c pass2_frame_addLineReference]
    by (simp split: option.splits)
  show ?case
    using pass2_frame_trans [OF mid elses] by simp
qed (simp_all add: pass2_frame_fold)

lemma pass2_frame_validateProgramLine: "pass2_frame a (validateProgramLine line a)"
proof -
  have "pass2_frame (a\<lparr> m_currentLineNumber := lineNumber line \<rparr>)
          (fold validateStatement (statements line) (a\<lparr> m_currentLineNumber := lineNumber line \<rparr>))"
    by (rule pass2_frame_fold) (rule pass2_frame_validateStatement)
  then show ?thesis
    using pass2_frame_trans [OF pass2_frame_update_stacks(5)]
    by (simp add: validateProgramLine_def)
qed

lemma pass2_frame_validateControlFlow: "pass2_frame a (validateControlFlow a)"
  by (cases "m_forStack a"; cases "m_whileStack a"; cases "m_repeatStack a")
     (simp_all add: validateControlFlow_def error_def pass2_frame_def subset_insertI2)

lemma pass2_frame_warning [simp]: "pass2_frame a (warning msg loc a)"
  by (simp add: warning_def pass2_frame_def)

lemma pass2_frame_checkUnusedVariables: "pass2_frame a (checkUnusedVariables a)"
proof -
  have "pass2_frame b (fold (\<lambda>(k, symb) b.
             if \<not> isUsed symb \<and> isDeclared symb
             then warning (''Variable '' @ [CHR 0x27] @ var_name symb @ [CHR 0x27]
                           @ '' declared but never used'') (firstUse symb) b
             else b) xs b)" for xs b
    by (rule pass2_frame_fold) (simp add: split_beta)
  then show ?thesis by (simp add: checkUnusedVariables_def)
qed

text \<open>An error that one element of a fold reports is still there at the end.\<close>

lemma fold_reports:
  assumes x: "x \<in> set xs"
    and frame: "\<And>y b. pass2_frame b (f y b)"
    and report: "\<And>b. dom (lineNumbers (m_symbolTable b)) = D \<Longrightarrow> e \<in> set (m_errors (f x b))"
    and start: "dom (lineNumbers (m_symbolTable a)) = D"
  shows "e \<in> set (m_errors (fold f xs a))"
proof -
  from x obtain ys zs where xs: "xs = ys @ x # zs"
    by (auto simp: in_set_conv_decomp)
  have "pass2_frame a (fold f ys a)"
    by (rule pass2_frame_fold) (rule frame)
  with start have "dom (lineNumbers (m_symbolTable (fold f ys a))) = D"
    by (simp add: pass2_frame_def)
  then have "e \<in> set (m_errors (f x (fold f ys a)))" by (rule report)
  moreover have "pass2_frame (f x (fold f ys a)) (fold f zs (f x (fold f ys a)))"
    by (rule pass2_frame_fold) (rule frame)
  ultimately show ?thesis
    by (auto simp: xs pass2_frame_def)
qed


subsection \<open>Pass 1 and the line table\<close>

lemma dom_lineNumbers_collectLineNumber:
  "dom (lineNumbers (m_symbolTable (collectLineNumber (i, line) a)))
     = dom (lineNumbers (m_symbolTable a)) \<union> (if lineNumber line > 0 then {lineNumber line} else {})"
  by (auto simp: collectLineNumber_def error_def)

lemma dom_lineNumbers_fold_collectLineNumber:
  "dom (lineNumbers (m_symbolTable (fold collectLineNumber (enumerate k program) a)))
     = dom (lineNumbers (m_symbolTable a)) \<union> program_line_numbers program"
proof (induction program arbitrary: k a)
  case Nil
  then show ?case by (simp add: program_line_numbers_def)
next
  case (Cons line program)
  show ?case
    by (simp add: Cons.IH dom_lineNumbers_collectLineNumber)
       (auto simp: program_line_numbers_def)
qed

lemma lineNumbers_declareLabel [simp]:
  "lineNumbers (m_symbolTable (declareLabel name i loc a)) = lineNumbers (m_symbolTable a)"
  by (simp add: declareLabel_def error_def)

lemma lineNumbers_fold:
  "(\<And>x b. lineNumbers (m_symbolTable (f x b)) = lineNumbers (m_symbolTable b)) \<Longrightarrow>
   lineNumbers (m_symbolTable (fold f xs a)) = lineNumbers (m_symbolTable a)"
  by (induction xs arbitrary: a) simp_all

lemma lineNumbers_collectLabel [simp]:
  "lineNumbers (m_symbolTable (collectLabel i stmt a)) = lineNumbers (m_symbolTable a)"
  by (cases stmt) (simp_all add: collectLabel_def)

lemma lineNumbers_collectLabels [simp]:
  "lineNumbers (m_symbolTable (collectLabels program a)) = lineNumbers (m_symbolTable a)"
  unfolding collectLabels_def
  by (rule lineNumbers_fold) (simp add: split_beta lineNumbers_fold)

lemma lineNumbers_fold_processDimension:
  "lineNumbers (m_symbolTable (snd (snd (fold (processDimension loc) ds (dims, t, a)))))
     = lineNumbers (m_symbolTable a)"
proof (induction ds arbitrary: dims t a)
  case Nil
  then show ?case by simp
next
  case (Cons d ds)
  obtain dims' t' a' where step: "processDimension loc d (dims, t, a) = (dims', t', a')"
    by (cases "processDimension loc d (dims, t, a)")
  then have "lineNumbers (m_symbolTable a') = lineNumbers (m_symbolTable a)"
    by (cases d) (auto simp: processDimension_def error_def warning_def split: if_splits)
  with Cons.IH [of dims' t' a'] step show ?case by simp
qed

lemma lineNumbers_processArrayDim [simp]:
  "lineNumbers (m_symbolTable (processArrayDim loc ad a)) = lineNumbers (m_symbolTable a)"
proof (cases "arrays (m_symbolTable a) (dim_name ad)")
  case None
  obtain dims t a1 where f: "fold (processDimension loc) (dim_dimensions ad) ([], 1, a) = (dims, t, a1)"
    by (cases "fold (processDimension loc) (dim_dimensions ad) ([], 1, a)")
  with lineNumbers_fold_processDimension [of loc "dim_dimensions ad" "[]" 1 a]
  have "lineNumbers (m_symbolTable a1) = lineNumbers (m_symbolTable a)" by simp
  with None f show ?thesis by (simp add: processArrayDim_def)
next
  case (Some s)
  then show ?thesis by (simp add: processArrayDim_def error_def)
qed

lemma lineNumbers_collectDim [simp]:
  "lineNumbers (m_symbolTable (collectDim stmt a)) = lineNumbers (m_symbolTable a)"
  by (cases stmt) (simp_all add: collectDim_def processDimStatement_def lineNumbers_fold)

lemma lineNumbers_collectDef [simp]:
  "lineNumbers (m_symbolTable (collectDef stmt a)) = lineNumbers (m_symbolTable a)"
  by (cases stmt) (simp_all add: collectDef_def processDefStatement_def error_def)

lemma lineNumbers_collectFunctionOrSub [simp]:
  "lineNumbers (m_symbolTable (collectFunctionOrSub stmt a)) = lineNumbers (m_symbolTable a)"
  by (cases stmt)
     (simp_all add: collectFunctionOrSub_def processFunctionStatement_def
        processSubStatement_def error_def)

lemma lineNumbers_collectStatements:
  "(\<And>x b. lineNumbers (m_symbolTable (f x b)) = lineNumbers (m_symbolTable b)) \<Longrightarrow>
   lineNumbers (m_symbolTable (collectStatements f program a)) = lineNumbers (m_symbolTable a)"
  unfolding collectStatements_def
  by (rule lineNumbers_fold) (simp add: lineNumbers_fold)

lemma dom_lineNumbers_pass1:
  "dom (lineNumbers (m_symbolTable (pass1_collectDeclarations program a)))
     = dom (lineNumbers (m_symbolTable a)) \<union> program_line_numbers program"
  by (simp add: pass1_collectDeclarations_def lineNumbers_collectStatements
      collectLineNumbers_def dom_lineNumbers_fold_collectLineNumber)

lemma validateGotoStatement_missing_line:
  "n \<notin> dom (lineNumbers (m_symbolTable b)) \<Longrightarrow>
   (UNDEFINED_LINE, loc) \<in> set (m_errors (validateGotoStatement False label n loc b))"
  by (cases "lineNumbers (m_symbolTable b) n")
     (auto simp: validateGotoStatement_def error_def)

text \<open>A line target that is not in the table is reported, wherever pass 2 meets it in a
  statement.\<close>

lemma validateStatement_missing_target:
  "(n, loc) \<in> set (gotoTargets stmt) \<Longrightarrow> n \<notin> D \<Longrightarrow> dom (lineNumbers (m_symbolTable c)) = D
     \<Longrightarrow> (UNDEFINED_LINE, loc) \<in> set (m_errors (validateStatement stmt c))"
proof (induction stmt arbitrary: c)
  case (GotoStatement isLabel label lineNo loc')
  then show ?case
    by (auto simp: validateGotoStatement_missing_line split: if_splits)
next
  case (IfStatement condition hasGoto gotoLine thenStatements elseStatements loc')
  let ?c = "validateExpression condition c"
  let ?mid = "if hasGoto then
          (case lineNumbers (m_symbolTable ?c) gotoLine of
             None \<Rightarrow> error UNDEFINED_LINE loc' ?c
           | Some lineSym \<Rightarrow> addLineReference gotoLine loc' ?c)
        else fold (\<lambda>s b. validateStatement s b) thenStatements ?c"
  have frame: "pass2_frame b (validateStatement y b)" for y b
    by (rule pass2_frame_validateStatement)
  have "pass2_frame c ?c" by simp
  with IfStatement.prems(3) have domc: "dom (lineNumbers (m_symbolTable ?c)) = D"
    by (simp add: pass2_frame_def)
  have thens: "pass2_frame ?c (fold (\<lambda>s b. validateStatement s b) thenStatements ?c)"
    by (rule pass2_frame_fold) (rule frame)
  have "pass2_frame ?c ?mid"
    using thens by (auto split: option.splits)
  with domc have dommid: "dom (lineNumbers (m_symbolTable ?mid)) = D"
    by (simp only: pass2_frame_def)
  have elses: "pass2_frame ?mid (fold (\<lambda>s b. validateStatement s b) elseStatements ?mid)"
    by (rule pass2_frame_fold) (rule frame)
  have result: "validateStatement
                  (IfStatement condition hasGoto gotoLine thenStatements elseStatements loc') c
                = fold (\<lambda>s b. validateStatement s b) elseStatements ?mid"
    by simp
  from IfStatement.prems(1)
  consider (line) "hasGoto" "n = gotoLine" "loc = loc'"
    | (thenBranch) t where "\<not> hasGoto" "t \<in> set thenStatements" "(n, loc) \<in> set (gotoTargets t)"
    | (elseBranch) t where "t \<in> set elseStatements" "(n, loc) \<in> set (gotoTargets t)"
    by (auto split: if_splits)
  then show ?case
  proof cases
    case line
    with IfStatement.prems(2) domc have "lineNumbers (m_symbolTable ?c) gotoLine = None"
      by auto
    with line have "(UNDEFINED_LINE, loc) \<in> set (m_errors ?mid)"
      by (simp add: error_def)
    with elses show ?thesis
      unfolding result by (auto simp: pass2_frame_def)
  next
    case thenBranch
    have "(UNDEFINED_LINE, loc) \<in> set (m_errors (fold (\<lambda>s b. validateStatement s b) thenStatements ?c))"
      by (rule fold_reports [OF thenBranch(2), where D = D])
        (simp_all add: frame domc IfStatement.IH(1) [OF thenBranch(2,3) IfStatement.prems(2)])
    with thenBranch(1) have "(UNDEFINED_LINE, loc) \<in> set (m_errors ?mid)"
      by simp
    with elses show ?thesis
      unfolding result by (auto simp: pass2_frame_def)
  next
    case elseBranch
    show ?thesis
      unfolding result
      by (rule fold_reports [OF elseBranch(1), where D = D])
        (simp_all only: frame dommid IfStatement.IH(2) [OF elseBranch(1,2) IfStatement.prems(2)])
  qed
qed simp_all

lemma analyze_reports_missing_target:
  assumes line: "line \<in> set program"
    and stmt: "stmt \<in> set (statements line)"
    and target: "(n, loc) \<in> set (gotoTargets stmt)"
    and missing: "n \<notin> program_line_numbers program"
  shows "\<not> fst (analyze a program options)
         \<and> (UNDEFINED_LINE, loc) \<in> set (m_errors (snd (analyze a program options)))"
proof -
  define a0 where "a0 = a\<lparr> m_errors := [], m_warnings := [],
                  m_symbolTable := SymbolTable_new
                    \<lparr> constants := constants (m_symbolTable a),
                      arrayBase := opt_arrayBase options,
                      unicodeMode := opt_unicodeMode options,
                      errorTracking := opt_errorTracking options,
                      cancellableLoops := opt_cancellableLoops options \<rparr>,
                  m_cancellableLoops := opt_cancellableLoops options,
                  m_forStack := [], m_whileStack := [], m_repeatStack := [] \<rparr>"
  define a1 where "a1 = pass1_collectDeclarations program a0"
  define a2 where "a2 = pass2_validate program a1"
  define a3 where "a3 = validateControlFlow a2"
  define a4 where "a4 = (if m_warnUnused a3 then checkUnusedVariables a3 else a3)"
  define D where "D = program_line_numbers program"
  have result: "analyze a program options = (m_errors a4 = [], a4)"
    by (simp add: analyze_def Let_def a0_def a1_def a2_def a3_def a4_def)
  have "dom (lineNumbers (m_symbolTable a0)) = {}"
    by (simp add: a0_def SymbolTable_new_def)
  then have D1: "dom (lineNumbers (m_symbolTable a1)) = D"
    by (simp add: a1_def D_def dom_lineNumbers_pass1)
  have in_line: "(UNDEFINED_LINE, loc) \<in> set (m_errors (validateProgramLine line b))"
    if b: "dom (lineNumbers (m_symbolTable b)) = D" for b
    unfolding validateProgramLine_def
  proof (rule fold_reports [OF stmt, where D = D])
    show "pass2_frame c (validateStatement y c)" for y c
      by (rule pass2_frame_validateStatement)
    show "(UNDEFINED_LINE, loc) \<in> set (m_errors (validateStatement stmt c))"
      if "dom (lineNumbers (m_symbolTable c)) = D" for c
      using target missing that by (simp add: D_def validateStatement_missing_target)
    show "dom (lineNumbers (m_symbolTable (b\<lparr> m_currentLineNumber := lineNumber line \<rparr>))) = D"
      using b by simp
  qed
  have "(UNDEFINED_LINE, loc) \<in> set (m_errors a2)"
    unfolding a2_def pass2_validate_def
    by (rule fold_reports [OF line, where D = D])
       (simp_all add: pass2_frame_validateProgramLine in_line D1)
  moreover have "pass2_frame a2 a3"
    by (simp add: a3_def pass2_frame_validateControlFlow)
  moreover have "pass2_frame a3 a4"
    by (simp add: a4_def pass2_frame_checkUnusedVariables)
  ultimately have "(UNDEFINED_LINE, loc) \<in> set (m_errors a4)"
    by (auto simp: pass2_frame_def)
  then show ?thesis
    by (auto simp: result)
qed

section \<open>Properties of the IR generator\<close>

subsection \<open>What lowering an expression leaves alone\<close>

lemma same_static_refl [simp]: "same_static g g"
  by (simp add: same_static_def)

lemma same_static_trans [trans]: "same_static a b \<Longrightarrow> same_static b c \<Longrightarrow> same_static a c"
  by (simp add: same_static_def)

lemma same_static_push_back [simp]: "same_static g (push_back_instruction i g)"
  by (simp add: same_static_def push_back_instruction_def)

lemma same_static_emit [simp]: "same_static g (emit opc ops g)"
  by (simp add: emit_def)

lemma same_static_emit_array [simp]: "same_static g (emit_array opc name n g)"
  by (simp add: emit_array_def)

lemma same_static_emitNumber [simp]: "same_static g (emitNumber v g)"
  by (simp add: emitNumber_def)

lemma same_static_emitVariable [simp]: "same_static g (emitVariable name g)"
  by (simp add: emitVariable_def split: option.splits)

lemma same_static_unaryEmit [simp]: "same_static g (unaryEmit op g)"
  by (cases op) (simp_all add: unaryEmit_def)

lemma same_static_update [simp]:
  "same_static g (h\<lparr> m_parameterMap := pm \<rparr>) = same_static g h"
  "same_static g (h\<lparr> m_inFunctionInlining := b \<rparr>) = same_static g h"
  "same_static (g\<lparr> m_parameterMap := pm \<rparr>) h = same_static g h"
  "same_static (g\<lparr> m_inFunctionInlining := b \<rparr>) h = same_static g h"
  by (simp_all add: same_static_def)

lemma same_static_generateEach:
  assumes "\<And>e g g'. rec e g = Some g' \<Longrightarrow> same_static g g'"
  shows "generateEach rec es g = Some g' \<Longrightarrow> same_static g g'"
proof (induction es arbitrary: g)
  case Nil
  then show ?case by simp
next
  case (Cons e es)
  then obtain g1 where 1: "rec e g = Some g1" and 2: "generateEach rec es g1 = Some g'"
    by (auto split: option.splits)
  from assms [OF 1] Cons.IH [OF 2] show ?case by (rule same_static_trans)
qed

lemma same_static_bindArguments:
  assumes "\<And>e g g'. rec e g = Some g' \<Longrightarrow> same_static g g'"
  shows "bindArguments rec funcName aps g = Some g' \<Longrightarrow> same_static g g'"
proof (induction aps arbitrary: g)
  case Nil
  then show ?case by simp
next
  case (Cons ap aps)
  then obtain g1 where 1: "rec (fst ap) g = Some g1"
    and 2: "bindArguments rec funcName aps
              ((emit STORE_VAR [StringOperand (''__fn_'' @ funcName @ ''_'' @ snd ap)] g1)
                 \<lparr> m_parameterMap :=
                     (m_parameterMap g1)(snd ap \<mapsto> ''__fn_'' @ funcName @ ''_'' @ snd ap) \<rparr>)
            = Some g'"
    by (auto split: option.splits)
  have "same_static g g1" by (rule assms [OF 1])
  also have "same_static g1 (emit STORE_VAR [StringOperand (''__fn_'' @ funcName @ ''_'' @ snd ap)] g1)"
    by simp
  also from Cons.IH [OF 2]
  have "same_static (emit STORE_VAR [StringOperand (''__fn_'' @ funcName @ ''_'' @ snd ap)] g1) g'"
    by simp
  finally show ?case .
qed

lemma same_static_generateInlinedFunction:
  assumes rec: "\<And>e g g'. rec e g = Some g' \<Longrightarrow> same_static g g'"
    and gen: "generateInlinedFunction rec funcName arguments g = Some g'"
  shows "same_static g g'"
proof (cases "m_userFunctions g funcName")
  case None
  with gen show ?thesis by (auto simp: generateInlinedFunction_def)
next
  case (Some func)
  with gen obtain g1 g2
    where 1: "bindArguments rec funcName (zip arguments (uf_parameters func)) g = Some g1"
      and 2: "rec (uf_body func) (g1\<lparr> m_inFunctionInlining := True \<rparr>) = Some g2"
      and 3: "g' = g2\<lparr> m_parameterMap := m_parameterMap g,
                        m_inFunctionInlining := m_inFunctionInlining g \<rparr>"
    by (auto simp: generateInlinedFunction_def split: option.splits)
  have "same_static g g1" by (rule same_static_bindArguments [OF rec 1])
  moreover from rec [OF 2] have "same_static g1 g2" by simp
  ultimately have "same_static g g2" by (rule same_static_trans)
  then show ?thesis by (simp add: 3)
qed

lemma same_static_generateCall:
  assumes rec: "\<And>e g g'. rec e g = Some g' \<Longrightarrow> same_static g g'"
    and gen: "generateCall rec name arguments g = Some g'"
  shows "same_static g g'"
proof (cases "m_userFunctions g name \<noteq> None")
  case True
  with gen show ?thesis
    by (auto simp: generateCall_def intro: same_static_generateInlinedFunction [OF rec])
next
  case False
  with gen obtain g1 opc ops where 1: "generateEach rec arguments g = Some g1"
    and 2: "g' = emit opc ops g1"
    by (auto simp: generateCall_def)
  have "same_static g g1" by (rule same_static_generateEach [OF rec 1])
  moreover have "same_static g1 g'" by (simp add: 2)
  ultimately show ?thesis by (rule same_static_trans)
qed

lemma same_static_generateExpression_body:
  assumes rec: "\<And>e g g'. rec e g = Some g' \<Longrightarrow> same_static g g'"
    and gen: "generateExpression_body rec e g = Some g'"
  shows "same_static g g'"
proof (cases e)
  case (ArrayAccessExpression name indices loc)
  show ?thesis
  proof (cases "arrays (m_symbols g) name \<noteq> None")
    case True
    with gen ArrayAccessExpression obtain g1 where 1: "generateEach rec indices g = Some g1"
      and 2: "g' = emit_array LOAD_ARRAY name (size_to_int (length indices)) g1"
      by auto
    have "same_static g g1" by (rule same_static_generateEach [OF rec 1])
    moreover have "same_static g1 g'" by (simp add: 2)
    ultimately show ?thesis by (rule same_static_trans)
  next
    case False
    with gen ArrayAccessExpression show ?thesis
      by (auto intro: same_static_generateCall [OF rec])
  qed
next
  case (FunctionCallExpression name isFN arguments loc)
  with gen show ?thesis by (auto intro: same_static_generateCall [OF rec])
next
  case (RegistryFunctionExpression name rt arguments loc)
  with gen obtain g1 where 1: "generateEach rec arguments g = Some g1"
    and 2: "g' = emit CALL_BUILTIN [StringOperand name, IntOperand (size_to_int (length arguments))] g1"
    by auto
  have "same_static g g1" by (rule same_static_generateEach [OF rec 1])
  moreover have "same_static g1 g'" by (simp add: 2)
  ultimately show ?thesis by (rule same_static_trans)
next
  case (BinaryExpression op left right)
  with gen obtain g1 g2 where 1: "rec left g = Some g1" and 2: "rec right g1 = Some g2"
    and 3: "g' = emit (binaryOpcode g2 op left right) [] g2"
    by (auto split: option.splits)
  have "same_static g g1" by (rule rec [OF 1])
  also have "same_static g1 g2" by (rule rec [OF 2])
  also have "same_static g2 g'" by (simp add: 3)
  finally show ?thesis .
next
  case (UnaryExpression op e1)
  with gen obtain g1 where 1: "rec e1 g = Some g1" and 2: "g' = unaryEmit op g1"
    by auto
  have "same_static g g1" by (rule rec [OF 1])
  moreover have "same_static g1 g'" by (simp add: 2)
  ultimately show ?thesis by (rule same_static_trans)
next
  case (IIFExpression c t f)
  with gen obtain g1 g2 g3 where 1: "rec c g = Some g1" and 2: "rec t g1 = Some g2"
    and 3: "rec f g2 = Some g3"
    and 4: "g' = emit CALL_BUILTIN [StringOperand ''__IIF'', IntOperand 3] g3"
    by (auto split: option.splits)
  have "same_static g g1" by (rule rec [OF 1])
  also have "same_static g1 g2" by (rule rec [OF 2])
  also have "same_static g2 g3" by (rule rec [OF 3])
  also have "same_static g3 g'" by (simp add: 4)
  finally show ?thesis .
qed (use gen in auto)

lemma same_static_generateExpression:
  "generateExpression fuel e g = Some g' \<Longrightarrow> same_static g g'"
proof (induction fuel arbitrary: e g g')
  case 0
  then show ?case by simp
next
  case (Suc fuel)
  show ?case
    by (rule same_static_generateExpression_body [where rec = "generateExpression fuel"])
      (use Suc in auto)
qed

subsection \<open>More fuel gives the same result\<close>

lemma generateEach_mono:
  assumes "\<And>e g g'. rec e g = Some g' \<Longrightarrow> rec' e g = Some g'"
  shows "generateEach rec es g = Some g' \<Longrightarrow> generateEach rec' es g = Some g'"
proof (induction es arbitrary: g)
  case Nil
  then show ?case by simp
next
  case (Cons e es)
  then obtain g1 where 1: "rec e g = Some g1" and 2: "generateEach rec es g1 = Some g'"
    by (auto split: option.splits)
  from assms [OF 1] Cons.IH [OF 2] show ?case by simp
qed

lemma bindArguments_mono:
  assumes "\<And>e g g'. rec e g = Some g' \<Longrightarrow> rec' e g = Some g'"
  shows "bindArguments rec funcName aps g = Some g' \<Longrightarrow> bindArguments rec' funcName aps g = Some g'"
proof (induction aps arbitrary: g)
  case Nil
  then show ?case by simp
next
  case (Cons ap aps)
  then obtain g1 where 1: "rec (fst ap) g = Some g1"
    and 2: "bindArguments rec funcName aps
              ((emit STORE_VAR [StringOperand (''__fn_'' @ funcName @ ''_'' @ snd ap)] g1)
                 \<lparr> m_parameterMap :=
                     (m_parameterMap g1)(snd ap \<mapsto> ''__fn_'' @ funcName @ ''_'' @ snd ap) \<rparr>)
            = Some g'"
    by (auto split: option.splits)
  from assms [OF 1] Cons.IH [OF 2] show ?case by simp
qed

lemma generateInlinedFunction_mono:
  assumes rec: "\<And>e g g'. rec e g = Some g' \<Longrightarrow> rec' e g = Some g'"
    and gen: "generateInlinedFunction rec funcName arguments g = Some g'"
  shows "generateInlinedFunction rec' funcName arguments g = Some g'"
proof (cases "m_userFunctions g funcName")
  case None
  with gen show ?thesis by (simp add: generateInlinedFunction_def)
next
  case (Some func)
  with gen obtain g1 g2
    where 1: "bindArguments rec funcName (zip arguments (uf_parameters func)) g = Some g1"
      and 2: "rec (uf_body func) (g1\<lparr> m_inFunctionInlining := True \<rparr>) = Some g2"
      and 3: "g' = g2\<lparr> m_parameterMap := m_parameterMap g,
                        m_inFunctionInlining := m_inFunctionInlining g \<rparr>"
    by (auto simp: generateInlinedFunction_def split: option.splits)
  from bindArguments_mono [of rec rec', OF rec 1] rec [OF 2] 3 Some show ?thesis
    by (simp add: generateInlinedFunction_def)
qed

lemma generateCall_mono:
  assumes rec: "\<And>e g g'. rec e g = Some g' \<Longrightarrow> rec' e g = Some g'"
    and gen: "generateCall rec name arguments g = Some g'"
  shows "generateCall rec' name arguments g = Some g'"
proof (cases "m_userFunctions g name \<noteq> None")
  case True
  with gen generateInlinedFunction_mono [of rec rec', OF rec] show ?thesis
    by (simp add: generateCall_def)
next
  case False
  with gen obtain g1 where 1: "generateEach rec arguments g = Some g1"
    by (auto simp: generateCall_def)
  from generateEach_mono [of rec rec', OF rec 1] gen False 1 show ?thesis
    by (simp add: generateCall_def)
qed

lemma generateExpression_body_mono:
  assumes rec: "\<And>e g g'. rec e g = Some g' \<Longrightarrow> rec' e g = Some g'"
    and gen: "generateExpression_body rec e g = Some g'"
  shows "generateExpression_body rec' e g = Some g'"
proof (cases e)
  case (ArrayAccessExpression name indices loc)
  show ?thesis
  proof (cases "arrays (m_symbols g) name \<noteq> None")
    case True
    with gen ArrayAccessExpression obtain g1 where 1: "generateEach rec indices g = Some g1"
      by auto
    from generateEach_mono [of rec rec', OF rec 1] gen ArrayAccessExpression True 1
    show ?thesis by simp
  next
    case False
    with gen ArrayAccessExpression generateCall_mono [of rec rec', OF rec] show ?thesis
      by simp
  qed
next
  case (FunctionCallExpression name isFN arguments loc)
  with gen generateCall_mono [of rec rec', OF rec] show ?thesis by simp
next
  case (RegistryFunctionExpression name rt arguments loc)
  with gen obtain g1 where 1: "generateEach rec arguments g = Some g1"
    by auto
  from generateEach_mono [of rec rec', OF rec 1] gen RegistryFunctionExpression 1
  show ?thesis by simp
next
  case (BinaryExpression op left right)
  with gen obtain g1 g2 where 1: "rec left g = Some g1" and 2: "rec right g1 = Some g2"
    by (auto split: option.splits)
  from rec [OF 1] rec [OF 2] gen BinaryExpression 1 2 show ?thesis by simp
next
  case (UnaryExpression op e1)
  with gen obtain g1 where 1: "rec e1 g = Some g1"
    by auto
  from rec [OF 1] gen UnaryExpression 1 show ?thesis by simp
next
  case (IIFExpression c t f)
  with gen obtain g1 g2 g3 where 1: "rec c g = Some g1" and 2: "rec t g1 = Some g2"
    and 3: "rec f g2 = Some g3"
    by (auto split: option.splits)
  from rec [OF 1] rec [OF 2] rec [OF 3] gen IIFExpression 1 2 3 show ?thesis by simp
qed (use gen in auto)

lemma generateExpression_Suc:
  "generateExpression fuel e g = Some g' \<Longrightarrow> generateExpression (Suc fuel) e g = Some g'"
proof (induction fuel arbitrary: e g g')
  case 0
  then show ?case by simp
next
  case (Suc fuel)
  have "generateExpression_body (generateExpression (Suc fuel)) e g = Some g'"
    by (rule generateExpression_body_mono [where rec = "generateExpression fuel"])
      (use Suc in auto)
  then show ?case by simp
qed

lemma generateExpression_add:
  "generateExpression fuel e g = Some g' \<Longrightarrow> generateExpression (fuel + k) e g = Some g'"
proof (induction k)
  case 0
  then show ?case by simp
next
  case (Suc k)
  from generateExpression_Suc [OF Suc.IH [OF Suc.prems]] show ?case by (simp only: add_Suc_right)
qed

lemma generateExpression_mono:
  assumes "generateExpression fuel e g = Some g'" and "fuel \<le> fuel'"
  shows "generateExpression fuel' e g = Some g'"
  using generateExpression_add [OF assms(1), of "fuel' - fuel"] assms(2) by simp

subsection \<open>Lowering returns when the inlined bodies nest finitely\<close>

lemma returns_withinD:
  "returns_within fuel uf isArray e \<Longrightarrow> m_userFunctions g = uf
     \<Longrightarrow> \<forall>name. isArray name = (arrays (m_symbols g) name \<noteq> None)
     \<Longrightarrow> \<exists>g'. generateExpression fuel e g = Some g'"
  by (simp add: returns_within_def)

lemma returns_within_mono:
  assumes "returns_within fuel uf isArray e" and "fuel \<le> fuel'"
  shows "returns_within fuel' uf isArray e"
  unfolding returns_within_def
proof (intro allI impI, elim conjE)
  fix g :: IRGenerator
  assume g: "m_userFunctions g = uf" "\<forall>name. isArray name = (arrays (m_symbols g) name \<noteq> None)"
  from returns_withinD [OF assms(1) g] obtain g' where "generateExpression fuel e g = Some g'" ..
  from generateExpression_mono [OF this assms(2)]
  show "\<exists>g'. generateExpression fuel' e g = Some g'" ..
qed

lemma returns_within_list:
  "\<forall>e\<in>set es. \<exists>fuel. returns_within fuel uf isArray e
     \<Longrightarrow> \<exists>fuel. \<forall>e\<in>set es. returns_within fuel uf isArray e"
proof (induction es)
  case Nil
  then show ?case by simp
next
  case (Cons e es)
  then obtain f1 f2 where 1: "returns_within f1 uf isArray e"
    and 2: "\<forall>e\<in>set es. returns_within f2 uf isArray e"
    by auto
  have "\<forall>x\<in>set (e # es). returns_within (max f1 f2) uf isArray x"
    using 1 2 by (auto intro: returns_within_mono)
  then show ?case ..
qed

lemma generateEach_returns:
  assumes "\<forall>e\<in>set es. returns_within fuel uf isArray e"
    and "m_userFunctions g = uf"
    and "\<forall>name. isArray name = (arrays (m_symbols g) name \<noteq> None)"
  shows "\<exists>g'. generateEach (generateExpression fuel) es g = Some g'"
  using assms
proof (induction es arbitrary: g)
  case Nil
  then show ?case by simp
next
  case (Cons e es)
  from Cons.prems(1) have "returns_within fuel uf isArray e" by simp
  from returns_withinD [OF this Cons.prems(2,3)]
  obtain g1 where 1: "generateExpression fuel e g = Some g1" ..
  from same_static_generateExpression [OF 1] Cons.prems
  have "m_userFunctions g1 = uf" "\<forall>name. isArray name = (arrays (m_symbols g1) name \<noteq> None)"
    by (simp_all add: same_static_def)
  with Cons.IH [of g1] Cons.prems(1) 1 show ?case by simp
qed

lemma bindArguments_returns:
  assumes "\<forall>e\<in>set (map fst aps). returns_within fuel uf isArray e"
    and "m_userFunctions g = uf"
    and "\<forall>name. isArray name = (arrays (m_symbols g) name \<noteq> None)"
  shows "\<exists>g'. bindArguments (generateExpression fuel) funcName aps g = Some g'"
  using assms
proof (induction aps arbitrary: g)
  case Nil
  then show ?case by simp
next
  case (Cons ap aps)
  from Cons.prems(1) have "returns_within fuel uf isArray (fst ap)" by simp
  from returns_withinD [OF this Cons.prems(2,3)]
  obtain g1 where 1: "generateExpression fuel (fst ap) g = Some g1" ..
  define g2 where
    "g2 = (emit STORE_VAR [StringOperand (''__fn_'' @ funcName @ ''_'' @ snd ap)] g1)
            \<lparr> m_parameterMap :=
                (m_parameterMap g1)(snd ap \<mapsto> ''__fn_'' @ funcName @ ''_'' @ snd ap) \<rparr>"
  have "same_static g1 g2" by (simp add: g2_def)
  with same_static_generateExpression [OF 1] have "same_static g g2" by (rule same_static_trans)
  with Cons.prems
  have "m_userFunctions g2 = uf" "\<forall>name. isArray name = (arrays (m_symbols g2) name \<noteq> None)"
    by (simp_all add: same_static_def)
  with Cons.IH [of g2] Cons.prems(1) 1 show ?case by (simp add: g2_def)
qed

lemma generateInlinedFunction_returns:
  assumes func: "uf name = Some func"
    and args: "\<forall>e\<in>set (take (length (uf_parameters func)) arguments). returns_within fuel uf isArray e"
    and fbody: "returns_within fuel uf isArray (uf_body func)"
    and g: "m_userFunctions g = uf" "\<forall>name. isArray name = (arrays (m_symbols g) name \<noteq> None)"
  shows "\<exists>g'. generateInlinedFunction (generateExpression fuel) name arguments g = Some g'"
proof -
  have "set (map fst (zip arguments (uf_parameters func)))
          \<subseteq> set (take (length (uf_parameters func)) arguments)"
    by (auto simp: map_fst_zip_take dest: in_set_takeD intro: set_take_subset_set_take [THEN subsetD, rotated])
  with args have "\<forall>e\<in>set (map fst (zip arguments (uf_parameters func))). returns_within fuel uf isArray e"
    by blast
  from bindArguments_returns [OF this g]
  obtain g1 where 1: "bindArguments (generateExpression fuel) name
                        (zip arguments (uf_parameters func)) g = Some g1"
    by blast
  have "same_static g g1"
    by (rule same_static_bindArguments [OF _ 1]) (rule same_static_generateExpression)
  with g have g1: "m_userFunctions (g1\<lparr> m_inFunctionInlining := True \<rparr>) = uf"
    "\<forall>name. isArray name = (arrays (m_symbols (g1\<lparr> m_inFunctionInlining := True \<rparr>)) name \<noteq> None)"
    by (simp_all add: same_static_def)
  from returns_withinD [OF fbody g1] obtain g2
    where 2: "generateExpression fuel (uf_body func) (g1\<lparr> m_inFunctionInlining := True \<rparr>) = Some g2" ..
  from func g(1) 1 2 show ?thesis by (simp add: generateInlinedFunction_def)
qed

lemma generateCall_returns:
  assumes args: "\<forall>e\<in>set (case uf name of None \<Rightarrow> arguments
                    | Some func \<Rightarrow> take (length (uf_parameters func)) arguments).
                   returns_within fuel uf isArray e"
    and fbody: "\<forall>func. uf name = Some func \<longrightarrow> returns_within fuel uf isArray (uf_body func)"
    and g: "m_userFunctions g = uf" "\<forall>name. isArray name = (arrays (m_symbols g) name \<noteq> None)"
  shows "\<exists>g'. generateCall (generateExpression fuel) name arguments g = Some g'"
proof (cases "uf name")
  case None
  with args generateEach_returns [OF _ g, of arguments fuel] g(1) show ?thesis
    by (auto simp: generateCall_def)
next
  case (Some func)
  with args fbody generateInlinedFunction_returns [OF Some _ _ g, of arguments fuel] g(1)
  show ?thesis by (simp add: generateCall_def)
qed

lemma returns_within_Suc_call:
  assumes args: "\<forall>e\<in>set (case uf name of None \<Rightarrow> arguments
                    | Some func \<Rightarrow> take (length (uf_parameters func)) arguments).
                   \<exists>fuel. returns_within fuel uf isArray e"
    and fbody: "\<forall>func. uf name = Some func \<longrightarrow> (\<exists>fuel. returns_within fuel uf isArray (uf_body func))"
  shows "\<exists>fuel. \<forall>g. m_userFunctions g = uf \<and> (\<forall>name. isArray name = (arrays (m_symbols g) name \<noteq> None))
           \<longrightarrow> (\<exists>g'. generateCall (generateExpression fuel) name arguments g = Some g')"
proof -
  from returns_within_list [OF args] obtain f1
    where 1: "\<forall>e\<in>set (case uf name of None \<Rightarrow> arguments
                | Some func \<Rightarrow> take (length (uf_parameters func)) arguments).
               returns_within f1 uf isArray e"
    by blast
  from fbody obtain f2
    where 2: "\<forall>func. uf name = Some func \<longrightarrow> returns_within f2 uf isArray (uf_body func)"
    by (cases "uf name") auto
  have "\<forall>e\<in>set (case uf name of None \<Rightarrow> arguments
                | Some func \<Rightarrow> take (length (uf_parameters func)) arguments).
               returns_within (max f1 f2) uf isArray e"
    using 1 by (auto intro: returns_within_mono)
  moreover have "\<forall>func. uf name = Some func \<longrightarrow> returns_within (max f1 f2) uf isArray (uf_body func)"
    using 2 by (auto intro: returns_within_mono)
  ultimately show ?thesis
    using generateCall_returns [where uf = uf and name = name and arguments = arguments
        and fuel = "max f1 f2" and isArray = isArray] by blast
qed

lemma returns_within_SucI:
  assumes "\<And>g :: IRGenerator. m_userFunctions g = uf \<Longrightarrow> \<forall>name. isArray name = (arrays (m_symbols g) name \<noteq> None)
             \<Longrightarrow> \<exists>g'. generateExpression_body (generateExpression fuel) e g = Some g'"
  shows "returns_within (Suc fuel) uf isArray e"
  using assms by (simp add: returns_within_def)

lemma expansionBounded_returns:
  "expansionBounded n uf isArray e \<Longrightarrow> \<exists>fuel. returns_within fuel uf isArray e"
proof (induction n uf isArray e rule: expansionBounded.induct)
  case (1 n uf isArray v)
  have "returns_within (Suc 0) uf isArray (NumberExpression v)"
    by (rule returns_within_SucI) simp
  then show ?case ..
next
  case (2 n uf isArray s)
  have "returns_within (Suc 0) uf isArray (StringExpression s)"
    by (rule returns_within_SucI) simp
  then show ?case ..
next
  case (3 n uf isArray name loc)
  have "returns_within (Suc 0) uf isArray (VariableExpression name loc)"
    by (rule returns_within_SucI) simp
  then show ?case ..
next
  case (4 n uf isArray name indices loc)
  show ?case
  proof (cases "isArray name")
    case True
    with 4 have "\<forall>e\<in>set indices. \<exists>fuel. returns_within fuel uf isArray e"
      by simp
    from returns_within_list [OF this] obtain fuel
      where f: "\<forall>e\<in>set indices. returns_within fuel uf isArray e" by blast
    have "returns_within (Suc fuel) uf isArray (ArrayAccessExpression name indices loc)"
    proof (rule returns_within_SucI)
      fix g :: IRGenerator
      assume g: "m_userFunctions g = uf" "\<forall>name. isArray name = (arrays (m_symbols g) name \<noteq> None)"
      from generateEach_returns [OF f g] True g(2)
      show "\<exists>g'. generateExpression_body (generateExpression fuel)
                   (ArrayAccessExpression name indices loc) g = Some g'"
        by auto
    qed
    then show ?thesis ..
  next
    case False
    have args: "\<forall>e\<in>set (case uf name of None \<Rightarrow> indices
                    | Some func \<Rightarrow> take (length (uf_parameters func)) indices).
                  \<exists>fuel. returns_within fuel uf isArray e"
      using 4 False by (cases "uf name") auto
    have fbody: "\<forall>func. uf name = Some func \<longrightarrow> (\<exists>fuel. returns_within fuel uf isArray (uf_body func))"
      using 4 False by (cases n) auto
    from returns_within_Suc_call [OF args fbody] obtain fuel
      where f: "\<And>g. m_userFunctions g = uf \<Longrightarrow> \<forall>name. isArray name = (arrays (m_symbols g) name \<noteq> None)
                  \<Longrightarrow> \<exists>g'. generateCall (generateExpression fuel) name indices g = Some g'"
      by blast
    have "returns_within (Suc fuel) uf isArray (ArrayAccessExpression name indices loc)"
    proof (rule returns_within_SucI)
      fix g :: IRGenerator
      assume g: "m_userFunctions g = uf" "\<forall>name. isArray name = (arrays (m_symbols g) name \<noteq> None)"
      from f [OF g] False g(2)
      show "\<exists>g'. generateExpression_body (generateExpression fuel)
                   (ArrayAccessExpression name indices loc) g = Some g'"
        by auto
    qed
    then show ?thesis ..
  qed
next
  case (5 n uf isArray name isFN arguments loc)
  have args: "\<forall>e\<in>set (case uf name of None \<Rightarrow> arguments
                  | Some func \<Rightarrow> take (length (uf_parameters func)) arguments).
                \<exists>fuel. returns_within fuel uf isArray e"
    using 5 by (cases "uf name") auto
  have fbody: "\<forall>func. uf name = Some func \<longrightarrow> (\<exists>fuel. returns_within fuel uf isArray (uf_body func))"
    using 5 by (cases n) auto
  from returns_within_Suc_call [OF args fbody] obtain fuel
    where f: "\<And>g. m_userFunctions g = uf \<Longrightarrow> \<forall>name. isArray name = (arrays (m_symbols g) name \<noteq> None)
                \<Longrightarrow> \<exists>g'. generateCall (generateExpression fuel) name arguments g = Some g'"
    by blast
  have "returns_within (Suc fuel) uf isArray (FunctionCallExpression name isFN arguments loc)"
    by (rule returns_within_SucI) (use f in simp)
  then show ?case ..
next
  case (6 n uf isArray name rt arguments loc)
  then have "\<forall>e\<in>set arguments. \<exists>fuel. returns_within fuel uf isArray e"
    by simp
  from returns_within_list [OF this] obtain fuel
    where f: "\<forall>e\<in>set arguments. returns_within fuel uf isArray e" by blast
  have "returns_within (Suc fuel) uf isArray (RegistryFunctionExpression name rt arguments loc)"
  proof (rule returns_within_SucI)
    fix g :: IRGenerator
    assume g: "m_userFunctions g = uf" "\<forall>name. isArray name = (arrays (m_symbols g) name \<noteq> None)"
    from generateEach_returns [OF f g]
    show "\<exists>g'. generateExpression_body (generateExpression fuel)
                 (RegistryFunctionExpression name rt arguments loc) g = Some g'"
      by auto
  qed
  then show ?case ..
next
  case (7 n uf isArray op left right)
  then obtain f1 f2 where 1: "returns_within f1 uf isArray left"
    and 2: "returns_within f2 uf isArray right"
    by auto
  define fuel where "fuel = max f1 f2"
  have l: "returns_within fuel uf isArray left" and r: "returns_within fuel uf isArray right"
    using 1 2 by (auto simp: fuel_def intro: returns_within_mono)
  have "returns_within (Suc fuel) uf isArray (BinaryExpression op left right)"
  proof (rule returns_within_SucI)
    fix g :: IRGenerator
    assume g: "m_userFunctions g = uf" "\<forall>name. isArray name = (arrays (m_symbols g) name \<noteq> None)"
    from returns_withinD [OF l g] obtain g1 where 1: "generateExpression fuel left g = Some g1" ..
    from same_static_generateExpression [OF 1] g
    have g1: "m_userFunctions g1 = uf" "\<forall>name. isArray name = (arrays (m_symbols g1) name \<noteq> None)"
      by (simp_all add: same_static_def)
    from returns_withinD [OF r g1] obtain g2 where 2: "generateExpression fuel right g1 = Some g2" ..
    from 1 2 show "\<exists>g'. generateExpression_body (generateExpression fuel)
                          (BinaryExpression op left right) g = Some g'"
      by simp
  qed
  then show ?case ..
next
  case (8 n uf isArray op e)
  then obtain fuel where f: "returns_within fuel uf isArray e"
    by auto
  have "returns_within (Suc fuel) uf isArray (UnaryExpression op e)"
  proof (rule returns_within_SucI)
    fix g :: IRGenerator
    assume g: "m_userFunctions g = uf" "\<forall>name. isArray name = (arrays (m_symbols g) name \<noteq> None)"
    from returns_withinD [OF f g] obtain g1 where "generateExpression fuel e g = Some g1" ..
    then show "\<exists>g'. generateExpression_body (generateExpression fuel) (UnaryExpression op e) g = Some g'"
      by simp
  qed
  then show ?case ..
next
  case (9 n uf isArray c t f)
  then obtain f1 f2 f3 where 1: "returns_within f1 uf isArray c"
    and 2: "returns_within f2 uf isArray t" and 3: "returns_within f3 uf isArray f"
    by auto
  define fuel where "fuel = max f1 (max f2 f3)"
  have c: "returns_within fuel uf isArray c" and t: "returns_within fuel uf isArray t"
    and f: "returns_within fuel uf isArray f"
    using 1 2 3 by (auto simp: fuel_def intro: returns_within_mono)
  have "returns_within (Suc fuel) uf isArray (IIFExpression c t f)"
  proof (rule returns_within_SucI)
    fix g :: IRGenerator
    assume g: "m_userFunctions g = uf" "\<forall>name. isArray name = (arrays (m_symbols g) name \<noteq> None)"
    from returns_withinD [OF c g] obtain g1 where 1: "generateExpression fuel c g = Some g1" ..
    from same_static_generateExpression [OF 1] g
    have g1: "m_userFunctions g1 = uf" "\<forall>name. isArray name = (arrays (m_symbols g1) name \<noteq> None)"
      by (simp_all add: same_static_def)
    from returns_withinD [OF t g1] obtain g2 where 2: "generateExpression fuel t g1 = Some g2" ..
    from same_static_generateExpression [OF 2] g1
    have g2: "m_userFunctions g2 = uf" "\<forall>name. isArray name = (arrays (m_symbols g2) name \<noteq> None)"
      by (simp_all add: same_static_def)
    from returns_withinD [OF f g2] obtain g3 where 3: "generateExpression fuel f g2 = Some g3" ..
    from 1 2 3 show "\<exists>g'. generateExpression_body (generateExpression fuel) (IIFExpression c t f) g = Some g'"
      by simp
  qed
  then show ?case ..
qed

subsection \<open>The code of an expression does not depend on the code before it\<close>

lemma relocate_push_back [simp]:
  "push_back_instruction i (relocate p n w g) = relocate p n w (push_back_instruction i g)"
  by (simp add: relocate_def push_back_instruction_def)

lemma relocate_fields [simp]:
  "m_symbols (relocate p n w g) = m_symbols g"
  "m_userFunctions (relocate p n w g) = m_userFunctions g"
  "m_functions (relocate p n w g) = m_functions g"
  "m_parameterMap (relocate p n w g) = m_parameterMap g"
  "m_inFunctionInlining (relocate p n w g) = m_inFunctionInlining g"
  "m_currentLineNumber' (relocate p n w g) = m_currentLineNumber' g"
  "m_currentBlockId' (relocate p n w g) = m_currentBlockId' g"
  "m_nextLabel (relocate p n w g) = n"
  "m_whileLoopLabels (relocate p n w g) = w"
  "instructions (m_code (relocate p n w g)) = p @ instructions (m_code g)"
  by (simp_all add: relocate_def)

lemma relocate_update [simp]:
  "(relocate p n w g)\<lparr> m_parameterMap := pm \<rparr> = relocate p n w (g\<lparr> m_parameterMap := pm \<rparr>)"
  "(relocate p n w g)\<lparr> m_inFunctionInlining := b \<rparr> = relocate p n w (g\<lparr> m_inFunctionInlining := b \<rparr>)"
  by (simp_all add: relocate_def)

lemma relocate_emit [simp]: "emit opc ops (relocate p n w g) = relocate p n w (emit opc ops g)"
  by (simp add: emit_def)

lemma relocate_emit_array [simp]:
  "emit_array opc name k (relocate p n w g) = relocate p n w (emit_array opc name k g)"
  by (simp add: emit_array_def)

lemma relocate_emitNumber [simp]: "emitNumber v (relocate p n w g) = relocate p n w (emitNumber v g)"
  by (simp add: emitNumber_def)

lemma relocate_emitVariable [simp]:
  "emitVariable name (relocate p n w g) = relocate p n w (emitVariable name g)"
  by (simp add: emitVariable_def split: option.splits)

lemma relocate_unaryEmit [simp]: "unaryEmit op (relocate p n w g) = relocate p n w (unaryEmit op g)"
  by (cases op) (simp_all add: unaryEmit_def)

lemma isStringExpression_symbols:
  "m_symbols h = m_symbols g \<Longrightarrow> isStringExpression h e = isStringExpression g e"
  by (induction e) (simp_all split: option.splits)

lemma relocate_binaryOpcode [simp]:
  "binaryOpcode (relocate p n w g) op left right = binaryOpcode g op left right"
  by (cases op)
    (simp_all add: binaryOpcode_def plusOpcode_def
      isStringExpression_symbols [of "relocate p n w g" g])

lemma relocate_generateEach:
  assumes "\<And>e g. rec e (relocate p n w g) = map_option (relocate p n w) (rec e g)"
  shows "generateEach rec es (relocate p n w g) = map_option (relocate p n w) (generateEach rec es g)"
  by (induction es arbitrary: g) (simp_all add: assms split: option.splits)

lemma relocate_bindArguments:
  assumes "\<And>e g. rec e (relocate p n w g) = map_option (relocate p n w) (rec e g)"
  shows "bindArguments rec funcName aps (relocate p n w g)
           = map_option (relocate p n w) (bindArguments rec funcName aps g)"
  by (induction aps arbitrary: g) (simp_all add: assms split: option.splits)

lemma relocate_generateInlinedFunction:
  assumes "\<And>e g. rec e (relocate p n w g) = map_option (relocate p n w) (rec e g)"
  shows "generateInlinedFunction rec funcName arguments (relocate p n w g)
           = map_option (relocate p n w) (generateInlinedFunction rec funcName arguments g)"
  by (simp add: generateInlinedFunction_def relocate_bindArguments [of rec, OF assms] assms
      split: option.splits)

lemma relocate_generateCall:
  assumes "\<And>e g. rec e (relocate p n w g) = map_option (relocate p n w) (rec e g)"
  shows "generateCall rec name arguments (relocate p n w g)
           = map_option (relocate p n w) (generateCall rec name arguments g)"
  by (simp add: generateCall_def relocate_generateInlinedFunction [of rec, OF assms]
      relocate_generateEach [of rec, OF assms] option.map_comp comp_def)

lemma relocate_generateExpression_body:
  assumes "\<And>e g. rec e (relocate p n w g) = map_option (relocate p n w) (rec e g)"
  shows "generateExpression_body rec e (relocate p n w g)
           = map_option (relocate p n w) (generateExpression_body rec e g)"
  by (cases e)
    (simp_all add: assms relocate_generateCall [of rec, OF assms]
      relocate_generateEach [of rec, OF assms] option.map_comp comp_def split: option.splits)

lemma relocate_generateExpression:
  "generateExpression fuel e (relocate p n w g)
     = map_option (relocate p n w) (generateExpression fuel e g)"
proof (induction fuel arbitrary: e g)
  case 0
  then show ?case by simp
next
  case (Suc fuel)
  show ?case
    by (simp add: relocate_generateExpression_body [of "generateExpression fuel", OF Suc])
qed

section \<open>\<^verbatim>\<open>WHILE\<close> and \<^verbatim>\<open>WEND\<close>\<close>

subsection \<open>Which conditions are serialized\<close>

lemma decimal_nonempty: "decimal n \<noteq> []"
  by (subst decimal.simps) simp

lemma to_string_double_nonempty: "to_string_double v \<noteq> []"
  by (simp add: to_string_double_def Let_def decimal_nonempty)

lemma binaryOperatorText_nonempty:
  "binaryOperatorText op \<noteq> [] \<longleftrightarrow> op \<in> set serializableOperators"
  by (cases op) (simp_all add: binaryOperatorText_def serializableOperators_def)

lemma binaryOperatorText_empty:
  "binaryOperatorText op = [] \<longleftrightarrow> op \<notin> set serializableOperators"
  using binaryOperatorText_nonempty [of op] by blast

lemma serializeExpression_nonempty: "serializeExpression e \<noteq> [] \<longleftrightarrow> simple_condition e"
  by (induction e) (auto simp: to_string_double_nonempty binaryOperatorText_empty)

lemma serializeExpression_empty: "serializeExpression e = [] \<longleftrightarrow> \<not> simple_condition e"
  using serializeExpression_nonempty [of e] by blast

subsection \<open>The two lowerings\<close>

lemma generateWhile_simple:
  assumes "simple_condition cond"
  shows "generateWhile fuel cond line g =
     Some ((emit WHILE_START [StringOperand (serializeExpression cond)]
              (setSourceContext line (m_currentBlockId' g) g))
             \<lparr> m_whileLoopLabels := m_whileLoopLabels g @ [- 1] \<rparr>)"
  using assms serializeExpression_nonempty [of cond]
  by (simp add: generateWhile_def Let_def setSourceContext_def)

lemma label_state_relocate:
  "(emit LABEL [IntOperand (m_nextLabel g)]
      ((setSourceContext line (m_currentBlockId' g) g)\<lparr> m_nextLabel := wrap_int (m_nextLabel g + 1) \<rparr>))
     \<lparr> m_whileLoopLabels := m_whileLoopLabels g @ [m_nextLabel g] \<rparr>
   = relocate
       (instructions (m_code g)
          @ [instruction LABEL (IntOperand (m_nextLabel g)) line (m_currentBlockId' g)])
       (wrap_int (m_nextLabel g + 1)) (m_whileLoopLabels g @ [m_nextLabel g])
       ((setSourceContext line (m_currentBlockId' g) g)\<lparr> m_code := \<lparr> instructions = [] \<rparr> \<rparr>)"
  by (simp add: relocate_def emit_def push_back_instruction_def setSourceContext_def
      instruction_def operand_at_def)

lemma generateWhile_fallback:
  assumes "\<not> simple_condition cond"
  shows "generateWhile fuel cond line g =
     map_option
       (\<lambda>g'. emit WHILE_START [IntOperand (m_nextLabel g)]
               (relocate
                  (instructions (m_code g)
                     @ [instruction LABEL (IntOperand (m_nextLabel g)) line (m_currentBlockId' g)])
                  (wrap_int (m_nextLabel g + 1)) (m_whileLoopLabels g @ [m_nextLabel g]) g'))
       (generateExpression fuel cond
          ((setSourceContext line (m_currentBlockId' g) g)\<lparr> m_code := \<lparr> instructions = [] \<rparr> \<rparr>))"
proof -
  have s: "serializeExpression cond = []"
    using assms by (simp add: serializeExpression_empty)
  have "generateWhile fuel cond line g =
     (case generateExpression fuel cond
             ((emit LABEL [IntOperand (m_nextLabel g)]
                 ((setSourceContext line (m_currentBlockId' g) g)
                    \<lparr> m_nextLabel := wrap_int (m_nextLabel g + 1) \<rparr>))
                \<lparr> m_whileLoopLabels := m_whileLoopLabels g @ [m_nextLabel g] \<rparr>) of
        None \<Rightarrow> None
      | Some g2 \<Rightarrow> Some (emit WHILE_START [IntOperand (m_nextLabel g)] g2))"
    by (simp add: generateWhile_def Let_def s allocateLabel_def setSourceContext_def
        cong: option.case_cong)
  then show ?thesis
    by (simp only: label_state_relocate relocate_generateExpression)
       (simp split: option.splits)
qed

lemma same_static_setSourceContext_code:
  "m_currentLineNumber' ((setSourceContext line block g)\<lparr> m_code := c \<rparr>) = line"
  "m_currentBlockId' ((setSourceContext line block g)\<lparr> m_code := c \<rparr>) = block"
  by (simp_all add: setSourceContext_def)

lemma generateWend_top:
  assumes "m_whileLoopLabels g2 = w @ [l]"
  shows "\<exists>g3. generateWend line2 g2 = Inr g3
           \<and> instructions (m_code g3)
               = instructions (m_code g2)
                 @ [instruction WHILE_END (if l \<ge> 0 then IntOperand l else NoOperand) line2
                      (m_currentBlockId' g2)]
           \<and> m_whileLoopLabels g3 = w"
  using assms
  by (simp add: generateWend_def Let_def setSourceContext_def emit_def push_back_instruction_def
      instruction_def operand_at_def)

text \<open>
  Claim C7, as the code has it. A condition is simple when it is built from number
  literals, string literals, variables, unary operators and the binary operators
  \<^verbatim>\<open>+ - * / \ MOD ^ = <> < <= > >= AND OR\<close>; exactly the simple conditions have a
  serialization. For a generator whose label counter is not negative (it starts at 1 and
  only grows):
  \<^item> for a simple condition \<^verbatim>\<open>generateWhile\<close> returns, whatever the fuel; for any other
    condition it returns exactly when \<^verbatim>\<open>generateExpression\<close> returns on the condition;
  \<^item> when it returns \<open>g1\<close>, and \<open>g2\<close> is a generator with the loop stack of \<open>g1\<close> (where the
    matching \<^verbatim>\<open>WEND\<close> is lowered): for a simple condition it has appended the one
    instruction \<^verbatim>\<open>WHILE_START\<close> with the serialization as operand, and \<^verbatim>\<open>generateWend\<close>
    appends \<^verbatim>\<open>WHILE_END\<close> with no operand; for any other condition it has appended
    \<^verbatim>\<open>LABEL L\<close>, the stack code of the condition and \<^verbatim>\<open>WHILE_START L\<close>, where \<open>L\<close> is the
    label counter, which it has moved to the \<^verbatim>\<open>int\<close> after \<open>L\<close>, and \<^verbatim>\<open>generateWend\<close> appends
    \<^verbatim>\<open>WHILE_END L\<close>. In both cases \<^verbatim>\<open>generateWend\<close> leaves the loop stack as it was before
    the \<^verbatim>\<open>WHILE\<close>.
\<close>

theorem while_wend_lowering:
  assumes "0 \<le> m_nextLabel g"
  shows "(simple_condition cond \<longrightarrow>
            serializeExpression cond \<noteq> [] \<and> generateWhile fuel cond line g \<noteq> None)
    \<and> (\<not> simple_condition cond \<longrightarrow>
          serializeExpression cond = []
          \<and> (generateWhile fuel cond line g = None
               \<longleftrightarrow> expressionCode fuel cond (setSourceContext line (m_currentBlockId' g) g) = None))
    \<and> (generateWhile fuel cond line g = Some g1 \<and> m_whileLoopLabels g2 = m_whileLoopLabels g1 \<longrightarrow>
          (if simple_condition cond
           then instructions (m_code g1)
                  = instructions (m_code g)
                    @ [instruction WHILE_START (StringOperand (serializeExpression cond)) line
                         (m_currentBlockId' g)]
                \<and> (\<exists>g3. generateWend line2 g2 = Inr g3
                      \<and> instructions (m_code g3)
                          = instructions (m_code g2)
                            @ [instruction WHILE_END NoOperand line2 (m_currentBlockId' g2)]
                      \<and> m_whileLoopLabels g3 = m_whileLoopLabels g)
           else (\<exists>code. expressionCode fuel cond (setSourceContext line (m_currentBlockId' g) g)
                          = Some code
                      \<and> instructions (m_code g1)
                          = instructions (m_code g)
                            @ [instruction LABEL (IntOperand (m_nextLabel g)) line
                                 (m_currentBlockId' g)]
                            @ code
                            @ [instruction WHILE_START (IntOperand (m_nextLabel g)) line
                                 (m_currentBlockId' g)])
                \<and> m_nextLabel g1 = wrap_int (m_nextLabel g + 1)
                \<and> (\<exists>g3. generateWend line2 g2 = Inr g3
                      \<and> instructions (m_code g3)
                          = instructions (m_code g2)
                            @ [instruction WHILE_END (IntOperand (m_nextLabel g)) line2
                                 (m_currentBlockId' g2)]
                      \<and> m_whileLoopLabels g3 = m_whileLoopLabels g)))"
proof (intro conjI impI)
  assume "simple_condition cond"
  then show "serializeExpression cond \<noteq> []" "generateWhile fuel cond line g \<noteq> None"
    by (simp_all add: serializeExpression_nonempty generateWhile_simple)
next
  assume "\<not> simple_condition cond"
  then show "serializeExpression cond = []"
    and "generateWhile fuel cond line g = None
           \<longleftrightarrow> expressionCode fuel cond (setSourceContext line (m_currentBlockId' g) g) = None"
    by (simp_all add: serializeExpression_empty generateWhile_fallback expressionCode_def)
next
  assume h: "generateWhile fuel cond line g = Some g1 \<and> m_whileLoopLabels g2 = m_whileLoopLabels g1"
  let ?g0 = "(setSourceContext line (m_currentBlockId' g) g)\<lparr> m_code := \<lparr> instructions = [] \<rparr> \<rparr>"
  show "if simple_condition cond
           then instructions (m_code g1)
                  = instructions (m_code g)
                    @ [instruction WHILE_START (StringOperand (serializeExpression cond)) line
                         (m_currentBlockId' g)]
                \<and> (\<exists>g3. generateWend line2 g2 = Inr g3
                      \<and> instructions (m_code g3)
                          = instructions (m_code g2)
                            @ [instruction WHILE_END NoOperand line2 (m_currentBlockId' g2)]
                      \<and> m_whileLoopLabels g3 = m_whileLoopLabels g)
           else (\<exists>code. expressionCode fuel cond (setSourceContext line (m_currentBlockId' g) g)
                          = Some code
                      \<and> instructions (m_code g1)
                          = instructions (m_code g)
                            @ [instruction LABEL (IntOperand (m_nextLabel g)) line
                                 (m_currentBlockId' g)]
                            @ code
                            @ [instruction WHILE_START (IntOperand (m_nextLabel g)) line
                                 (m_currentBlockId' g)])
                \<and> m_nextLabel g1 = wrap_int (m_nextLabel g + 1)
                \<and> (\<exists>g3. generateWend line2 g2 = Inr g3
                      \<and> instructions (m_code g3)
                          = instructions (m_code g2)
                            @ [instruction WHILE_END (IntOperand (m_nextLabel g)) line2
                                 (m_currentBlockId' g2)]
                      \<and> m_whileLoopLabels g3 = m_whileLoopLabels g)"
  proof (cases "simple_condition cond")
    case True
    with h have g1: "g1 = (emit WHILE_START [StringOperand (serializeExpression cond)]
                             (setSourceContext line (m_currentBlockId' g) g))
                            \<lparr> m_whileLoopLabels := m_whileLoopLabels g @ [- 1] \<rparr>"
      by (simp add: generateWhile_simple)
    then have code: "instructions (m_code g1)
                  = instructions (m_code g)
                    @ [instruction WHILE_START (StringOperand (serializeExpression cond)) line
                         (m_currentBlockId' g)]"
      by (simp add: emit_def push_back_instruction_def setSourceContext_def instruction_def
          operand_at_def)
    from g1 h have "m_whileLoopLabels g2 = m_whileLoopLabels g @ [- 1]"
      by simp
    from generateWend_top [OF this, of line2] code True show ?thesis
      by simp
  next
    case False
    with h obtain g' where g': "generateExpression fuel cond ?g0 = Some g'"
      and g1: "g1 = emit WHILE_START [IntOperand (m_nextLabel g)]
               (relocate
                  (instructions (m_code g)
                     @ [instruction LABEL (IntOperand (m_nextLabel g)) line (m_currentBlockId' g)])
                  (wrap_int (m_nextLabel g + 1)) (m_whileLoopLabels g @ [m_nextLabel g]) g')"
      by (auto simp: generateWhile_fallback)
    from same_static_generateExpression [OF g']
    have ctx: "m_currentLineNumber' g' = line" "m_currentBlockId' g' = m_currentBlockId' g"
      by (simp_all add: same_static_def setSourceContext_def)
    have code: "expressionCode fuel cond (setSourceContext line (m_currentBlockId' g) g)
                  = Some (instructions (m_code g'))"
      by (simp add: expressionCode_def g')
    have instrs: "instructions (m_code g1)
                    = instructions (m_code g)
                      @ [instruction LABEL (IntOperand (m_nextLabel g)) line (m_currentBlockId' g)]
                      @ instructions (m_code g')
                      @ [instruction WHILE_START (IntOperand (m_nextLabel g)) line
                           (m_currentBlockId' g)]"
      by (simp add: g1 emit_def push_back_instruction_def instruction_def operand_at_def ctx)
    have counter: "m_nextLabel g1 = wrap_int (m_nextLabel g + 1)"
      and stack: "m_whileLoopLabels g1 = m_whileLoopLabels g @ [m_nextLabel g]"
      by (simp_all add: g1 emit_def push_back_instruction_def)
    from stack h have "m_whileLoopLabels g2 = m_whileLoopLabels g @ [m_nextLabel g]"
      by simp
    from generateWend_top [OF this, of line2] assms code instrs counter False show ?thesis
      by simp
  qed
qed

theorem while_wend_lowering_witness:
  "0 \<le> m_nextLabel fresh_generator
   \<and> simple_condition
        (BinaryExpression LESS_THAN (VariableExpression ''X'' (10, 7)) (VariableExpression ''Y'' (10, 11)))
   \<and> instructions (m_code (the (generateWhile 0
        (BinaryExpression LESS_THAN (VariableExpression ''X'' (10, 7)) (VariableExpression ''Y'' (10, 11)))
        10 fresh_generator)))
       = [instruction WHILE_START (StringOperand ''(var_X < var_Y)'') 10 (- 1)]
   \<and> (\<exists>g3. generateWend 20 (the (generateWhile 0
              (BinaryExpression LESS_THAN (VariableExpression ''X'' (10, 7))
                 (VariableExpression ''Y'' (10, 11)))
              10 fresh_generator)) = Inr g3
          \<and> instructions (m_code g3)
              = [instruction WHILE_START (StringOperand ''(var_X < var_Y)'') 10 (- 1),
                 instruction WHILE_END NoOperand 20 (- 1)]
          \<and> m_whileLoopLabels g3 = [])
   \<and> \<not> simple_condition
        (BinaryExpression TokenType.XOR (VariableExpression ''X'' (10, 7)) (VariableExpression ''Y'' (10, 13)))
   \<and> instructions (m_code (the (generateWhile 2
        (BinaryExpression TokenType.XOR (VariableExpression ''X'' (10, 7)) (VariableExpression ''Y'' (10, 13)))
        10 fresh_generator)))
       = [instruction LABEL (IntOperand 1) 10 (- 1),
          instruction LOAD_VAR (StringOperand ''X'') 10 (- 1),
          instruction LOAD_VAR (StringOperand ''Y'') 10 (- 1),
          instruction IROpcode.XOR NoOperand 10 (- 1),
          instruction WHILE_START (IntOperand 1) 10 (- 1)]
   \<and> (\<exists>g3. generateWend 20 (the (generateWhile 2
              (BinaryExpression TokenType.XOR (VariableExpression ''X'' (10, 7))
                 (VariableExpression ''Y'' (10, 13)))
              10 fresh_generator)) = Inr g3
          \<and> instructions (m_code g3)
              = [instruction LABEL (IntOperand 1) 10 (- 1),
                 instruction LOAD_VAR (StringOperand ''X'') 10 (- 1),
                 instruction LOAD_VAR (StringOperand ''Y'') 10 (- 1),
                 instruction IROpcode.XOR NoOperand 10 (- 1),
                 instruction WHILE_START (IntOperand 1) 10 (- 1),
                 instruction WHILE_END (IntOperand 1) 20 (- 1)]
          \<and> m_whileLoopLabels g3 = [])"
proof -
  let ?c1 = "BinaryExpression LESS_THAN (VariableExpression ''X'' (10, 7))
               (VariableExpression ''Y'' (10, 11))"
  let ?c2 = "BinaryExpression TokenType.XOR (VariableExpression ''X'' (10, 7))
               (VariableExpression ''Y'' (10, 13))"
  let ?g1 = "the (generateWhile 0 ?c1 10 fresh_generator)"
  let ?g2 = "the (generateWhile 2 ?c2 10 fresh_generator)"
  have g: "0 \<le> m_nextLabel fresh_generator" "m_nextLabel fresh_generator = 1"
    "instructions (m_code fresh_generator) = []" "m_currentBlockId' fresh_generator = - 1"
    "m_whileLoopLabels fresh_generator = []"
    by (simp_all add: fresh_generator_def generate_start_def)
  have c1: "simple_condition ?c1" "serializeExpression ?c1 = ''(var_X < var_Y)''"
    by (simp_all add: serializableOperators_def binaryOperatorText_def)
  have c2: "\<not> simple_condition ?c2"
    by (simp add: serializableOperators_def)
  have code: "expressionCode 2 ?c2 (setSourceContext 10 (m_currentBlockId' fresh_generator) fresh_generator)
                = Some [instruction LOAD_VAR (StringOperand ''X'') 10 (- 1),
                        instruction LOAD_VAR (StringOperand ''Y'') 10 (- 1),
                        instruction IROpcode.XOR NoOperand 10 (- 1)]"
    by code_simp
  have b1: "m_currentBlockId' ?g1 = - 1"
    by (simp add: generateWhile_simple [OF c1(1)] emit_def push_back_instruction_def
        setSourceContext_def g)
  from while_wend_lowering [OF g(1), of ?c1 0 10] c1
  have s1: "generateWhile 0 ?c1 10 fresh_generator = Some ?g1"
    by simp
  from while_wend_lowering [OF g(1), of ?c2 2 10] c2 code
  have s2: "generateWhile 2 ?c2 10 fresh_generator = Some ?g2"
    by simp
  have b2: "m_currentBlockId' ?g2 = - 1"
    by code_simp
  from while_wend_lowering [OF g(1), of ?c1 0 10 ?g1 ?g1 20] s1 c1 g b1
  have w1: "instructions (m_code ?g1)
              = [instruction WHILE_START (StringOperand ''(var_X < var_Y)'') 10 (- 1)]
            \<and> (\<exists>g3. generateWend 20 ?g1 = Inr g3
                   \<and> instructions (m_code g3)
                       = [instruction WHILE_START (StringOperand ''(var_X < var_Y)'') 10 (- 1),
                          instruction WHILE_END NoOperand 20 (- 1)]
                   \<and> m_whileLoopLabels g3 = [])"
    by (auto simp add: binaryOperatorText_def serializableOperators_def)
  from while_wend_lowering [OF g(1), of ?c2 2 10 ?g2 ?g2 20] s2 c2 g code b2
  have w2: "instructions (m_code ?g2)
              = [instruction LABEL (IntOperand 1) 10 (- 1),
                 instruction LOAD_VAR (StringOperand ''X'') 10 (- 1),
                 instruction LOAD_VAR (StringOperand ''Y'') 10 (- 1),
                 instruction IROpcode.XOR NoOperand 10 (- 1),
                 instruction WHILE_START (IntOperand 1) 10 (- 1)]
            \<and> (\<exists>g3. generateWend 20 ?g2 = Inr g3
                   \<and> instructions (m_code g3)
                       = [instruction LABEL (IntOperand 1) 10 (- 1),
                          instruction LOAD_VAR (StringOperand ''X'') 10 (- 1),
                          instruction LOAD_VAR (StringOperand ''Y'') 10 (- 1),
                          instruction IROpcode.XOR NoOperand 10 (- 1),
                          instruction WHILE_START (IntOperand 1) 10 (- 1),
                          instruction WHILE_END (IntOperand 1) 20 (- 1)]
                   \<and> m_whileLoopLabels g3 = [])"
    by (auto simp add: binaryOperatorText_def serializableOperators_def)
  from g(1) c1(1) c2 w1 w2 show ?thesis
    by (intro conjI) (simp_all only: simp_thms)
qed

text \<open>
  A condition built from variables and the binary operator \<^verbatim>\<open>XOR\<close> only, with no function
  call: it is not serialized, and the \<^verbatim>\<open>WHILE\<close> is lowered with a label.
\<close>

theorem while_xor_counterexample:
  "operators_only
     (BinaryExpression TokenType.XOR (VariableExpression ''X'' (10, 7)) (VariableExpression ''Y'' (10, 13)))
   \<and> map_option (\<lambda>g. map (\<lambda>i. (opcode i, operand1 i)) (instructions (m_code g)))
        (generateWhile 2
           (BinaryExpression TokenType.XOR (VariableExpression ''X'' (10, 7))
              (VariableExpression ''Y'' (10, 13)))
           10 fresh_generator)
       = Some [(LABEL, IntOperand 1), (LOAD_VAR, StringOperand ''X''),
               (LOAD_VAR, StringOperand ''Y''), (IROpcode.XOR, NoOperand),
               (WHILE_START, IntOperand 1)]"
  by code_simp

section \<open>Inlining of \<^verbatim>\<open>DEF FN\<close>\<close>



subsection \<open>A \<^verbatim>\<open>DEF FN\<close> that calls itself\<close>

lemma self_call_never_returns:
  assumes "m_userFunctions g name = Some func"
    and "uf_body func = FunctionCallExpression name isFN arguments loc"
  shows "generateExpression fuel (FunctionCallExpression name isFN' arguments' loc') g = None"
  using assms(1)
proof (induction fuel arbitrary: g isFN' arguments' loc')
  case 0
  then show ?case by simp
next
  case (Suc fuel)
  show ?case
  proof (cases "bindArguments (generateExpression fuel) name
                  (zip arguments' (uf_parameters func)) g")
    case None
    with Suc.prems show ?thesis
      by (simp add: generateCall_def generateInlinedFunction_def)
  next
    case (Some g1)
    have "same_static g g1"
      by (rule same_static_bindArguments [OF _ Some]) (rule same_static_generateExpression)
    with Suc.prems have "m_userFunctions (g1\<lparr> m_inFunctionInlining := True \<rparr>) name = Some func"
      by (simp add: same_static_def)
    from Suc.IH [OF this]
    have "generateExpression fuel (uf_body func) (g1\<lparr> m_inFunctionInlining := True \<rparr>) = None"
      by (simp add: assms(2))
    with Suc.prems Some show ?thesis
      by (simp add: generateCall_def generateInlinedFunction_def)
  qed
qed


section \<open>The opcode of \<^verbatim>\<open>+\<close>\<close>

text \<open>The opcode depends on the operands through \<^verbatim>\<open>isStringExpression\<close> only.\<close>

lemma binaryOpcode_PLUS:
  "binaryOpcode g TokenType.PLUS left right =
     (if isStringExpression g left \<or> isStringExpression g right
      then (if unicodeMode (m_symbols g) then UNICODE_CONCAT else STR_CONCAT)
      else ADD)"
  by (simp add: binaryOpcode_def plusOpcode_def)

text \<open>
  Claim C8 fails on string-typed operands that \<^verbatim>\<open>isStringExpression\<close> has no case for. A
  registry function declared with the return type \<^verbatim>\<open>STRING\<close> is string-typed for the
  analyzer, and so is the sum of two such calls; the generator lowers the sum with \<^verbatim>\<open>ADD\<close>.
  The built-in \<^verbatim>\<open>ASSET_GET_NAME\<close>, which the table of built-ins comments as returning a
  string, is lowered with \<^verbatim>\<open>ADD\<close> as well.
\<close>

theorem string_plus_lowered_as_ADD:
  "fst (inferExpressionType
          (RegistryFunctionExpression ''INKEY'' ReturnType.STRING [] (10, 9)) fresh_analyzer)
     = VariableType.STRING
   \<and> fst (inferExpressionType
          (BinaryExpression TokenType.PLUS
             (RegistryFunctionExpression ''INKEY'' ReturnType.STRING [] (10, 9))
             (RegistryFunctionExpression ''INKEY'' ReturnType.STRING [] (10, 19)))
          fresh_analyzer)
     = VariableType.STRING
   \<and> map_option (\<lambda>g. map opcode (instructions (m_code g)))
        (generateExpression 2
           (BinaryExpression TokenType.PLUS
              (RegistryFunctionExpression ''INKEY'' ReturnType.STRING [] (10, 9))
              (RegistryFunctionExpression ''INKEY'' ReturnType.STRING [] (10, 19)))
           fresh_generator)
       = Some [CALL_BUILTIN, CALL_BUILTIN, ADD]
   \<and> map_option (\<lambda>g. map opcode (instructions (m_code g)))
        (generateExpression 3
           (BinaryExpression TokenType.PLUS
              (ArrayAccessExpression ''ASSET_GET_NAME'' [NumberExpression 1] (10, 9))
              (ArrayAccessExpression ''ASSET_GET_NAME'' [NumberExpression 2] (10, 29)))
           fresh_generator)
       = Some [PUSH_INT, CALL_BUILTIN, PUSH_INT, CALL_BUILTIN, ADD]"
  by code_simp

section \<open>A \<^verbatim>\<open>GOTO\<close> to a line that the program does not have\<close>

text \<open>
  The jump that \<^verbatim>\<open>generateGoto\<close> appends for a \<^verbatim>\<open>GOTO\<close> to a line number: its label is the
  label of the block that \<^verbatim>\<open>getBlockForLineOrNext\<close> returns for the target, taken from the
  block labels or allocated when the block has none yet, and a new label when no block is
  returned.
\<close>

lemma generateGoto_line:
  "instructions (m_code (generateGoto False label n lineNo g))
     = instructions (m_code g)
       @ [\<lparr> opcode = JUMP,
            operand1 = IntOperand
              (if getBlockForLineOrNext (m_cfg g) n \<ge> 0
               then (case m_blockLabels g (getBlockForLineOrNext (m_cfg g) n) of
                       Some l \<Rightarrow> l | None \<Rightarrow> m_nextLabel g)
               else m_nextLabel g),
            operand2 = NoOperand, operand3 = NoOperand,
            sourceLineNumber = lineNo, blockId = m_currentBlockId' g,
            arrayElementTypeSuffix = [],
            isLoopJump = (lineNo > 0 \<and> n > 0 \<and> isBackEdge (m_cfg g) lineNo n) \<rparr>]"
  by (simp add: generateGoto_def getLabelForLineNumber_def getLabelForBlock_def allocateLabel_def
      setSourceContext_def emitLoopJump_def push_back_instruction_def Let_def
      split: option.splits)




end
